theory Spec2Isabelle
  imports Complex_Main
begin

section \<open>Values exchanged with the reasoning service and the stores\<close>

text \<open>
  The engine of \<^verbatim>\<open>backend/s3.py\<close> handles values decoded from JSON and rows fetched
  from the relational store as untyped Python objects. They are modelled by one datatype;
  Python's \<^verbatim>\<open>True\<close>/\<^verbatim>\<open>False\<close> are the integers 1 and 0 (as they are for every
  operation used here: truthiness, comparison, \<^verbatim>\<open>float\<close>, \<^verbatim>\<open>int\<close>, hashing), and a
  float is the rational number it denotes.
\<close>

datatype json =
    JNull
  | JInt int
  | JNum rat
  | JStr string
  | JArr "json list"
  | JObj "(string \<times> json) list"

type_synonym dict = "(string \<times> json) list"

datatype exn = TypeError | ValueError | AttributeError | KeyError

text \<open>Python truthiness (\<^verbatim>\<open>if x\<close>, \<^verbatim>\<open>x or y\<close>, \<^verbatim>\<open>not x\<close>).\<close>

fun truthy :: "json \<Rightarrow> bool" where
  "truthy JNull = False"
| "truthy (JInt n) = (n \<noteq> 0)"
| "truthy (JNum r) = (r \<noteq> 0)"
| "truthy (JStr s) = (s \<noteq> [])"
| "truthy (JArr xs) = (xs \<noteq> [])"
| "truthy (JObj kvs) = (kvs \<noteq> [])"

definition py_or :: "json \<Rightarrow> json \<Rightarrow> json" where
  "py_or a b = (if truthy a then a else b)"

text \<open>\<^verbatim>\<open>d.get(k)\<close> and \<^verbatim>\<open>d.get(k, default)\<close>.\<close>

definition dget :: "dict \<Rightarrow> string \<Rightarrow> json" where
  "dget d k = (case map_of d k of None \<Rightarrow> JNull | Some v \<Rightarrow> v)"

definition dget_or :: "dict \<Rightarrow> string \<Rightarrow> json \<Rightarrow> json" where
  "dget_or d k dflt = (case map_of d k of None \<Rightarrow> dflt | Some v \<Rightarrow> v)"

text \<open>\<^verbatim>\<open>d[k] = v\<close> on a dict that keeps insertion order.\<close>

fun dset :: "('k \<times> 'v) list \<Rightarrow> 'k \<Rightarrow> 'v \<Rightarrow> ('k \<times> 'v) list" where
  "dset [] k v = [(k, v)]"
| "dset ((k', v') # kvs) k v = (if k' = k then (k, v) # kvs else (k', v') # dset kvs k v)"

text \<open>
  The builtins \<^verbatim>\<open>int\<close> and \<^verbatim>\<open>float\<close> read numbers in Python's own syntax, and
  \<^verbatim>\<open>str\<close> and \<^verbatim>\<open>json.dumps\<close> print values. Reading a string and printing are
  parameters of the model (\<open>None\<close> is \<^verbatim>\<open>ValueError\<close>), and so is the number the
  relational store reads in a string that it compares with an integer column; conversion
  between numbers is written out.
\<close>

record builtins =
  int_of_str :: "string \<Rightarrow> int option"
  float_of_str :: "string \<Rightarrow> rat option"
  str_of :: "json \<Rightarrow> string"
  json_dumps :: "json \<Rightarrow> string"
  sql_int_of_str :: "string \<Rightarrow> int option"

fun py_int :: "builtins \<Rightarrow> json \<Rightarrow> exn + int" where
  "py_int B (JInt n) = Inr n"
| "py_int B (JNum r) = Inr (if 0 \<le> r then \<lfloor>r\<rfloor> else \<lceil>r\<rceil>)"
| "py_int B (JStr s) = (case int_of_str B s of None \<Rightarrow> Inl ValueError | Some n \<Rightarrow> Inr n)"
| "py_int B _ = Inl TypeError"

fun py_float :: "builtins \<Rightarrow> json \<Rightarrow> exn + rat" where
  "py_float B (JInt n) = Inr (of_int n)"
| "py_float B (JNum r) = Inr r"
| "py_float B (JStr s) = (case float_of_str B s of None \<Rightarrow> Inl ValueError | Some r \<Rightarrow> Inr r)"
| "py_float B _ = Inl TypeError"

text \<open>The numeric value of a number, for \<^verbatim>\<open><\<close>, \<^verbatim>\<open>>=\<close> and \<^verbatim>\<open>max\<close>; anything else
  compared with a number raises \<^verbatim>\<open>TypeError\<close>.\<close>

fun num_val :: "json \<Rightarrow> rat option" where
  "num_val (JInt n) = Some (of_int n)"
| "num_val (JNum r) = Some r"
| "num_val _ = None"

section \<open>The relational store\<close>

text \<open>
  Only the columns the engine reads or writes are kept. A nullable column is an option;
  SQL comparisons with \<^verbatim>\<open>NULL\<close> are unknown and select no row. String comparison is
  taken as plain equality.
\<close>

record audit_row =
  AuditId :: int
  a_FrameworkId :: "int option"
  a_Status :: "string option"

record policy_row =
  p_PolicyId :: int
  p_FrameworkId :: "int option"

record subpolicy_row =
  sp_SubPolicyId :: int
  sp_PolicyId :: "int option"

record compliance_row =
  c_ComplianceId :: int
  c_SubPolicyId :: "int option"

record file_operation_row =
  fo_id :: int
  fo_file_name :: "string option"
  fo_original_name :: "string option"
  fo_s3_key :: "string option"
  fo_stored_name :: "string option"
  fo_file_type :: "string option"
  fo_status :: "string option"

record evidence_row =
  e_id :: int
  e_audit_id :: int
  e_document_id :: int
  e_document_name :: string
  e_document_path :: string
  e_document_type :: "string option"
  e_ai_processing_status :: "string option"
  e_policy_id :: "int option"
  e_subpolicy_id :: "int option"
  e_external_source :: "string option"
  e_external_id :: "string option"
  e_FrameworkId :: "int option"
  e_compliance_analyses :: "string option"

record checklist_row =
  cl_ComplianceId :: int
  cl_SubPolicyId :: int
  cl_PolicyId :: int
  cl_FrameworkId :: int
  cl_Date :: nat
  cl_Time :: nat
  cl_Complied :: string
  cl_Comments :: string
  cl_Count :: "int option"

record database =
  db_pool :: bool
  audit :: "audit_row list"
  policies :: "policy_row list"
  subpolicies :: "subpolicy_row list"
  compliance :: "compliance_row list"
  file_operations :: "file_operation_row list"
  ai_audit_data :: "evidence_row list"
  ai_audit_data_next_id :: int
  lastchecklistitemverified :: "checklist_row list"

subsection \<open>Enumeration of the audits to analyze\<close>

text \<open>
  \<^verbatim>\<open>_get_active_ai_audits\<close>: without a connection pool the result is empty; otherwise
  the rows of \<^verbatim>\<open>audit\<close> with
  \<^verbatim>\<open>FrameworkId = %s AND (Status != 'Completed' OR Status IS NULL) AND AuditId = 426\<close>,
  ordered by \<^verbatim>\<open>AuditId DESC\<close>.
\<close>

definition active_audit_where :: "int \<Rightarrow> audit_row \<Rightarrow> bool" where
  "active_audit_where framework_id a \<longleftrightarrow>
     a_FrameworkId a = Some framework_id
     \<and> (case a_Status a of None \<Rightarrow> True | Some st \<Rightarrow> st \<noteq> ''Completed'')
     \<and> AuditId a = 426"

definition get_active_ai_audits :: "database \<Rightarrow> int \<Rightarrow> audit_row list" where
  "get_active_ai_audits d framework_id =
     (if \<not> db_pool d then []
      else rev (sort_key AuditId (filter (active_audit_where framework_id) (audit d))))"

subsection \<open>The audit context\<close>

text \<open>
  \<^verbatim>\<open>_get_audit_details\<close> returns \<^verbatim>\<open>{}\<close> without a pool or when the audit row is
  missing; otherwise the framework id of the audit and ALL policies, subpolicies and
  compliances of that framework. Of each reference only the id is kept (names and
  descriptions feed the prompt only); the \<^verbatim>\<open>ORDER BY\<close> on names is not modelled.
\<close>

record audit_details =
  ad_framework_id :: "int option"
  ad_policies :: "int list"
  ad_subpolicies :: "int list"
  ad_compliances :: "int list"

definition empty_details :: audit_details where
  "empty_details = \<lparr>ad_framework_id = None, ad_policies = [], ad_subpolicies = [],
     ad_compliances = []\<rparr>"

definition policy_in_framework :: "int option \<Rightarrow> policy_row \<Rightarrow> bool" where
  "policy_in_framework fw p \<longleftrightarrow> fw \<noteq> None \<and> p_FrameworkId p = fw"

definition get_audit_details :: "database \<Rightarrow> int \<Rightarrow> audit_details" where
  "get_audit_details d audit_id =
     (if \<not> db_pool d then empty_details
      else case find (\<lambda>a. AuditId a = audit_id) (audit d) of
        None \<Rightarrow> empty_details
      | Some a \<Rightarrow>
          let fw = a_FrameworkId a in
          \<lparr>ad_framework_id = fw,
           ad_policies = map p_PolicyId (filter (policy_in_framework fw) (policies d)),
           ad_subpolicies =
             concat (map (\<lambda>sp. map (\<lambda>p. sp_SubPolicyId sp)
                 (filter (\<lambda>p. sp_PolicyId sp = Some (p_PolicyId p) \<and> policy_in_framework fw p)
                    (policies d))) (subpolicies d)),
           ad_compliances =
             concat (map (\<lambda>c. concat (map (\<lambda>sp. map (\<lambda>p. c_ComplianceId c)
                 (filter (\<lambda>p. sp_PolicyId sp = Some (p_PolicyId p) \<and> policy_in_framework fw p)
                    (policies d)))
                 (filter (\<lambda>sp. c_SubPolicyId c = Some (sp_SubPolicyId sp)) (subpolicies d))))
               (compliance d))\<rparr>)"

section \<open>The relevance analyzers\<close>

text \<open>
  The reasoning service is a black box. What the engine sees of one call is the value of
  \<^verbatim>\<open>result_json\<close> (documents) or \<^verbatim>\<open>analysis\<close> (database records) after
  \<^verbatim>\<open>_call_ollama\<close> and the three parsing attempts: \<open>None\<close> when there was no text or
  nothing could be parsed, otherwise the decoded object. The service may answer the same
  question differently each time, so it is a function of the number of calls made so far
  and of the candidate.
\<close>

datatype candidate =
    DocumentEvidence int int
  | RecordEvidence int string dict

type_synonym service = "nat \<Rightarrow> candidate \<Rightarrow> dict option"

subsection \<open>Filtering matched ids against the framework\<close>

text \<open>
  \<^verbatim>\<open>{p.get('policy_id') or p.get('PolicyId') for p in ...}\<close>: the rows built by
  \<^verbatim>\<open>_get_audit_details\<close> have no \<^verbatim>\<open>PolicyId\<close> key, so an id 0 becomes \<^verbatim>\<open>None\<close>.
\<close>

definition framework_id_set :: "int list \<Rightarrow> json list" where
  "framework_id_set ids = map (\<lambda>i. if i \<noteq> 0 then JInt i else JNull) ids"

fun hashable :: "json \<Rightarrow> bool" where
  "hashable (JArr xs) = False"
| "hashable (JObj kvs) = False"
| "hashable _ = True"

text \<open>Equality of hashable values: numbers compare by value, whatever their type.\<close>

fun py_eq :: "json \<Rightarrow> json \<Rightarrow> bool" where
  "py_eq (JInt a) (JInt b) = (a = b)"
| "py_eq (JInt a) (JNum b) = (of_int a = b)"
| "py_eq (JNum a) (JInt b) = (a = of_int b)"
| "py_eq (JNum a) (JNum b) = (a = b)"
| "py_eq (JStr a) (JStr b) = (a = b)"
| "py_eq JNull JNull = True"
| "py_eq _ _ = False"

text \<open>\<^verbatim>\<open>[x for x in xs if x in ids]\<close>: membership in a set hashes \<^verbatim>\<open>x\<close>, which raises
  \<^verbatim>\<open>TypeError\<close> for a list or an object.\<close>

fun filter_in :: "json list \<Rightarrow> json list \<Rightarrow> exn + json list" where
  "filter_in ids [] = Inr []"
| "filter_in ids (x # xs) =
     (if \<not> hashable x then Inl TypeError
      else case filter_in ids xs of
        Inl e \<Rightarrow> Inl e
      | Inr ys \<Rightarrow> Inr (if list_ex (py_eq x) ids then x # ys else ys))"

text \<open>
  \<^verbatim>\<open>_analyze_document_audit_relevance\<close>, from the parsed reply on. Every exception is
  caught and turns the result into \<open>None\<close>. \<open>available\<close> is \<^verbatim>\<open>OLLAMA_AVAILABLE\<close>.
\<close>

definition filter_policies_step :: "string \<Rightarrow> int list \<Rightarrow> dict \<Rightarrow> exn + dict" where
  "filter_policies_step key ids result_json =
     (case dget_or result_json key (JArr []) of
        JArr matched \<Rightarrow>
          (case filter_in (framework_id_set ids) matched of
             Inl e \<Rightarrow> Inl e
           | Inr kept \<Rightarrow> Inr (dset result_json key (JArr kept)))
      | _ \<Rightarrow> Inr result_json)"

definition filter_compliances_step :: "int list \<Rightarrow> dict \<Rightarrow> exn + dict" where
  "filter_compliances_step ids result_json =
     (let m0 = dget_or result_json ''matched_compliances'' (JArr []);
          matched_compliances = (if \<not> truthy m0 then JArr [] else m0)
      in case matched_compliances of
        JArr matched \<Rightarrow>
          (case filter_in (framework_id_set ids) matched of
             Inl e \<Rightarrow> Inl e
           | Inr kept \<Rightarrow> Inr (dset result_json ''matched_compliances'' (JArr kept)))
      | _ \<Rightarrow> Inr (dset result_json ''matched_compliances'' (JArr [])))"

definition analyze_document_audit_relevance ::
  "bool \<Rightarrow> audit_details \<Rightarrow> dict option \<Rightarrow> dict option" where
  "analyze_document_audit_relevance available audit_details reply =
     (if \<not> available then None
      else case reply of
        None \<Rightarrow> None
      | Some result_json \<Rightarrow>
          if result_json = [] then None
          else case filter_policies_step ''matched_policies'' (ad_policies audit_details)
                      result_json of
            Inl e \<Rightarrow> None
          | Inr r1 \<Rightarrow>
              (case filter_policies_step ''matched_subpolicies''
                      (ad_subpolicies audit_details) r1 of
                 Inl e \<Rightarrow> None
               | Inr r2 \<Rightarrow>
                   (case filter_compliances_step (ad_compliances audit_details) r2 of
                      Inl e \<Rightarrow> None
                    | Inr r3 \<Rightarrow> Some r3)))"

subsection \<open>Database records\<close>

text \<open>\<^verbatim>\<open>_get_db_record_id\<close>: the primary key of a row, by table.\<close>

definition pk_fields :: "(string \<times> string) list" where
  "pk_fields =
     [(''policies'', ''PolicyId''), (''subpolicies'', ''SubPolicyId''),
      (''compliances'', ''ComplianceId''), (''audit_findings'', ''AuditFindingsId''),
      (''incidents'', ''IncidentId''), (''risks'', ''RiskId''), (''events'', ''EventId'')]"

definition get_db_record_id :: "builtins \<Rightarrow> string \<Rightarrow> dict \<Rightarrow> int option" where
  "get_db_record_id B table_name record =
     (let rid = (case map_of pk_fields table_name of
                   Some col \<Rightarrow> dget record col
                 | None \<Rightarrow> dget record ''id'')
      in if rid = JNull then None
         else case py_int B rid of Inl e \<Rightarrow> None | Inr n \<Rightarrow> Some n)"

text \<open>
  One record of \<^verbatim>\<open>_analyze_database_data_relevance\<close>: the body of the \<^verbatim>\<open>try\<close>.
  \<open>Inl\<close> is an exception, which the handler prints and re-raises; \<open>Inr None\<close> is a record
  that could not be analyzed; \<open>Inr (Some a)\<close> is the analysis appended to the results.
  No matched id is checked against the audit context here.
\<close>

definition analyze_record ::
  "builtins \<Rightarrow> string \<Rightarrow> dict \<Rightarrow> dict option \<Rightarrow> exn + dict option" where
  "analyze_record B table_name record reply =
     (case reply of
        None \<Rightarrow> Inr None
      | Some analysis0 \<Rightarrow>
          if analysis0 = [] then Inr None
          else
            let record_id = get_db_record_id B table_name record;
                analysis = dset analysis0 ''record_id''
                             (JInt (case record_id of Some n \<Rightarrow> n | None \<Rightarrow> 0))
            in case py_float B (py_or (dget_or analysis ''relevance_score'' (JNum 0)) (JNum 0)) of
              Inl e \<Rightarrow> Inl e
            | Inr score \<Rightarrow>
                (case py_or (dget analysis ''relevance_reason'') (JStr []) of
                   JStr reason \<Rightarrow>
                     if map_of pk_fields table_name = None then Inl KeyError
                     else Inr (Some analysis)
                 | _ \<Rightarrow> Inl AttributeError))"

text \<open>
  The loop over the first 50 records of one table, and the loop over the tables. The
  calls made to the service are logged; an exception ends both loops and keeps the log.
\<close>

fun analyze_records ::
  "builtins \<Rightarrow> service \<Rightarrow> int \<Rightarrow> string \<Rightarrow> dict list \<Rightarrow> candidate list
     \<Rightarrow> (exn + dict list) \<times> candidate list" where
  "analyze_records B svc audit_id table_name [] calls = (Inr [], calls)"
| "analyze_records B svc audit_id table_name (record # records) calls =
     (let cand = RecordEvidence audit_id table_name record;
          reply = svc (length calls) cand;
          calls1 = calls @ [cand]
      in case analyze_record B table_name record reply of
        Inl e \<Rightarrow> (Inl e, calls1)
      | Inr r \<Rightarrow>
          (case analyze_records B svc audit_id table_name records calls1 of
             (Inl e, calls2) \<Rightarrow> (Inl e, calls2)
           | (Inr rest, calls2) \<Rightarrow>
               (Inr (case r of None \<Rightarrow> rest | Some a \<Rightarrow> a # rest), calls2)))"

definition empty_results :: "(string \<times> dict list) list" where
  "empty_results = map (\<lambda>(t, c). (t, [])) pk_fields"

fun analyze_tables ::
  "builtins \<Rightarrow> service \<Rightarrow> int \<Rightarrow> (string \<times> dict list) list \<Rightarrow> (string \<times> dict list) list
     \<Rightarrow> candidate list \<Rightarrow> (exn + (string \<times> dict list) list) \<times> candidate list" where
  "analyze_tables B svc audit_id [] results calls = (Inr results, calls)"
| "analyze_tables B svc audit_id ((table_name, records) # tables) results calls =
     (if records = [] then analyze_tables B svc audit_id tables results calls
      else case analyze_records B svc audit_id table_name (take 50 records) calls of
        (Inl e, calls1) \<Rightarrow> (Inl e, calls1)
      | (Inr analyses, calls1) \<Rightarrow>
          analyze_tables B svc audit_id tables
            (dset results table_name
               ((case map_of results table_name of None \<Rightarrow> [] | Some old \<Rightarrow> old) @ analyses))
            calls1)"

definition analyze_database_data_relevance ::
  "builtins \<Rightarrow> service \<Rightarrow> int \<Rightarrow> (string \<times> dict list) list \<Rightarrow> candidate list
     \<Rightarrow> (exn + (string \<times> dict list) list) \<times> candidate list" where
  "analyze_database_data_relevance B svc audit_id database_data calls =
     analyze_tables B svc audit_id database_data empty_results calls"

section \<open>The analysis index\<close>

text \<open>
  One JSON file per framework, audit and kind (\<^verbatim>\<open>documents_analysis.json\<close>,
  \<^verbatim>\<open>database_analysis.json\<close>). Entries have the shape the engine writes; the values
  copied from a reply stay untyped. Timestamps are readings of a logical clock that
  advances at every reading.
\<close>

datatype index_type = Documents | Database

record doc_entry =
  de_operation_id :: "int option"
  de_s3_key :: "string option"
  de_stored_name :: "string option"
  de_analyzed_at :: nat
  de_relevance_score :: json
  de_relevance_reason :: json
  de_matched_policies :: json
  de_matched_subpolicies :: json
  de_matched_compliances :: json

record db_entry =
  re_table_name :: string
  re_record_id :: "int option"
  re_analyzed_at :: nat
  re_relevance_score :: json
  re_relevance_reason :: json
  re_matched_policies :: json
  re_matched_subpolicies :: json
  re_matched_compliances :: json

record index_file =
  ix_framework_id :: "int option"
  ix_audit_id :: "int option"
  ix_last_updated :: "nat option"
  ix_documents :: "doc_entry list"
  ix_database_data :: "(string \<times> db_entry list) list"

text \<open>
  Work handed to a background thread: the re-processing trigger of \<^verbatim>\<open>_save_json_index\<close>,
  \<^verbatim>\<open>_auto_process_relevant_document\<close> with its arguments
  \<^verbatim>\<open>(operation_id, audit_id, relevance_result)\<close>, and the compliance check of one
  evidence row \<^verbatim>\<open>(doc_id, audit_id)\<close>, whose body is outside this code. A thread runs
  later, on its own; the engine only starts it.
\<close>

datatype thread =
    TriggerProcessing int
  | AutoProcess "int option" int dict
  | ComplianceCheck int int

text \<open>What the run prints about its aggregation step.\<close>

datatype classification = NoEvidence | DocumentOnly | DatabaseOnly | Combined

datatype event =
    OverallScore rat
  | Classified classification

record state =
  db :: database
  files :: "int \<times> int \<times> index_type \<Rightarrow> index_file option"
  clock :: nat
  calls :: "candidate list"
  spawned :: "thread list"
  log :: "event list"

definition empty_index :: index_file where
  "empty_index = \<lparr>ix_framework_id = None, ix_audit_id = None, ix_last_updated = None,
     ix_documents = [], ix_database_data = []\<rparr>"

text \<open>\<^verbatim>\<open>_load_json_index\<close>: the file, or an empty index if there is none.\<close>

definition load_json_index :: "state \<Rightarrow> int \<times> int \<times> index_type \<Rightarrow> index_file" where
  "load_json_index s file_path = (case files s file_path of None \<Rightarrow> empty_index | Some ix \<Rightarrow> ix)"

text \<open>
  \<^verbatim>\<open>_save_json_index\<close>: stamp, write, and, when the index names an audit and a framework
  (both truthy), start the thread that marks the audit's evidence rows for re-processing.
\<close>

definition id_truthy :: "int option \<Rightarrow> bool" where
  "id_truthy x = (case x of None \<Rightarrow> False | Some n \<Rightarrow> n \<noteq> 0)"

definition save_json_index :: "int \<times> int \<times> index_type \<Rightarrow> index_file \<Rightarrow> state \<Rightarrow> state" where
  "save_json_index file_path data s =
     (let data1 = data\<lparr>ix_last_updated := Some (clock s)\<rparr>;
          s1 = s\<lparr>files := (files s)(file_path \<mapsto> data1), clock := Suc (clock s)\<rparr>
      in case ix_audit_id data1 of
           None \<Rightarrow> s1
         | Some audit_id \<Rightarrow>
             if audit_id \<noteq> 0 \<and> id_truthy (ix_framework_id data1)
             then s1\<lparr>spawned := spawned s1 @ [TriggerProcessing audit_id]\<rparr>
             else s1)"

text \<open>
  The thread's body, \<^verbatim>\<open>trigger_processing\<close>:
  \<^verbatim>\<open>UPDATE ai_audit_data SET ai_processing_status = 'pending' WHERE audit_id = %s AND
  (external_source != 'database_record' AND document_type != 'db_record') AND
  ai_processing_status != 'failed'\<close>.
\<close>

definition sql_ne :: "string option \<Rightarrow> string \<Rightarrow> bool" where
  "sql_ne col v = (case col of None \<Rightarrow> False | Some x \<Rightarrow> x \<noteq> v)"

definition sql_eq :: "'a option \<Rightarrow> 'a \<Rightarrow> bool" where
  "sql_eq col v = (case col of None \<Rightarrow> False | Some x \<Rightarrow> x = v)"

definition reprocess_where :: "int \<Rightarrow> evidence_row \<Rightarrow> bool" where
  "reprocess_where audit_id r \<longleftrightarrow>
     e_audit_id r = audit_id
     \<and> (sql_ne (e_external_source r) ''database_record'' \<and> sql_ne (e_document_type r) ''db_record'')
     \<and> sql_ne (e_ai_processing_status r) ''failed''"

definition trigger_processing :: "int \<Rightarrow> database \<Rightarrow> database" where
  "trigger_processing audit_id d =
     (if db_pool d
      then d\<lparr>ai_audit_data :=
               map (\<lambda>r. if reprocess_where audit_id r
                         then r\<lparr>e_ai_processing_status := Some ''pending''\<rparr> else r)
                   (ai_audit_data d)\<rparr>
      else d)"

text \<open>\<^verbatim>\<open>next((i for i, d in enumerate(xs) if P(d)), None)\<close>.\<close>

fun find_index_of :: "('a \<Rightarrow> bool) \<Rightarrow> 'a list \<Rightarrow> nat option" where
  "find_index_of P [] = None"
| "find_index_of P (x # xs) =
     (if P x then Some 0 else map_option Suc (find_index_of P xs))"

text \<open>\<^verbatim>\<open>a or b\<close> on optional strings: the empty string is falsy, as \<^verbatim>\<open>None\<close> is.\<close>

definition str_or :: "string option \<Rightarrow> string option \<Rightarrow> string option" where
  "str_or a b = (case a of Some (c # cs) \<Rightarrow> a | _ \<Rightarrow> b)"

definition str_truthy :: "string option \<Rightarrow> bool" where
  "str_truthy a = (case a of Some (c # cs) \<Rightarrow> True | _ \<Rightarrow> False)"

text \<open>
  \<^verbatim>\<open>_update_json_index_document\<close>: read the file, find the entry of the same file by
  \<^verbatim>\<open>s3_key\<close> or \<^verbatim>\<open>stored_name\<close> (when the document has either), else by
  \<^verbatim>\<open>operation_id\<close>; replace it or append; write the file back.
\<close>

definition upsert_document ::
  "nat \<Rightarrow> int \<Rightarrow> dict \<Rightarrow> string option \<Rightarrow> string option \<Rightarrow> doc_entry list \<Rightarrow> doc_entry list" where
  "upsert_document now operation_id analysis_result doc_s3_key doc_stored_name documents =
     (let file_key = str_or doc_s3_key doc_stored_name;
          by_key = (if str_truthy file_key
                    then find_index_of (\<lambda>d. de_s3_key d = doc_s3_key
                                             \<or> de_stored_name d = doc_stored_name) documents
                    else None);
          doc_index = (case by_key of
                         None \<Rightarrow> find_index_of (\<lambda>d. de_operation_id d = Some operation_id) documents
                       | Some i \<Rightarrow> Some i);
          doc_entry = \<lparr>de_operation_id = Some operation_id,
                       de_s3_key = doc_s3_key,
                       de_stored_name = doc_stored_name,
                       de_analyzed_at = now,
                       de_relevance_score = dget_or analysis_result ''relevance_score'' (JInt 0),
                       de_relevance_reason = dget_or analysis_result ''relevance_reason'' (JStr []),
                       de_matched_policies = dget_or analysis_result ''matched_policies'' (JArr []),
                       de_matched_subpolicies =
                         dget_or analysis_result ''matched_subpolicies'' (JArr []),
                       de_matched_compliances =
                         dget_or analysis_result ''matched_compliances'' (JArr [])\<rparr>
      in case doc_index of
           Some i \<Rightarrow> documents[i := doc_entry]
         | None \<Rightarrow> documents @ [doc_entry])"

definition update_json_index_document ::
  "int \<Rightarrow> int \<Rightarrow> int \<Rightarrow> dict \<Rightarrow> string option \<Rightarrow> string option \<Rightarrow> state \<Rightarrow> state" where
  "update_json_index_document framework_id audit_id operation_id analysis_result
       doc_s3_key doc_stored_name s =
     (let file_path = (framework_id, audit_id, Documents);
          data = load_json_index s file_path;
          s1 = s\<lparr>clock := Suc (clock s)\<rparr>;
          data1 = data\<lparr>ix_documents :=
                          upsert_document (clock s) operation_id analysis_result
                            doc_s3_key doc_stored_name (ix_documents data),
                        ix_framework_id := Some framework_id,
                        ix_audit_id := Some audit_id\<rparr>
      in save_json_index file_path data1 s1)"

text \<open>\<^verbatim>\<open>_update_json_index_database\<close>: the same for one record of one table, found by
  \<^verbatim>\<open>record_id\<close>.\<close>

definition upsert_record ::
  "nat \<Rightarrow> string \<Rightarrow> int \<Rightarrow> dict \<Rightarrow> db_entry list \<Rightarrow> db_entry list" where
  "upsert_record now table_name record_id analysis_result entries =
     (let record_entry = \<lparr>re_table_name = table_name,
                          re_record_id = Some record_id,
                          re_analyzed_at = now,
                          re_relevance_score = dget_or analysis_result ''relevance_score'' (JInt 0),
                          re_relevance_reason =
                            dget_or analysis_result ''relevance_reason'' (JStr []),
                          re_matched_policies =
                            dget_or analysis_result ''matched_policies'' (JArr []),
                          re_matched_subpolicies =
                            dget_or analysis_result ''matched_subpolicies'' (JArr []),
                          re_matched_compliances =
                            dget_or analysis_result ''matched_compliances'' (JArr [])\<rparr>
      in case find_index_of (\<lambda>r. re_record_id r = Some record_id) entries of
           Some i \<Rightarrow> entries[i := record_entry]
         | None \<Rightarrow> entries @ [record_entry])"

definition update_json_index_database ::
  "int \<Rightarrow> int \<Rightarrow> string \<Rightarrow> int \<Rightarrow> dict \<Rightarrow> state \<Rightarrow> state" where
  "update_json_index_database framework_id audit_id table_name record_id analysis_result s =
     (let file_path = (framework_id, audit_id, Database);
          data = load_json_index s file_path;
          entries = (case map_of (ix_database_data data) table_name of
                       None \<Rightarrow> [] | Some es \<Rightarrow> es);
          s1 = s\<lparr>clock := Suc (clock s)\<rparr>;
          data1 = data\<lparr>ix_database_data :=
                          dset (ix_database_data data) table_name
                            (upsert_record (clock s) table_name record_id analysis_result entries),
                        ix_framework_id := Some framework_id,
                        ix_audit_id := Some audit_id\<rparr>
      in save_json_index file_path data1 s1)"

section \<open>Evidence records from database results\<close>

text \<open>\<^verbatim>\<open>_extract_compliance_id\<close>: a plain integer, a numeric string, or an object
  carrying the id under one of three keys; anything else, and every failure, is
  \<^verbatim>\<open>None\<close>.\<close>

fun extract_from_keys :: "builtins \<Rightarrow> dict \<Rightarrow> string list \<Rightarrow> int option" where
  "extract_from_keys B raw_val [] = None"
| "extract_from_keys B raw_val (key # keys) =
     (case map_of raw_val key of
        None \<Rightarrow> extract_from_keys B raw_val keys
      | Some v \<Rightarrow>
          if v = JNull then extract_from_keys B raw_val keys
          else case py_int B v of
            Inr n \<Rightarrow> Some n
          | Inl e \<Rightarrow> extract_from_keys B raw_val keys)"

fun extract_compliance_id :: "builtins \<Rightarrow> json \<Rightarrow> int option" where
  "extract_compliance_id B (JInt n) = Some n"
| "extract_compliance_id B (JStr s) = int_of_str B s"
| "extract_compliance_id B (JObj raw_val) =
     extract_from_keys B raw_val [''ComplianceId'', ''compliance_id'', ''id'']"
| "extract_compliance_id B _ = None"

text \<open>\<^verbatim>\<open>for mc in matched_compliances: comp_id = extract(mc); if comp_id: break\<close>:
  the value of \<^verbatim>\<open>comp_id\<close> after the loop.\<close>

fun scan_compliance_ids :: "builtins \<Rightarrow> json list \<Rightarrow> int option \<Rightarrow> int option" where
  "scan_compliance_ids B [] comp_id = comp_id"
| "scan_compliance_ids B (mc # mcs) comp_id =
     (let c = extract_compliance_id B mc
      in if id_truthy c then c else scan_compliance_ids B mcs c)"

text \<open>Iterating a value: a list gives its items, a string its characters, an object its
  keys; a number or \<^verbatim>\<open>None\<close> raises \<^verbatim>\<open>TypeError\<close>.\<close>

fun py_iter :: "json \<Rightarrow> exn + json list" where
  "py_iter (JArr xs) = Inr xs"
| "py_iter (JStr s) = Inr (map (\<lambda>c. JStr [c]) s)"
| "py_iter (JObj kvs) = Inr (map (\<lambda>kv. JStr (fst kv)) kvs)"
| "py_iter _ = Inl TypeError"

definition resolve_comp_id :: "builtins \<Rightarrow> string \<Rightarrow> int \<Rightarrow> json \<Rightarrow> exn + int option" where
  "resolve_comp_id B table_name record_id matched_compliances =
     (let comp_id = (if table_name = ''compliances'' \<and> record_id \<noteq> 0
                     then Some record_id else None)
      in if \<not> id_truthy comp_id \<and> truthy matched_compliances
         then case py_iter matched_compliances of
                Inl e \<Rightarrow> Inl e
              | Inr mcs \<Rightarrow> Inr (scan_compliance_ids B mcs comp_id)
         else Inr comp_id)"

text \<open>
  \<^verbatim>\<open>SELECT c.ComplianceId, c.SubPolicyId, sp.PolicyId FROM compliance c LEFT JOIN
  subpolicies sp ON c.SubPolicyId = sp.SubPolicyId WHERE c.ComplianceId = %s\<close>, first row.
\<close>

definition lookup_compliance :: "database \<Rightarrow> int \<Rightarrow> (int \<times> int option \<times> int option) option" where
  "lookup_compliance d comp_id =
     (case find (\<lambda>c. c_ComplianceId c = comp_id) (compliance d) of
        None \<Rightarrow> None
      | Some c \<Rightarrow>
          Some (c_ComplianceId c, c_SubPolicyId c,
                (case c_SubPolicyId c of
                   None \<Rightarrow> None
                 | Some spid \<Rightarrow>
                     (case find (\<lambda>sp. sp_SubPolicyId sp = spid) (subpolicies d) of
                        None \<Rightarrow> None
                      | Some sp \<Rightarrow> sp_PolicyId sp))))"

text \<open>\<^verbatim>\<open>x[:n]\<close> on a reply's value: strings and lists can be sliced.\<close>

fun py_slice :: "nat \<Rightarrow> json \<Rightarrow> exn + json" where
  "py_slice n (JStr s) = Inr (JStr (take n s))"
| "py_slice n (JArr xs) = Inr (JArr (take n xs))"
| "py_slice n _ = Inl TypeError"

definition is_db_evidence_of :: "int \<Rightarrow> string \<Rightarrow> evidence_row \<Rightarrow> bool" where
  "is_db_evidence_of audit_id external_id r \<longleftrightarrow>
     e_audit_id r = audit_id \<and> sql_eq (e_external_source r) ''database_record''
     \<and> sql_eq (e_external_id r) external_id"

text \<open>An existing row is only completed: the mapping when it lacks one, the name, and
  the analysis payload when it has none.\<close>

definition backfill_existing ::
  "evidence_row \<Rightarrow> int option \<Rightarrow> int option \<Rightarrow> string \<Rightarrow> string \<Rightarrow> evidence_row \<Rightarrow> evidence_row" where
  "backfill_existing existing primary_policy_id primary_subpolicy_id doc_name analysis_json r =
     (if e_id r \<noteq> e_id existing then r
      else
        let r1 = (if \<not> id_truthy (e_policy_id existing) \<or> \<not> id_truthy (e_subpolicy_id existing)
                  then r\<lparr>e_policy_id := primary_policy_id, e_subpolicy_id := primary_subpolicy_id\<rparr>
                  else r);
            r2 = r1\<lparr>e_document_name := doc_name\<rparr>
        in if \<not> str_truthy (e_compliance_analyses existing) \<and> analysis_json \<noteq> []
           then r2\<lparr>e_compliance_analyses := Some analysis_json\<rparr>
           else r2)"

definition insert_db_evidence ::
  "int \<Rightarrow> int \<Rightarrow> string \<Rightarrow> string \<Rightarrow> int option \<Rightarrow> int option \<Rightarrow> string \<Rightarrow> database \<Rightarrow> database" where
  "insert_db_evidence framework_id audit_id doc_name external_id primary_policy_id
       primary_subpolicy_id analysis_json d =
     (let new_doc_id = ai_audit_data_next_id d;
          row = \<lparr>e_id = new_doc_id, e_audit_id = audit_id, e_document_id = new_doc_id,
                 e_document_name = doc_name, e_document_path = external_id,
                 e_document_type = Some ''db_record'',
                 e_ai_processing_status = Some ''completed'',
                 e_policy_id = primary_policy_id, e_subpolicy_id = primary_subpolicy_id,
                 e_external_source = Some ''database_record'',
                 e_external_id = Some external_id,
                 e_FrameworkId = Some framework_id,
                 e_compliance_analyses = Some analysis_json\<rparr>
      in d\<lparr>ai_audit_data := ai_audit_data d @ [row],
            ai_audit_data_next_id := new_doc_id + 1\<rparr>)"

text \<open>The checklist ledger: one more observation on the rows of the key, or a first row.\<close>

definition checklist_where :: "int \<Rightarrow> int \<Rightarrow> int \<Rightarrow> int \<Rightarrow> checklist_row \<Rightarrow> bool" where
  "checklist_where compliance_id framework_id policy_id subpolicy_id r \<longleftrightarrow>
     cl_ComplianceId r = compliance_id \<and> cl_FrameworkId r = framework_id
     \<and> cl_PolicyId r = policy_id \<and> cl_SubPolicyId r = subpolicy_id"

definition id_or_0 :: "int option \<Rightarrow> int" where
  "id_or_0 x = (case x of None \<Rightarrow> 0 | Some n \<Rightarrow> n)"

definition update_checklist ::
  "int \<Rightarrow> int \<Rightarrow> int option \<Rightarrow> int option \<Rightarrow> nat \<Rightarrow> nat \<Rightarrow> string \<Rightarrow> database \<Rightarrow> database" where
  "update_checklist primary_compliance_id framework_id primary_policy_id primary_subpolicy_id
       now_date now_time comments d =
     (let P = checklist_where primary_compliance_id framework_id
                (id_or_0 primary_policy_id) (id_or_0 primary_subpolicy_id);
          complied_value = ''1''
      in if list_ex P (lastchecklistitemverified d)
         then d\<lparr>lastchecklistitemverified :=
                  map (\<lambda>r. if P r
                            then r\<lparr>cl_Date := now_date, cl_Time := now_time,
                                   cl_Complied := complied_value, cl_Comments := comments,
                                   cl_Count := Some (id_or_0 (cl_Count r) + 1)\<rparr>
                            else r)
                      (lastchecklistitemverified d)\<rparr>
         else d\<lparr>lastchecklistitemverified :=
                  lastchecklistitemverified d @
                    [\<lparr>cl_ComplianceId = primary_compliance_id,
                      cl_SubPolicyId = id_or_0 primary_subpolicy_id,
                      cl_PolicyId = id_or_0 primary_policy_id,
                      cl_FrameworkId = framework_id,
                      cl_Date = now_date, cl_Time = now_time,
                      cl_Complied = complied_value, cl_Comments = comments,
                      cl_Count = Some 1\<rparr>]\<rparr>)"

definition evidence_threshold :: rat where
  "evidence_threshold = 6 / 10"

definition checklist_threshold :: rat where
  "checklist_threshold = 8 / 10"

text \<open>
  The body of the inner loop of \<^verbatim>\<open>_create_ai_evidence_from_database_results\<close> for one
  entry of the index, in three parts, the last first. An exception anywhere in it is
  printed and the loop goes on with the next entry: its points are the \<^verbatim>\<open>float\<close> of
  the score, the iteration of \<^verbatim>\<open>matched_compliances\<close> and the slice of the reason, all
  before the first write.
\<close>

definition db_analysis_payload ::
  "builtins \<Rightarrow> string \<Rightarrow> int \<Rightarrow> int \<Rightarrow> rat \<Rightarrow> json \<Rightarrow> string" where
  "db_analysis_payload B table_name record_id primary_compliance_id score evidence_reason =
     json_dumps B (JObj
       [(''compliance_analyses'', JArr [JObj
          [(''source'', JStr ''database_record''),
           (''table_name'', JStr table_name),
           (''record_id'', JInt record_id),
           (''compliance_id'', JInt primary_compliance_id),
           (''relevance_score'', JNum score),
           (''relevance_reason'', evidence_reason),
           (''status'', JStr ''EVIDENCE_ONLY'')]])])"

text \<open>The last part of the body: the row of this audit and record is completed if it
  exists, else inserted, and only an insertion can be followed by the checklist.\<close>

definition upsert_db_evidence ::
  "builtins \<Rightarrow> int \<Rightarrow> int \<Rightarrow> string \<Rightarrow> int \<Rightarrow> rat \<Rightarrow> int \<Rightarrow> int option \<Rightarrow> int option
     \<Rightarrow> json \<Rightarrow> state \<Rightarrow> state" where
  "upsert_db_evidence B framework_id audit_id table_name record_id score primary_compliance_id
       primary_subpolicy_id primary_policy_id evidence_reason s =
     (let doc_name = ''Evidence '' @ str_of B (JInt record_id);
          external_id = table_name @ '':'' @ str_of B (JInt record_id);
          analysis_json = db_analysis_payload B table_name record_id primary_compliance_id
                            score evidence_reason
      in case find (is_db_evidence_of audit_id external_id) (ai_audit_data (db s)) of
           Some existing \<Rightarrow>
             s\<lparr>db := (db s)\<lparr>ai_audit_data :=
                  map (backfill_existing existing primary_policy_id primary_subpolicy_id
                         doc_name analysis_json)
                      (ai_audit_data (db s))\<rparr>\<rparr>
         | None \<Rightarrow>
             let d1 = insert_db_evidence framework_id audit_id doc_name external_id
                        primary_policy_id primary_subpolicy_id analysis_json (db s)
             in if score \<ge> checklist_threshold
                then s\<lparr>db := update_checklist primary_compliance_id framework_id
                                primary_policy_id primary_subpolicy_id (clock s) (Suc (clock s))
                                (''Auto evidence from '' @ table_name @ '' record ''
                                   @ str_of B (JInt record_id) @ '': ''
                                   @ str_of B evidence_reason) d1,
                       clock := Suc (Suc (clock s))\<rparr>
                else s\<lparr>db := d1\<rparr>)"

text \<open>The middle part: one compliance is resolved to a row of the store, or the entry
  stays relevance-only.\<close>

definition db_evidence_mapped ::
  "builtins \<Rightarrow> int \<Rightarrow> int \<Rightarrow> string \<Rightarrow> db_entry \<Rightarrow> int \<Rightarrow> rat \<Rightarrow> state \<Rightarrow> state" where
  "db_evidence_mapped B framework_id audit_id table_name analysis record_id score s =
     (case resolve_comp_id B table_name record_id
             (py_or (re_matched_compliances analysis) (JArr [])) of
        Inl e \<Rightarrow> s
      | Inr comp_id \<Rightarrow>
          (case (if id_truthy comp_id
                 then lookup_compliance (db s) (id_or_0 comp_id) else None) of
             None \<Rightarrow> s
           | Some (primary_compliance_id, primary_subpolicy_id, primary_policy_id) \<Rightarrow>
               if primary_compliance_id = 0 then s
               else
                 (case py_slice 500 (re_relevance_reason analysis) of
                    Inl e \<Rightarrow> s
                  | Inr evidence_reason \<Rightarrow>
                      upsert_db_evidence B framework_id audit_id table_name record_id score
                        primary_compliance_id primary_subpolicy_id primary_policy_id
                        evidence_reason s)))"

definition db_evidence_step ::
  "builtins \<Rightarrow> int \<Rightarrow> int \<Rightarrow> string \<Rightarrow> db_entry \<Rightarrow> state \<Rightarrow> state" where
  "db_evidence_step B framework_id audit_id table_name analysis s =
     (case py_float B (py_or (re_relevance_score analysis) (JInt 0)) of
        Inl e \<Rightarrow> s
      | Inr score \<Rightarrow>
          (case re_record_id analysis of
             None \<Rightarrow> s
           | Some record_id \<Rightarrow>
               if record_id = 0 \<or> score < evidence_threshold then s
               else db_evidence_mapped B framework_id audit_id table_name analysis
                      record_id score s))"

text \<open>The two loops, and the guard of the function: nothing is done without a pool or
  without a framework id. The statements sent to the store are taken to succeed (the
  fallback for a schema without \<^verbatim>\<open>FrameworkId\<close> is not modelled).\<close>

fun db_evidence_table ::
  "builtins \<Rightarrow> int \<Rightarrow> int \<Rightarrow> string \<Rightarrow> db_entry list \<Rightarrow> state \<Rightarrow> state" where
  "db_evidence_table B framework_id audit_id table_name [] s = s"
| "db_evidence_table B framework_id audit_id table_name (analysis # analyses) s =
     db_evidence_table B framework_id audit_id table_name analyses
       (db_evidence_step B framework_id audit_id table_name analysis s)"

fun db_evidence_tables ::
  "builtins \<Rightarrow> int \<Rightarrow> int \<Rightarrow> (string \<times> db_entry list) list \<Rightarrow> state \<Rightarrow> state" where
  "db_evidence_tables B framework_id audit_id [] s = s"
| "db_evidence_tables B framework_id audit_id ((table_name, analyses) # rest) s =
     db_evidence_tables B framework_id audit_id rest
       (db_evidence_table B framework_id audit_id table_name analyses s)"

definition create_ai_evidence_from_database_results ::
  "builtins \<Rightarrow> int option \<Rightarrow> int \<Rightarrow> (string \<times> db_entry list) list \<Rightarrow> state \<Rightarrow> state" where
  "create_ai_evidence_from_database_results B framework_id audit_id db_results s =
     (case framework_id of
        None \<Rightarrow> s
      | Some fw \<Rightarrow>
          if \<not> db_pool (db s) \<or> fw = 0 then s
          else db_evidence_tables B fw audit_id db_results s)"

section \<open>Evidence records from documents\<close>

text \<open>
  \<^verbatim>\<open>_store_audit_relevance\<close> writes the verdict to the table
  \<^verbatim>\<open>document_audit_relevance\<close> (not modelled: nothing below reads it) and then starts
  \<^verbatim>\<open>_auto_process_relevant_document\<close> in a thread. The parameters of the statement are
  built first: \<^verbatim>\<open>float\<close> of the score and the first 1000 characters of the reason.
  Either can raise; and a reason that is a list can be sliced but cannot be sent to the
  store as a parameter, so that the statement fails. Every such failure is caught and
  printed, and the thread is not started.
\<close>

definition store_audit_relevance ::
  "builtins \<Rightarrow> int \<Rightarrow> int \<Rightarrow> dict \<Rightarrow> state \<Rightarrow> state" where
  "store_audit_relevance B operation_id audit_id relevance_result s =
     (if \<not> db_pool (db s) then s
      else case py_float B (dget_or relevance_result ''relevance_score'' (JInt 0)) of
        Inl e \<Rightarrow> s
      | Inr score \<Rightarrow>
          (case py_slice 1000 (dget_or relevance_result ''relevance_reason'' (JStr [])) of
             Inr (JStr reason) \<Rightarrow>
               s\<lparr>spawned := spawned s @
                    [AutoProcess (Some operation_id) audit_id relevance_result]\<rparr>
           | _ \<Rightarrow> s))"

text \<open>
  \<^verbatim>\<open>_auto_process_relevant_document\<close>, steps 1 to 3: the documents to process are those
  of the documents index that have matched compliances and an operation id, and always
  the document the thread was started for. The look-up of the uploading user and the
  notification at the end touch nothing that is modelled and are left out.
\<close>

definition documents_to_process ::
  "index_file option \<Rightarrow> int option \<Rightarrow> dict \<Rightarrow> (int option \<times> json) list" where
  "documents_to_process json_data operation_id relevance_result =
     (let from_json = (case json_data of
                         None \<Rightarrow> []
                       | Some data \<Rightarrow>
                           map (\<lambda>d. (de_operation_id d, de_matched_compliances d))
                             (filter (\<lambda>d. truthy (de_matched_compliances d)
                                          \<and> id_truthy (de_operation_id d))
                                (ix_documents data)));
          uploaded = dget_or relevance_result ''matched_compliances'' (JArr []);
          step2 = (if from_json = []
                   then [(operation_id, if truthy uploaded then uploaded else JArr [])]
                   else from_json)
      in if list_ex (\<lambda>p. fst p = operation_id) step2 then step2
         else step2 @ [(operation_id, uploaded)])"

text \<open>A matched id as a parameter of a query on \<^verbatim>\<open>compliance.ComplianceId\<close>: a list or
  an object cannot be sent and raises.\<close>

fun sql_id_param :: "builtins \<Rightarrow> json \<Rightarrow> exn + int option" where
  "sql_id_param B (JInt n) = Inr (Some n)"
| "sql_id_param B (JNum r) = Inr (if of_int \<lfloor>r\<rfloor> = r then Some \<lfloor>r\<rfloor> else None)"
| "sql_id_param B (JStr s) = Inr (sql_int_of_str B s)"
| "sql_id_param B JNull = Inr None"
| "sql_id_param B _ = Inl TypeError"

fun sql_id_params :: "builtins \<Rightarrow> json list \<Rightarrow> exn + int option list" where
  "sql_id_params B [] = Inr []"
| "sql_id_params B (x # xs) =
     (case sql_id_param B x of
        Inl e \<Rightarrow> Inl e
      | Inr p \<Rightarrow> (case sql_id_params B xs of Inl e \<Rightarrow> Inl e | Inr ps \<Rightarrow> Inr (p # ps)))"

text \<open>The mappings of one document: one per matched compliance, or a single unmapped
  entry when there is none. (The policy and subpolicy fallbacks of the source are
  computed from the matched compliances and are empty when those are.)\<close>

definition mappings_to_create ::
  "database \<Rightarrow> int option list \<Rightarrow> (int option \<times> int option) list" where
  "mappings_to_create d matched_compliances =
     (if matched_compliances \<noteq> []
      then map (\<lambda>compliance_id.
                 case (case compliance_id of None \<Rightarrow> None | Some c \<Rightarrow> lookup_compliance d c) of
                   None \<Rightarrow> (None, None)
                 | Some (cid, subpolicy_id, policy_id) \<Rightarrow> (policy_id, subpolicy_id))
             matched_compliances
      else [(None, None)])"

fun insert_mappings ::
  "int \<Rightarrow> int \<Rightarrow> string \<Rightarrow> string \<Rightarrow> string \<Rightarrow> string \<Rightarrow> (int option \<times> int option) list
     \<Rightarrow> database \<Rightarrow> database \<times> int list" where
  "insert_mappings framework_id audit_id file_name document_path file_type external_id [] d =
     (d, [])"
| "insert_mappings framework_id audit_id file_name document_path file_type external_id
       ((policy_id, subpolicy_id) # mappings) d =
     (let document_id = ai_audit_data_next_id d;
          row = \<lparr>e_id = document_id, e_audit_id = audit_id, e_document_id = document_id,
                 e_document_name = file_name, e_document_path = document_path,
                 e_document_type = Some (take 50 file_type),
                 e_ai_processing_status = Some ''pending'',
                 e_policy_id = policy_id, e_subpolicy_id = subpolicy_id,
                 e_external_source = Some ''evidence_attachment'',
                 e_external_id = Some external_id,
                 e_FrameworkId = Some framework_id,
                 e_compliance_analyses = None\<rparr>;
          d1 = d\<lparr>ai_audit_data := ai_audit_data d @ [row],
                 ai_audit_data_next_id := document_id + 1\<rparr>;
          (d2, ids) = insert_mappings framework_id audit_id file_name document_path file_type
                        external_id mappings d1
      in (d2, (if document_id \<noteq> 0 then [document_id] else []) @ ids))"

definition already_attached :: "int \<Rightarrow> string \<Rightarrow> string \<Rightarrow> string \<Rightarrow> evidence_row \<Rightarrow> bool" where
  "already_attached audit_id external_id compact_external_id stored_name r \<longleftrightarrow>
     e_audit_id r = audit_id
     \<and> sql_eq (e_external_source r) ''evidence_attachment''
     \<and> (sql_eq (e_external_id r) external_id \<or> sql_eq (e_external_id r) compact_external_id
          \<or> sql_eq (e_external_id r) stored_name)
     \<and> sql_ne (e_ai_processing_status r) ''failed''"

definition opt_str :: "string option \<Rightarrow> string" where
  "opt_str a = (case a of None \<Rightarrow> [] | Some x \<Rightarrow> x)"

definition last_chars :: "nat \<Rightarrow> string \<Rightarrow> string" where
  "last_chars n x = (if length x > n then drop (length x - n) x else x)"

text \<open>Step 5 for one document of the list; the state carries the operation ids already
  processed in this batch and the ids of the rows created.\<close>

definition process_document ::
  "builtins \<Rightarrow> int \<Rightarrow> int \<Rightarrow> int option \<times> json
     \<Rightarrow> database \<times> int option list \<times> int list \<Rightarrow> database \<times> int option list \<times> int list" where
  "process_document B framework_id audit_id item acc =
     (case (item, acc) of ((doc_operation_id, doc_matched_compliances), (d, processed, created)) \<Rightarrow>
        if doc_operation_id \<in> set processed then acc
        else if num_val doc_matched_compliances \<noteq> None \<or> doc_matched_compliances = JNull then acc
        else
          (case (case doc_operation_id of
                   None \<Rightarrow> None
                 | Some op \<Rightarrow> find (\<lambda>f. fo_id f = op \<and> sql_eq (fo_status f) ''completed'')
                               (file_operations d)) of
             None \<Rightarrow> acc
           | Some file_op \<Rightarrow>
               let file_name = opt_str (str_or (str_or (fo_file_name file_op)
                                 (fo_original_name file_op)) (Some ''Unknown Document''));
                   s3_key = fo_s3_key file_op;
                   stored_name = fo_stored_name file_op;
                   file_type = opt_str (str_or (fo_file_type file_op) (Some ''pdf''));
                   external_id = str_of B (JInt (id_or_0 doc_operation_id));
                   compact_external_id =
                     last_chars 100 (opt_str (str_or (str_or s3_key stored_name) (Some external_id)))
               in if list_ex (already_attached audit_id external_id compact_external_id
                                (opt_str (str_or stored_name (Some [])))) (ai_audit_data d)
                  then (d, doc_operation_id # processed, created)
                  else
                    (case (if truthy doc_matched_compliances
                           then (case doc_matched_compliances of
                                   JArr xs \<Rightarrow> sql_id_params B xs
                                 | _ \<Rightarrow> Inl TypeError)
                           else Inr []) of
                       Inl e \<Rightarrow> (d, doc_operation_id # processed, created)
                     | Inr matched_compliances \<Rightarrow>
                         let document_path =
                               opt_str (str_or (str_or s3_key stored_name)
                                 (Some (''file_operations/'' @ external_id @ ''/'' @ file_name)));
                             (d1, ids) = insert_mappings framework_id audit_id file_name
                                           document_path file_type external_id
                                           (mappings_to_create d matched_compliances) d
                         in (d1, doc_operation_id # processed, created @ ids))))"

definition auto_process_relevant_document ::
  "builtins \<Rightarrow> int option \<Rightarrow> int \<Rightarrow> dict \<Rightarrow> state \<Rightarrow> state" where
  "auto_process_relevant_document B operation_id audit_id relevance_result s =
     (if \<not> db_pool (db s) then s
      else case find (\<lambda>a. AuditId a = audit_id) (audit (db s)) of
        None \<Rightarrow> s
      | Some audit_row \<Rightarrow>
          (case a_FrameworkId audit_row of
             None \<Rightarrow> s
           | Some framework_id \<Rightarrow>
               if framework_id = 0 then s
               else
                 let todo = documents_to_process (files s (framework_id, audit_id, Documents))
                              operation_id relevance_result;
                     (d1, processed, all_created_document_ids) =
                        foldl (\<lambda>acc item. process_document B framework_id audit_id item acc)
                          (db s, [], []) todo
                 in s\<lparr>db := d1,
                      spawned := spawned s @
                        map (\<lambda>doc_id. ComplianceCheck doc_id audit_id) all_created_document_ids\<rparr>))"

section \<open>The correlation run\<close>

text \<open>
  \<^verbatim>\<open>_analyze_audit_relevance_background\<close>. The rows of \<^verbatim>\<open>file_operations\<close> and of
  the seven source tables that the run fetches first are arguments of the model
  (\<open>all_documents\<close>, \<open>all_database_data\<close>). A step returns the exception it raised, if
  any, with the state reached.
\<close>

definition analyzed_file_keys :: "doc_entry list \<Rightarrow> string set" where
  "analyzed_file_keys documents =
     set (concat (map (\<lambda>d. case str_or (de_s3_key d) (de_stored_name d) of
                               Some (c # cs) \<Rightarrow> [c # cs]
                             | _ \<Rightarrow> []) documents))"

definition analyzed_operation_ids :: "doc_entry list \<Rightarrow> int set" where
  "analyzed_operation_ids documents =
     set (concat (map (\<lambda>d. case de_operation_id d of
                               Some op_id \<Rightarrow> (if op_id \<noteq> 0 then [op_id] else [])
                             | None \<Rightarrow> []) documents))"

text \<open>The two checks that skip a document: by file key first, then by operation id.\<close>

definition already_analyzed :: "doc_entry list \<Rightarrow> file_operation_row \<Rightarrow> bool" where
  "already_analyzed documents doc \<longleftrightarrow>
     (let file_key = str_or (fo_s3_key doc) (fo_stored_name doc)
      in (str_truthy file_key \<and> opt_str file_key \<in> analyzed_file_keys documents)
         \<or> fo_id doc \<in> analyzed_operation_ids documents)"

definition analyze_document ::
  "builtins \<Rightarrow> service \<Rightarrow> bool \<Rightarrow> int \<Rightarrow> int \<Rightarrow> audit_details \<Rightarrow> file_operation_row \<Rightarrow> state
     \<Rightarrow> exn option \<times> state" where
  "analyze_document B svc available framework_id audit_id audit_details doc s =
     (let cand = DocumentEvidence audit_id (fo_id doc);
          reply = (if available then svc (length (calls s)) cand else None);
          s1 = (if available then s\<lparr>calls := calls s @ [cand]\<rparr> else s)
      in case analyze_document_audit_relevance available audit_details reply of
        None \<Rightarrow> (None, s1)
      | Some relevance_result \<Rightarrow>
          if relevance_result = [] then (None, s1)
          else
            let s2 = update_json_index_document framework_id audit_id (fo_id doc)
                       relevance_result (fo_s3_key doc) (fo_stored_name doc) s1
            in case num_val (dget_or relevance_result ''relevance_score'' (JInt 0)) of
                 None \<Rightarrow> (Some TypeError, s2)
               | Some score \<Rightarrow>
                   if score \<ge> 6 / 10
                   then (None, store_audit_relevance B (fo_id doc) audit_id relevance_result s2)
                   else (None, s2))"

fun analyze_documents ::
  "builtins \<Rightarrow> service \<Rightarrow> bool \<Rightarrow> int \<Rightarrow> int \<Rightarrow> audit_details \<Rightarrow> doc_entry list
     \<Rightarrow> file_operation_row list \<Rightarrow> state \<Rightarrow> exn option \<times> state" where
  "analyze_documents B svc available framework_id audit_id audit_details indexed [] s = (None, s)"
| "analyze_documents B svc available framework_id audit_id audit_details indexed (doc # docs) s =
     (if already_analyzed indexed doc
      then analyze_documents B svc available framework_id audit_id audit_details indexed docs s
      else case analyze_document B svc available framework_id audit_id audit_details doc s of
        (Some e, s1) \<Rightarrow> (Some e, s1)
      | (None, s1) \<Rightarrow>
          analyze_documents B svc available framework_id audit_id audit_details indexed docs s1)"

text \<open>The records of the database index, by table, and the records of the evidence set
  that are not in it yet.\<close>

definition seen_ids :: "(string \<times> db_entry list) list \<Rightarrow> string \<Rightarrow> int set" where
  "seen_ids db_data table_name =
     (case map_of db_data table_name of
        None \<Rightarrow> {}
      | Some entries \<Rightarrow>
          set (concat (map (\<lambda>e. case re_record_id e of Some rid \<Rightarrow> [rid] | None \<Rightarrow> [])
                         entries)))"

definition new_records ::
  "builtins \<Rightarrow> (string \<times> db_entry list) list \<Rightarrow> string \<Rightarrow> dict list \<Rightarrow> dict list" where
  "new_records B db_data table_name records =
     filter (\<lambda>record. case get_db_record_id B table_name record of
                         None \<Rightarrow> False
                       | Some record_id \<Rightarrow> record_id \<notin> seen_ids db_data table_name) records"

definition incremental_db_data ::
  "builtins \<Rightarrow> (string \<times> db_entry list) list \<Rightarrow> (string \<times> dict list) list
     \<Rightarrow> (string \<times> dict list) list" where
  "incremental_db_data B db_data all_database_data =
     filter (\<lambda>(table_name, records). records \<noteq> [])
       (map (\<lambda>(table_name, records). (table_name, new_records B db_data table_name records))
          all_database_data)"

text \<open>The new analyses go to the index one by one; an analysis whose record id is 0
  (a row without a usable key) is not written.\<close>

fun index_analyses :: "int \<Rightarrow> int \<Rightarrow> string \<Rightarrow> dict list \<Rightarrow> state \<Rightarrow> state" where
  "index_analyses framework_id audit_id table_name [] s = s"
| "index_analyses framework_id audit_id table_name (analysis # analyses) s =
     index_analyses framework_id audit_id table_name analyses
       (case dget_or analysis ''record_id'' (JInt 0) of
          JInt record_id \<Rightarrow>
            if record_id \<noteq> 0
            then update_json_index_database framework_id audit_id table_name record_id analysis s
            else s
        | _ \<Rightarrow> s)"

fun index_results :: "int \<Rightarrow> int \<Rightarrow> (string \<times> dict list) list \<Rightarrow> state \<Rightarrow> state" where
  "index_results framework_id audit_id [] s = s"
| "index_results framework_id audit_id ((table_name, analyses) # rest) s =
     index_results framework_id audit_id rest
       (index_analyses framework_id audit_id table_name analyses s)"

text \<open>
  The aggregation. \<^verbatim>\<open>max\<close> over the scores, and the print of the result with two
  decimals, need numbers: any other score raises (\<^verbatim>\<open>TypeError\<close> or \<^verbatim>\<open>ValueError\<close>,
  depending on where; the model does not tell them apart here). The documents are those
  of \<^verbatim>\<open>docs_index\<close>, read before the documents were analyzed; the records are
  those of the database index read again after the analysis.
\<close>

fun num_vals :: "json list \<Rightarrow> rat list option" where
  "num_vals [] = Some []"
| "num_vals (x # xs) =
     (case num_val x of
        None \<Rightarrow> None
      | Some r \<Rightarrow> (case num_vals xs of None \<Rightarrow> None | Some rs \<Rightarrow> Some (r # rs)))"

fun max_list :: "rat list \<Rightarrow> rat" where
  "max_list [] = 0"
| "max_list [x] = x"
| "max_list (x # y # ys) = max x (max_list (y # ys))"

definition overall_relevance :: "json list \<Rightarrow> json list \<Rightarrow> exn + rat" where
  "overall_relevance all_doc_scores all_db_scores =
     (case num_vals (all_doc_scores @ all_db_scores) of
        None \<Rightarrow> Inl TypeError
      | Some all_scores \<Rightarrow> Inr (max_list all_scores))"

text \<open>\<^verbatim>\<open>max(docs, key=score, default=None)\<close>: the first document with the highest
  score.\<close>

definition score_key :: "doc_entry \<Rightarrow> rat" where
  "score_key d = (case num_val (de_relevance_score d) of None \<Rightarrow> 0 | Some r \<Rightarrow> r)"

fun best_document :: "doc_entry list \<Rightarrow> doc_entry option" where
  "best_document [] = None"
| "best_document (d # ds) =
     (case best_document ds of
        None \<Rightarrow> Some d
      | Some b \<Rightarrow> if score_key b > score_key d then Some b else Some d)"

text \<open>The \<^verbatim>\<open>relevance_result\<close> that the dispatch builds from the best document.\<close>

definition verdict_of :: "doc_entry \<Rightarrow> dict" where
  "verdict_of d =
     [(''relevance_score'', de_relevance_score d),
      (''relevance_reason'', de_relevance_reason d),
      (''matched_policies'', de_matched_policies d),
      (''matched_subpolicies'', de_matched_subpolicies d),
      (''matched_compliances'', de_matched_compliances d)]"

definition classify :: "bool \<Rightarrow> bool \<Rightarrow> classification" where
  "classify has_document_evidence has_database_evidence =
     (if has_document_evidence \<and> has_database_evidence then Combined
      else if has_document_evidence then DocumentOnly
      else if has_database_evidence then DatabaseOnly
      else NoEvidence)"

definition aggregate_and_dispatch ::
  "int \<Rightarrow> doc_entry list \<Rightarrow> (string \<times> db_entry list) list \<Rightarrow> state \<Rightarrow> exn option \<times> state" where
  "aggregate_and_dispatch audit_id documents full_db_results s =
     (let all_doc_scores = map de_relevance_score documents;
          all_db_scores = concat (map (\<lambda>(t, analyses). map re_relevance_score analyses)
                                    full_db_results)
      in case overall_relevance all_doc_scores all_db_scores of
        Inl e \<Rightarrow> (Some e, s)
      | Inr overall_score \<Rightarrow>
          let s1 = s\<lparr>log := log s @ [OverallScore overall_score]\<rparr>;
              has_document_evidence = (all_doc_scores \<noteq> []);
              has_database_evidence = (all_db_scores \<noteq> [])
          in if overall_score \<ge> 6 / 10
             then
               let s2 = s1\<lparr>log := log s1 @
                          [Classified (classify has_document_evidence has_database_evidence)]\<rparr>
               in case best_document documents of
                    None \<Rightarrow> (None, s2)
                  | Some best_doc \<Rightarrow>
                      (None, s2\<lparr>spawned := spawned s2 @
                         [AutoProcess (de_operation_id best_doc) audit_id
                            (verdict_of best_doc)]\<rparr>)
             else (None, s1))"

text \<open>One audit of the run.\<close>

definition analyze_audit ::
  "builtins \<Rightarrow> service \<Rightarrow> bool \<Rightarrow> int \<Rightarrow> file_operation_row list \<Rightarrow> (string \<times> dict list) list
     \<Rightarrow> int \<Rightarrow> state \<Rightarrow> exn option \<times> state" where
  "analyze_audit B svc available framework_id all_documents all_database_data audit_id s =
     (let audit_details = get_audit_details (db s) audit_id;
          audit_framework_id = ad_framework_id audit_details;
          docs_index = load_json_index s (framework_id, audit_id, Documents);
          db_index = load_json_index s (framework_id, audit_id, Database)
      in case analyze_documents B svc available framework_id audit_id audit_details
                (ix_documents docs_index) all_documents s of
        (Some e, s1) \<Rightarrow> (Some e, s1)
      | (None, s1) \<Rightarrow>
          let incremental = incremental_db_data B (ix_database_data db_index) all_database_data
          in case (if incremental \<noteq> []
                   then analyze_database_data_relevance B svc audit_id incremental (calls s1)
                   else (Inr [], calls s1)) of
               (Inl e, calls2) \<Rightarrow> (Some e, s1\<lparr>calls := calls2\<rparr>)
             | (Inr db_results, calls2) \<Rightarrow>
                 let s2 = index_results framework_id audit_id db_results (s1\<lparr>calls := calls2\<rparr>);
                     full_db_results =
                       ix_database_data (load_json_index s2 (framework_id, audit_id, Database));
                     s3 = create_ai_evidence_from_database_results B
                            (Some (if id_truthy audit_framework_id
                                   then id_or_0 audit_framework_id else framework_id))
                            audit_id full_db_results s2
                 in aggregate_and_dispatch audit_id (ix_documents docs_index) full_db_results s3)"

text \<open>The run: every active audit of the framework in turn; an exception in one audit
  is re-raised and ends the run, where it is caught and printed.\<close>

fun analyze_audits ::
  "builtins \<Rightarrow> service \<Rightarrow> bool \<Rightarrow> int \<Rightarrow> file_operation_row list \<Rightarrow> (string \<times> dict list) list
     \<Rightarrow> audit_row list \<Rightarrow> state \<Rightarrow> state" where
  "analyze_audits B svc available framework_id all_documents all_database_data [] s = s"
| "analyze_audits B svc available framework_id all_documents all_database_data (a # audits) s =
     (case analyze_audit B svc available framework_id all_documents all_database_data
             (AuditId a) s of
        (Some e, s1) \<Rightarrow> s1
      | (None, s1) \<Rightarrow>
          analyze_audits B svc available framework_id all_documents all_database_data audits s1)"

definition analyze_audit_relevance_background ::
  "builtins \<Rightarrow> service \<Rightarrow> bool \<Rightarrow> int \<Rightarrow> file_operation_row list \<Rightarrow> (string \<times> dict list) list
     \<Rightarrow> state \<Rightarrow> state" where
  "analyze_audit_relevance_background B svc available framework_id all_documents
       all_database_data s =
     analyze_audits B svc available framework_id all_documents all_database_data
       (get_active_ai_audits (db s) framework_id) s"

section \<open>A small installation\<close>

text \<open>
  Framework 7 with one policy (5), one subpolicy (12) and three compliances (30, 31, 42);
  framework 8 with policy 6, subpolicy 13 and compliance 77; audit 426 in progress and
  audit 430 open, both in framework 7; two uploaded files.
  The printing builtins are fixed for the small numbers used.
\<close>

definition sample_builtins :: builtins where
  "sample_builtins =
     \<lparr>int_of_str = (\<lambda>s. None), float_of_str = (\<lambda>s. None),
      str_of = (\<lambda>v. case v of
                     JInt n \<Rightarrow> (if n = 1 then ''1'' else if n = 2 then ''2''
                                else if n = 9 then ''9'' else if n = 42 then ''42'' else ''0'')
                   | JStr s \<Rightarrow> s
                   | _ \<Rightarrow> ''?''),
      json_dumps = (\<lambda>v. ''{}''), sql_int_of_str = (\<lambda>s. None)\<rparr>"

definition sample_db :: database where
  "sample_db =
     \<lparr>db_pool = True,
      audit = [\<lparr>AuditId = 426, a_FrameworkId = Some 7, a_Status = Some ''In Progress''\<rparr>,
               \<lparr>AuditId = 430, a_FrameworkId = Some 7, a_Status = None\<rparr>],
      policies = [\<lparr>p_PolicyId = 5, p_FrameworkId = Some 7\<rparr>,
                  \<lparr>p_PolicyId = 6, p_FrameworkId = Some 8\<rparr>],
      subpolicies = [\<lparr>sp_SubPolicyId = 12, sp_PolicyId = Some 5\<rparr>,
                     \<lparr>sp_SubPolicyId = 13, sp_PolicyId = Some 6\<rparr>],
      compliance = [\<lparr>c_ComplianceId = 30, c_SubPolicyId = Some 12\<rparr>,
                    \<lparr>c_ComplianceId = 31, c_SubPolicyId = Some 12\<rparr>,
                    \<lparr>c_ComplianceId = 42, c_SubPolicyId = Some 12\<rparr>,
                    \<lparr>c_ComplianceId = 77, c_SubPolicyId = Some 13\<rparr>],
      file_operations =
        [\<lparr>fo_id = 1, fo_file_name = Some ''a.pdf'', fo_original_name = None,
          fo_s3_key = Some ''k/a.pdf'', fo_stored_name = Some ''a.pdf'',
          fo_file_type = Some ''pdf'', fo_status = Some ''completed''\<rparr>,
         \<lparr>fo_id = 2, fo_file_name = Some ''b.pdf'', fo_original_name = None,
          fo_s3_key = Some ''k/b.pdf'', fo_stored_name = Some ''b.pdf'',
          fo_file_type = Some ''pdf'', fo_status = Some ''completed''\<rparr>],
      ai_audit_data = [],
      ai_audit_data_next_id = 1,
      lastchecklistitemverified = []\<rparr>"

definition sample_state :: state where
  "sample_state =
     \<lparr>db = sample_db, files = (\<lambda>file_path. None), clock = 0, calls = [], spawned = [],
      log = []\<rparr>"

text \<open>A reply of the service and an entry of the database index with a given score and
  matched compliances; the first uploaded file; an incident row.\<close>

definition sample_reply :: "rat \<Rightarrow> json list \<Rightarrow> dict" where
  "sample_reply score matched =
     [(''relevance_score'', JNum score), (''relevance_reason'', JStr ''r''),
      (''matched_policies'', JArr []), (''matched_subpolicies'', JArr []),
      (''matched_compliances'', JArr matched)]"

definition sample_entry :: "string \<Rightarrow> int \<Rightarrow> rat \<Rightarrow> json list \<Rightarrow> db_entry" where
  "sample_entry table_name record_id score matched =
     \<lparr>re_table_name = table_name, re_record_id = Some record_id, re_analyzed_at = 0,
      re_relevance_score = JNum score, re_relevance_reason = JStr ''r'',
      re_matched_policies = JArr [], re_matched_subpolicies = JArr [],
      re_matched_compliances = JArr matched\<rparr>"

definition first_document :: file_operation_row where
  "first_document =
     \<lparr>fo_id = 1, fo_file_name = Some ''a.pdf'', fo_original_name = None,
      fo_s3_key = Some ''k/a.pdf'', fo_stored_name = Some ''a.pdf'',
      fo_file_type = Some ''pdf'', fo_status = Some ''completed''\<rparr>"

definition incident_record :: dict where
  "incident_record = [(''IncidentId'', JInt 9), (''IncidentTitle'', JStr ''x'')]"

text \<open>A service that gives the same reply to every call, and what is compared of an
  evidence row: audit, source, external id, policy and subpolicy.\<close>

definition constant_service :: "dict \<Rightarrow> service" where
  "constant_service reply = (\<lambda>n cand. Some reply)"

definition evidence_summary ::
  "evidence_row \<Rightarrow> int \<times> string option \<times> string option \<times> int option \<times> int option" where
  "evidence_summary r =
     (e_audit_id r, e_external_source r, e_external_id r, e_policy_id r, e_subpolicy_id r)"

text \<open>A first run for audit 426 in which the only candidate is the first file and the
  service scores it 0.9 without matching any compliance.\<close>

definition unmapped_document_run :: state where
  "unmapped_document_run =
     snd (analyze_audit sample_builtins (constant_service (sample_reply (9 / 10) [])) True 7
            [first_document] [] 426 sample_state)"

text \<open>A first run for audit 426 (framework 7) in which the only candidate is an incident
  row and the service matches it to compliance 77, which belongs to framework 8.\<close>

definition foreign_record_run :: state where
  "foreign_record_run =
     snd (analyze_audit sample_builtins (constant_service (sample_reply (9 / 10) [JInt 77])) True 7
            [] [(''incidents'', [incident_record])] 426 sample_state)"

text \<open>The store with three evidence rows of audit 426: an uploaded document, a database
  record, and a document whose processing failed.\<close>

definition sample_evidence_row :: "int \<Rightarrow> string \<Rightarrow> string \<Rightarrow> string \<Rightarrow> evidence_row" where
  "sample_evidence_row row_id source document_type status =
     \<lparr>e_id = row_id, e_audit_id = 426, e_document_id = row_id, e_document_name = ''doc'',
      e_document_path = ''path'', e_document_type = Some document_type,
      e_ai_processing_status = Some status, e_policy_id = None, e_subpolicy_id = None,
      e_external_source = Some source, e_external_id = Some ''x'',
      e_FrameworkId = Some 7, e_compliance_analyses = None\<rparr>"

definition sample_db_with_evidence :: database where
  "sample_db_with_evidence =
     sample_db\<lparr>ai_audit_data :=
                 [sample_evidence_row 1 ''evidence_attachment'' ''pdf'' ''completed'',
                  sample_evidence_row 2 ''database_record'' ''db_record'' ''completed'',
                  sample_evidence_row 3 ''evidence_attachment'' ''pdf'' ''failed''],
               ai_audit_data_next_id := 4\<rparr>"

text \<open>Two services that treat the first call differently: one has no answer for it, the
  other answers it with a score that is not a number. A second incident row and the
  second uploaded file.\<close>

definition silent_first_service :: "dict \<Rightarrow> service" where
  "silent_first_service reply = (\<lambda>n cand. if n = 0 then None else Some reply)"

definition malformed_first_service :: "dict \<Rightarrow> service" where
  "malformed_first_service reply =
     (\<lambda>n cand. if n = 0
               then Some [(''relevance_score'', JStr ''high''), (''relevance_reason'', JStr ''r'')]
               else Some reply)"

definition second_incident_record :: dict where
  "second_incident_record = [(''IncidentId'', JInt 2), (''IncidentTitle'', JStr ''y'')]"

definition second_document :: file_operation_row where
  "second_document =
     \<lparr>fo_id = 2, fo_file_name = Some ''b.pdf'', fo_original_name = None,
      fo_s3_key = Some ''k/b.pdf'', fo_stored_name = Some ''b.pdf'',
      fo_file_type = Some ''pdf'', fo_status = Some ''completed''\<rparr>"

text \<open>Two first runs for audit 426 in which the service's first answer carries the
  score \<^verbatim>\<open>"high"\<close>: one over two incident rows, one over the two uploaded files.\<close>

definition aborted_record_run :: "exn option \<times> state" where
  "aborted_record_run =
     analyze_audit sample_builtins (malformed_first_service (sample_reply (9 / 10) [JInt 42]))
       True 7 [] [(''incidents'', [incident_record, second_incident_record])] 426 sample_state"

definition aborted_document_run :: "exn option \<times> state" where
  "aborted_document_run =
     analyze_audit sample_builtins (malformed_first_service (sample_reply (9 / 10) [JInt 42]))
       True 7 [first_document, second_document] [] 426 sample_state"

text \<open>The content key of an index entry, and an entry written before keys were stored:
  it has the operation id 1 only.\<close>

definition entry_content_key :: "doc_entry \<Rightarrow> string option" where
  "entry_content_key d = str_or (de_s3_key d) (de_stored_name d)"

definition legacy_entry :: doc_entry where
  "legacy_entry =
     \<lparr>de_operation_id = Some 1, de_s3_key = None, de_stored_name = None, de_analyzed_at = 0,
      de_relevance_score = JNum (9 / 10), de_relevance_reason = JStr ''r'',
      de_matched_policies = JArr [], de_matched_subpolicies = JArr [],
      de_matched_compliances = JArr []\<rparr>"

text \<open>The scores of all records of a database index.\<close>

definition record_scores :: "(string \<times> db_entry list) list \<Rightarrow> json list" where
  "record_scores full_db_results = map re_relevance_score (concat (map snd full_db_results))"

text \<open>
  An installation whose index for audit 426 already holds the verdict of the first file
  and the verdict of incident 9, with given scores, and a run over exactly this evidence.
  A service that answers documents and records differently, and a first run with it.
\<close>

definition sample_doc_entry :: "rat \<Rightarrow> doc_entry" where
  "sample_doc_entry score =
     \<lparr>de_operation_id = Some 1, de_s3_key = Some ''k/a.pdf'', de_stored_name = Some ''a.pdf'',
      de_analyzed_at = 0, de_relevance_score = JNum score, de_relevance_reason = JStr ''r'',
      de_matched_policies = JArr [], de_matched_subpolicies = JArr [],
      de_matched_compliances = JArr [JInt 42]\<rparr>"

definition cached_files ::
  "rat \<Rightarrow> rat \<Rightarrow> int \<times> int \<times> index_type \<Rightarrow> index_file option" where
  "cached_files doc_score record_score file_path =
     (if file_path = (7, 426, Documents)
      then Some \<lparr>ix_framework_id = Some 7, ix_audit_id = Some 426, ix_last_updated = Some 1,
                  ix_documents = [sample_doc_entry doc_score], ix_database_data = []\<rparr>
      else if file_path = (7, 426, Database)
      then Some \<lparr>ix_framework_id = Some 7, ix_audit_id = Some 426, ix_last_updated = Some 3,
                  ix_documents = [],
                  ix_database_data =
                    [(''incidents'', [sample_entry ''incidents'' 9 record_score [JInt 42]])]\<rparr>
      else None)"

definition cached_state :: "rat \<Rightarrow> rat \<Rightarrow> state" where
  "cached_state doc_score record_score =
     sample_state\<lparr>files := cached_files doc_score record_score, clock := 4\<rparr>"

definition cached_run :: "rat \<Rightarrow> rat \<Rightarrow> exn option \<times> state" where
  "cached_run doc_score record_score =
     analyze_audit sample_builtins (constant_service (sample_reply (9 / 10) [])) True 7
       [first_document] [(''incidents'', [incident_record])] 426
       (cached_state doc_score record_score)"

text \<open>The state after the task dispatched by that run has been carried out.\<close>

definition cached_run_processed :: "rat \<Rightarrow> rat \<Rightarrow> state" where
  "cached_run_processed doc_score record_score =
     auto_process_relevant_document sample_builtins (Some 1) 426
       (verdict_of (sample_doc_entry doc_score)) (snd (cached_run doc_score record_score))"

definition kind_service :: "dict \<Rightarrow> dict \<Rightarrow> service" where
  "kind_service document_reply record_reply =
     (\<lambda>n cand. case cand of
                 DocumentEvidence a i \<Rightarrow> Some document_reply
               | RecordEvidence a t r \<Rightarrow> Some record_reply)"

definition fresh_run :: "rat \<Rightarrow> rat \<Rightarrow> exn option \<times> state" where
  "fresh_run doc_score record_score =
     analyze_audit sample_builtins
       (kind_service (sample_reply doc_score [JInt 42]) (sample_reply record_score [JInt 42]))
       True 7 [first_document] [(''incidents'', [incident_record])] 426 sample_state"

text \<open>
  Evidence rows of database records, identified by audit and provenance
  (\<^verbatim>\<open>external_id\<close>, the table and record): there is at most one row for each.
\<close>

definition is_database_record :: "evidence_row \<Rightarrow> bool" where
  "is_database_record r \<longleftrightarrow> sql_eq (e_external_source r) ''database_record''"

definition provenance_key :: "evidence_row \<Rightarrow> int \<times> string option" where
  "provenance_key r = (e_audit_id r, e_external_id r)"

definition unique_db_evidence :: "evidence_row list \<Rightarrow> bool" where
  "unique_db_evidence rows \<longleftrightarrow> distinct (map provenance_key (filter is_database_record rows))"

text \<open>
  The state after a first run in which the first file and incident 9 got their verdicts,
  and a second run over the same evidence. A first run in which the first file is matched
  to compliances 30 and 31, followed by the task it dispatched. A first run in which the
  service has no answer for the first file, and the second run after it.
\<close>

definition covered_state :: state where
  "covered_state = snd (fresh_run (7 / 10) (3 / 4))"

definition rerun :: "exn option \<times> state" where
  "rerun =
     analyze_audit sample_builtins
       (kind_service (sample_reply (7 / 10) [JInt 42]) (sample_reply (3 / 4) [JInt 42]))
       True 7 [first_document] [(''incidents'', [incident_record])] 426 covered_state"

definition two_compliances_run :: state where
  "two_compliances_run =
     snd (analyze_audit sample_builtins
            (constant_service (sample_reply (9 / 10) [JInt 30, JInt 31])) True 7
            [first_document] [] 426 sample_state)"

definition two_compliances_processed :: state where
  "two_compliances_processed =
     auto_process_relevant_document sample_builtins (Some 1) 426
       (sample_reply (9 / 10) [JInt 30, JInt 31]) two_compliances_run"

definition unanswered_run :: state where
  "unanswered_run =
     snd (analyze_audit sample_builtins (silent_first_service (sample_reply (9 / 10) [JInt 42]))
            True 7 [first_document] [] 426 sample_state)"

definition unanswered_rerun :: state where
  "unanswered_rerun =
     snd (analyze_audit sample_builtins (silent_first_service (sample_reply (9 / 10) [JInt 42]))
            True 7 [first_document] [] 426 unanswered_run)"

text \<open>
  The evidence rows that the engine takes for those of an uploaded file in an audit: the
  condition of the check that \<^verbatim>\<open>_auto_process_relevant_document\<close> makes before it
  creates any (the operation id, the file key or the stored name as external id, and
  not failed).
\<close>

definition document_evidence_of ::
  "builtins \<Rightarrow> int \<Rightarrow> file_operation_row \<Rightarrow> evidence_row \<Rightarrow> bool" where
  "document_evidence_of B audit_id file_op r \<longleftrightarrow>
     (let external_id = str_of B (JInt (fo_id file_op))
      in already_attached audit_id external_id
           (last_chars 100 (opt_str (str_or (str_or (fo_s3_key file_op) (fo_stored_name file_op))
                                       (Some external_id))))
           (opt_str (str_or (fo_stored_name file_op) (Some []))) r)"

text \<open>
  A first run for audit 426 over the two uploaded files, in which the service scores the
  first 0.59999 and the second 0.6, both matched to compliance 42; and the state after
  the one task that this run starts has been carried out.
\<close>

definition low_first_service :: service where
  "low_first_service =
     (\<lambda>n cand. if n = 0 then Some (sample_reply (59999 / 100000) [JInt 42])
               else Some (sample_reply (6 / 10) [JInt 42]))"

definition low_document_run :: "exn option \<times> state" where
  "low_document_run =
     analyze_audit sample_builtins low_first_service True 7 [first_document, second_document] []
       426 sample_state"

definition low_document_processed :: state where
  "low_document_processed =
     auto_process_relevant_document sample_builtins (Some 2) 426
       (sample_reply (6 / 10) [JInt 42]) (snd low_document_run)"

text \<open>A table of 51 incident rows, and a service that never answers.\<close>

definition many_incidents :: "dict list" where
  "many_incidents =
     map (\<lambda>i. [(''IncidentId'', JInt (int i)), (''IncidentTitle'', JStr ''x'')]) [1 ..< 52]"

definition silent_service :: service where
  "silent_service = (\<lambda>n cand. None)"

section \<open>Enumeration: properties\<close>

lemma set_get_active_ai_audits:
  "set (get_active_ai_audits d fw) =
     (if db_pool d then {a \<in> set (audit d). active_audit_where fw a} else {})"
  by (simp add: get_active_ai_audits_def)

lemma distinct_map_filter_same_key:
  "distinct (map f xs) \<Longrightarrow> \<forall>x \<in> set xs. P x \<longrightarrow> f x = k \<Longrightarrow> length (filter P xs) \<le> 1"
proof (induction xs)
  case Nil
  then show ?case by simp
next
  case (Cons x xs)
  show ?case
  proof (cases "P x")
    case True
    have "filter P xs = []"
    proof (rule ccontr)
      assume "filter P xs \<noteq> []"
      then obtain y where y: "y \<in> set xs" "P y"
        by (metis filter_False)
      with Cons.prems True have "f y = f x" by simp
      moreover from Cons.prems(1) have "f x \<notin> f ` set xs" by simp
      ultimately show False using y(1) by (metis imageI)
    qed
    with True show ?thesis by simp
  next
    case False
    with Cons show ?thesis by simp
  qed
qed

text \<open>
  C3. For every framework id, the enumeration of active audits returns only audits whose
  AuditId is 426, that belong to the framework and are not completed; such an audit is
  returned when the store is reachable; every audit with another id is excluded whatever
  its status; and, AuditId being the table's key, at most one audit is returned, so at
  most one audit per framework is analyzed.
\<close>

theorem C3_only_audit_426:
  assumes "distinct (map AuditId (audit d))"
  shows "(\<forall>a \<in> set (get_active_ai_audits d fw).
            AuditId a = 426 \<and> a_FrameworkId a = Some fw \<and> a_Status a \<noteq> Some ''Completed'')
         \<and> (\<forall>a \<in> set (audit d). AuditId a \<noteq> 426 \<longrightarrow> a \<notin> set (get_active_ai_audits d fw))
         \<and> (\<forall>a \<in> set (audit d). db_pool d \<and> AuditId a = 426 \<and> a_FrameworkId a = Some fw
               \<and> a_Status a \<noteq> Some ''Completed'' \<longrightarrow> a \<in> set (get_active_ai_audits d fw))
         \<and> length (get_active_ai_audits d fw) \<le> 1"
proof -
  have len: "length (filter (active_audit_where fw) (audit d)) \<le> 1"
    by (rule distinct_map_filter_same_key [OF assms, where k = 426])
       (simp add: active_audit_where_def)
  have "length (get_active_ai_audits d fw) \<le> 1"
    using len by (simp add: get_active_ai_audits_def)
  moreover have "\<forall>a \<in> set (get_active_ai_audits d fw).
      AuditId a = 426 \<and> a_FrameworkId a = Some fw \<and> a_Status a \<noteq> Some ''Completed''"
    by (auto simp: set_get_active_ai_audits active_audit_where_def split: if_splits option.splits)
  moreover have "\<forall>a \<in> set (audit d). AuditId a \<noteq> 426 \<longrightarrow> a \<notin> set (get_active_ai_audits d fw)"
    by (auto simp: set_get_active_ai_audits active_audit_where_def split: if_splits)
  moreover have "\<forall>a \<in> set (audit d). db_pool d \<and> AuditId a = 426 \<and> a_FrameworkId a = Some fw
      \<and> a_Status a \<noteq> Some ''Completed'' \<longrightarrow> a \<in> set (get_active_ai_audits d fw)"
    by (auto simp: set_get_active_ai_audits active_audit_where_def split: option.splits)
  ultimately show ?thesis by blast
qed

theorem C3_only_audit_426_witness:
  "distinct (map AuditId (audit sample_db))
   \<and> map AuditId (get_active_ai_audits sample_db 7) = [426]
   \<and> length (get_active_ai_audits sample_db 7) \<le> 1"
proof -
  have h: "distinct (map AuditId (audit sample_db))"
    by (simp add: sample_db_def)
  show ?thesis
    using h C3_only_audit_426 [OF h, of 7]
    by (simp add: sample_db_def get_active_ai_audits_def active_audit_where_def)
qed

section \<open>Evidence thresholds: properties\<close>

lemma in_set_map: "x \<in> set xs \<Longrightarrow> f x \<in> set (map f xs)"
  by simp

lemma map_fixed: "map f xs = xs \<Longrightarrow> x \<in> set xs \<Longrightarrow> f x = x"
  by (induction xs) auto

lemma update_checklist_changes:
  "lastchecklistitemverified (update_checklist c fw pp ps n1 n2 cm d) \<noteq> lastchecklistitemverified d"
proof (cases "list_ex (checklist_where c fw (id_or_0 pp) (id_or_0 ps)) (lastchecklistitemverified d)")
  case True
  then obtain r where r: "r \<in> set (lastchecklistitemverified d)"
      "checklist_where c fw (id_or_0 pp) (id_or_0 ps) r"
    by (auto simp: list_ex_iff)
  show ?thesis
  proof
    assume eq: "lastchecklistitemverified (update_checklist c fw pp ps n1 n2 cm d)
        = lastchecklistitemverified d"
    let ?f = "\<lambda>r. if checklist_where c fw (id_or_0 pp) (id_or_0 ps) r
                            then r\<lparr>cl_Date := n1, cl_Time := n2,
                                   cl_Complied := ''1'', cl_Comments := cm,
                                   cl_Count := Some (id_or_0 (cl_Count r) + 1)\<rparr>
                            else r"
    from eq True have "map ?f (lastchecklistitemverified d) = lastchecklistitemverified d"
      by (simp add: update_checklist_def Let_def)
    from map_fixed [OF this r(1)] have "?f r = r" .
    with r(2) have "r\<lparr>cl_Date := n1, cl_Time := n2,
                                   cl_Complied := ''1'', cl_Comments := cm,
                                   cl_Count := Some (id_or_0 (cl_Count r) + 1)\<rparr> = r"
      by simp
    then have "cl_Count (r\<lparr>cl_Date := n1, cl_Time := n2,
                                   cl_Complied := ''1'', cl_Comments := cm,
                                   cl_Count := Some (id_or_0 (cl_Count r) + 1)\<rparr>) = cl_Count r"
      by (rule arg_cong)
    then show False by (cases "cl_Count r") (simp_all add: id_or_0_def)
  qed
next
  case False
  then have "length (lastchecklistitemverified (update_checklist c fw pp ps n1 n2 cm d))
      = Suc (length (lastchecklistitemverified d))"
    by (simp add: update_checklist_def Let_def)
  then show ?thesis by auto
qed

lemma list_ex_map_intro: "x \<in> set xs \<Longrightarrow> P (f x) \<Longrightarrow> list_ex P (map f xs)"
  by (auto simp: list_ex_iff)

lemma update_checklist_has_row:
  "list_ex (checklist_where c fw (id_or_0 pp) (id_or_0 ps))
     (lastchecklistitemverified (update_checklist c fw pp ps n1 n2 cm d))"
proof (cases "list_ex (checklist_where c fw (id_or_0 pp) (id_or_0 ps)) (lastchecklistitemverified d)")
  case True
  then obtain r where r: "r \<in> set (lastchecklistitemverified d)"
      "checklist_where c fw (id_or_0 pp) (id_or_0 ps) r"
    by (auto simp: list_ex_iff)
  let ?f = "\<lambda>r. if checklist_where c fw (id_or_0 pp) (id_or_0 ps) r
                            then r\<lparr>cl_Date := n1, cl_Time := n2,
                                   cl_Complied := ''1'', cl_Comments := cm,
                                   cl_Count := Some (id_or_0 (cl_Count r) + 1)\<rparr>
                            else r"
  have eq: "lastchecklistitemverified (update_checklist c fw pp ps n1 n2 cm d)
      = map ?f (lastchecklistitemverified d)"
    using True by (simp add: update_checklist_def Let_def)
  have "checklist_where c fw (id_or_0 pp) (id_or_0 ps) (?f r)"
    using r(2) by (simp add: checklist_where_def)
  with r(1) have "list_ex (checklist_where c fw (id_or_0 pp) (id_or_0 ps))
      (map ?f (lastchecklistitemverified d))"
    by (rule list_ex_map_intro)
  then show ?thesis by (simp only: eq)
next
  case False
  then show ?thesis
    by (simp add: update_checklist_def Let_def checklist_where_def)
qed

lemma update_checklist_evidence:
  "ai_audit_data (update_checklist c fw pp ps n1 n2 cm d) = ai_audit_data d"
  by (simp add: update_checklist_def Let_def)

lemma insert_db_evidence_length:
  "length (ai_audit_data (insert_db_evidence fw audit_id dn ex pp ps aj d))
      = Suc (length (ai_audit_data d))"
  by (simp add: insert_db_evidence_def Let_def)

lemma insert_db_evidence_has_row:
  "list_ex (is_db_evidence_of audit_id ex)
      (ai_audit_data (insert_db_evidence fw audit_id dn ex pp ps aj d))"
  by (simp add: insert_db_evidence_def Let_def is_db_evidence_of_def sql_eq_def)

lemma insert_db_evidence_checklist:
  "lastchecklistitemverified (insert_db_evidence fw audit_id dn ex pp ps aj d)
      = lastchecklistitemverified d"
  by (simp add: insert_db_evidence_def Let_def)

lemma db_evidence_step_below:
  assumes "re_record_id a = Some rid"
    and "py_float B (py_or (re_relevance_score a) (JInt 0)) = Inr score"
    and "score < 6 / 10"
  shows "db_evidence_step B fw audit_id t a s = s"
  using assms by (simp add: db_evidence_step_def evidence_threshold_def)

lemma db_evidence_step_insert:
  assumes "re_record_id a = Some rid" "rid \<noteq> 0"
    and "py_float B (py_or (re_relevance_score a) (JInt 0)) = Inr score"
    and "resolve_comp_id B t rid (py_or (re_matched_compliances a) (JArr [])) = Inr (Some cid)"
       "cid \<noteq> 0"
    and "lookup_compliance (db s) cid = Some (pc, psub, ppol)" "pc \<noteq> 0"
    and "py_slice 500 (re_relevance_reason a) = Inr reason"
    and "find (is_db_evidence_of audit_id (t @ '':'' @ str_of B (JInt rid)))
                  (ai_audit_data (db s)) = None"
    and "score \<ge> 6 / 10"
  shows "db (db_evidence_step B fw audit_id t a s) =
     (let d1 = insert_db_evidence fw audit_id (''Evidence '' @ str_of B (JInt rid))
                   (t @ '':'' @ str_of B (JInt rid)) ppol psub
                   (db_analysis_payload B t rid pc score reason) (db s)
      in if score \<ge> 8 / 10
         then update_checklist pc fw ppol psub (clock s) (Suc (clock s))
                (''Auto evidence from '' @ t @ '' record '' @ str_of B (JInt rid) @ '': ''
                   @ str_of B reason) d1
         else d1)"
  using assms
  by (simp add: db_evidence_step_def db_evidence_mapped_def upsert_db_evidence_def
      evidence_threshold_def checklist_threshold_def id_truthy_def id_or_0_def Let_def)


lemma spawned_save_json_index:
  "spawned (save_json_index file_path data s) =
     spawned s @ (case ix_audit_id data of
                    None \<Rightarrow> []
                  | Some a \<Rightarrow> if a \<noteq> 0 \<and> id_truthy (ix_framework_id data)
                              then [TriggerProcessing a] else [])"
  by (simp add: save_json_index_def Let_def split: option.splits)

lemma spawned_update_json_index_document:
  "spawned (update_json_index_document fw a op rr k n s) =
     spawned s @ (if a \<noteq> 0 \<and> fw \<noteq> 0 then [TriggerProcessing a] else [])"
  by (simp add: update_json_index_document_def Let_def spawned_save_json_index id_truthy_def)

lemma spawned_update_json_index_database:
  "spawned (update_json_index_database fw a t rid an s) =
     spawned s @ (if a \<noteq> 0 \<and> fw \<noteq> 0 then [TriggerProcessing a] else [])"
  by (simp add: update_json_index_database_def Let_def spawned_save_json_index id_truthy_def)

lemma db_update_json_index_document:
  "db (update_json_index_document fw a op rr k n s) = db s"
  by (simp add: update_json_index_document_def save_json_index_def Let_def split: option.splits)

lemma py_float_num_val: "num_val v = Some r \<Longrightarrow> py_float B v = Inr r"
  by (cases v) simp_all

lemma analyze_document_dispatch:
  assumes v: "analyze_document_audit_relevance True details
                (svc (length (calls s)) (DocumentEvidence audit_id (fo_id doc))) = Some rr"
    and ne: "rr \<noteq> []"
    and sc: "num_val (dget_or rr ''relevance_score'' (JInt 0)) = Some r"
    and pool: "db_pool (db s)"
    and reason: "dget_or rr ''relevance_reason'' (JStr []) = JStr x"
  shows "spawned (snd (analyze_document B svc True fw audit_id details doc s)) =
           spawned s @ (if audit_id \<noteq> 0 \<and> fw \<noteq> 0 then [TriggerProcessing audit_id] else [])
             @ (if r \<ge> 6 / 10 then [AutoProcess (Some (fo_id doc)) audit_id rr] else [])"
  using assms py_float_num_val [OF sc, of B]
  by (simp add: analyze_document_def Let_def store_audit_relevance_def
      spawned_update_json_index_document db_update_json_index_document)


lemma db_store_audit_relevance: "db (store_audit_relevance B op a rr s) = db s"
  by (simp add: store_audit_relevance_def split: sum.splits json.splits)

lemma db_analyze_document: "db (snd (analyze_document B svc av fw a det doc s)) = db s"
  by (simp add: analyze_document_def Let_def db_update_json_index_document
      db_store_audit_relevance split: option.splits)

subsection \<open>The auto-processing task\<close>

lemma insert_mappings_rows:
  "\<exists>rows. ai_audit_data (fst (insert_mappings fw a fn dp ft ext ms d)) = ai_audit_data d @ rows
      \<and> length rows = length ms
      \<and> (\<forall>r \<in> set rows. e_audit_id r = a
            \<and> e_external_source r = Some ''evidence_attachment''
            \<and> e_external_id r = Some ext
            \<and> e_ai_processing_status r = Some ''pending'')"
proof (induction ms arbitrary: d)
  case Nil
  then show ?case by simp
next
  case (Cons m ms)
  obtain policy_id subpolicy_id where m: "m = (policy_id, subpolicy_id)"
    by (cases m)
  let ?row = "\<lparr>e_id = ai_audit_data_next_id d, e_audit_id = a,
                 e_document_id = ai_audit_data_next_id d,
                 e_document_name = fn, e_document_path = dp,
                 e_document_type = Some (take 50 ft),
                 e_ai_processing_status = Some ''pending'',
                 e_policy_id = policy_id, e_subpolicy_id = subpolicy_id,
                 e_external_source = Some ''evidence_attachment'',
                 e_external_id = Some ext,
                 e_FrameworkId = Some fw,
                 e_compliance_analyses = None\<rparr>"
  let ?d1 = "d\<lparr>ai_audit_data := ai_audit_data d @ [?row],
                 ai_audit_data_next_id := ai_audit_data_next_id d + 1\<rparr>"
  from Cons.IH [of ?d1] obtain rows where
    rows: "ai_audit_data (fst (insert_mappings fw a fn dp ft ext ms ?d1)) = ai_audit_data ?d1 @ rows"
      "length rows = length ms"
      "\<forall>r \<in> set rows. e_audit_id r = a
            \<and> e_external_source r = Some ''evidence_attachment''
            \<and> e_external_id r = Some ext
            \<and> e_ai_processing_status r = Some ''pending''"
    by blast
  have eq: "fst (insert_mappings fw a fn dp ft ext (m # ms) d)
      = fst (insert_mappings fw a fn dp ft ext ms ?d1)"
    by (simp add: m Let_def split: prod.splits)
  show ?case
  proof (intro exI [of _ "?row # rows"] conjI)
    show "ai_audit_data (fst (insert_mappings fw a fn dp ft ext (m # ms) d))
        = ai_audit_data d @ ?row # rows"
      using rows(1) by (simp add: eq)
    show "length (?row # rows) = length (m # ms)"
      using rows(2) by simp
    show "\<forall>r \<in> set (?row # rows). e_audit_id r = a
            \<and> e_external_source r = Some ''evidence_attachment''
            \<and> e_external_id r = Some ext
            \<and> e_ai_processing_status r = Some ''pending''"
      using rows(3) by simp
  qed
qed

lemma insert_mappings_file_operations:
  "file_operations (fst (insert_mappings fw a fn dp ft ext ms d)) = file_operations d"
proof (induction ms arbitrary: d)
  case Nil
  then show ?case by simp
next
  case (Cons m ms)
  obtain policy_id subpolicy_id where m: "m = (policy_id, subpolicy_id)"
    by (cases m)
  let ?row = "\<lparr>e_id = ai_audit_data_next_id d, e_audit_id = a,
                 e_document_id = ai_audit_data_next_id d,
                 e_document_name = fn, e_document_path = dp,
                 e_document_type = Some (take 50 ft),
                 e_ai_processing_status = Some ''pending'',
                 e_policy_id = policy_id, e_subpolicy_id = subpolicy_id,
                 e_external_source = Some ''evidence_attachment'',
                 e_external_id = Some ext,
                 e_FrameworkId = Some fw,
                 e_compliance_analyses = None\<rparr>"
  let ?d1 = "d\<lparr>ai_audit_data := ai_audit_data d @ [?row],
                 ai_audit_data_next_id := ai_audit_data_next_id d + 1\<rparr>"
  have eq: "fst (insert_mappings fw a fn dp ft ext (m # ms) d)
      = fst (insert_mappings fw a fn dp ft ext ms ?d1)"
    by (simp add: m Let_def split: prod.splits)
  show ?case
    by (simp only: eq Cons.IH [of ?d1]) simp
qed

lemma mappings_to_create_nonempty: "mappings_to_create d mcs \<noteq> []"
  by (simp add: mappings_to_create_def)

lemma process_document_file_operations:
  "file_operations (fst (process_document B fw a item acc)) = file_operations (fst acc)"
  by (cases item; cases acc)
     (simp add: process_document_def Let_def split_beta insert_mappings_file_operations
           split: option.splits sum.splits json.splits)

lemma process_document_rows:
  "\<exists>rows. ai_audit_data (fst (process_document B fw a item acc)) = ai_audit_data (fst acc) @ rows"
proof -
  obtain op mc d processed created where i: "item = (op, mc)" "acc = (d, processed, created)"
    by (cases item; cases acc) auto
  have "fst (process_document B fw a item acc) = d
      \<or> (\<exists>fn dp ft ext ms. fst (process_document B fw a item acc)
            = fst (insert_mappings fw a fn dp ft ext ms d))"
    by (simp add: i process_document_def Let_def split_beta
          split: option.splits sum.splits json.splits) blast
  then show ?thesis
    using insert_mappings_rows by (auto simp: i) metis
qed

lemma process_document_processed:
  "set (fst (snd (process_document B fw a item acc))) \<subseteq> insert (fst item) (set (fst (snd acc)))"
  by (cases item; cases acc)
     (auto simp: process_document_def Let_def split_beta
           split: option.splits sum.splits json.splits if_splits)

lemma list_ex_append_keeps: "list_ex P xs \<Longrightarrow> list_ex P (xs @ ys)"
  by simp

lemma process_document_keeps:
  "list_ex P (ai_audit_data (fst acc)) \<Longrightarrow>
   list_ex P (ai_audit_data (fst (process_document B fw a item acc)))"
  using process_document_rows [of B fw a item acc] by auto

lemma process_document_hit:
  assumes item: "item = (Some op, JArr xs)"
    and params: "sql_id_params B xs = Inr ps"
    and fresh: "Some op \<notin> set processed"
    and fileop: "find (\<lambda>f. fo_id f = op \<and> sql_eq (fo_status f) ''completed'') (file_operations d)
                 = Some file_op"
  shows "list_ex (document_evidence_of B a file_op)
           (ai_audit_data (fst (process_document B fw a item (d, processed, created))))"
proof -
  from fileop have id: "fo_id file_op = op"
    by (auto dest: find_Some_iff [THEN iffD1])
  let ?ext = "str_of B (JInt op)"
  let ?compact = "last_chars 100 (opt_str (str_or (str_or (fo_s3_key file_op)
                     (fo_stored_name file_op)) (Some ?ext)))"
  let ?stored = "opt_str (str_or (fo_stored_name file_op) (Some []))"
  have de: "document_evidence_of B a file_op = already_attached a ?ext ?compact ?stored"
    by (rule ext) (simp add: document_evidence_of_def Let_def id)
  show ?thesis
  proof (cases "list_ex (already_attached a ?ext ?compact ?stored) (ai_audit_data d)")
    case True
    then have "fst (process_document B fw a item (d, processed, created)) = d"
      using fresh fileop by (simp add: item process_document_def Let_def id_or_0_def)
    with True show ?thesis by (simp add: de)
  next
    case False
    let ?fn = "opt_str (str_or (str_or (fo_file_name file_op) (fo_original_name file_op))
                 (Some ''Unknown Document''))"
    let ?dp = "opt_str (str_or (str_or (fo_s3_key file_op) (fo_stored_name file_op))
                 (Some (''file_operations/'' @ ?ext @ ''/'' @ ?fn)))"
    let ?ft = "opt_str (str_or (fo_file_type file_op) (Some ''pdf''))"
    let ?ms = "mappings_to_create d ps"
    have ps0: "xs = [] \<Longrightarrow> ps = []"
      using params by simp
    have eq: "fst (process_document B fw a item (d, processed, created))
        = fst (insert_mappings fw a ?fn ?dp ?ft ?ext ?ms d)"
      unfolding item process_document_def
      using fresh fileop False params ps0
      by (cases "xs = []") (simp_all add: Let_def id_or_0_def split_beta)
    obtain rows where rows:
      "ai_audit_data (fst (insert_mappings fw a ?fn ?dp ?ft ?ext ?ms d)) = ai_audit_data d @ rows"
      "length rows = length ?ms"
      "\<forall>r \<in> set rows. e_audit_id r = a
            \<and> e_external_source r = Some ''evidence_attachment''
            \<and> e_external_id r = Some ?ext
            \<and> e_ai_processing_status r = Some ''pending''"
      using insert_mappings_rows [of fw a ?fn ?dp ?ft ?ext ?ms d] by blast
    from rows(2) mappings_to_create_nonempty [of d ps]
    obtain r where r: "r \<in> set rows"
      by (cases rows) auto
    with rows(3) have "already_attached a ?ext ?compact ?stored r"
      by (simp add: already_attached_def sql_eq_def sql_ne_def)
    with r have "list_ex (already_attached a ?ext ?compact ?stored) rows"
      by (auto simp: list_ex_iff)
    then have "list_ex (already_attached a ?ext ?compact ?stored) (ai_audit_data d @ rows)"
      by simp
    then show ?thesis
      unfolding de eq rows(1) .
  qed
qed

lemma fold_process_keeps:
  "list_ex P (ai_audit_data (fst acc)) \<Longrightarrow>
   list_ex P (ai_audit_data
     (fst (foldl (\<lambda>acc item. process_document B fw a item acc) acc todo)))"
  by (induction todo arbitrary: acc) (simp_all add: process_document_keeps)

lemma fold_process_rows:
  "\<exists>rows. ai_audit_data (fst (foldl (\<lambda>acc item. process_document B fw a item acc) acc todo))
      = ai_audit_data (fst acc) @ rows"
proof (induction todo arbitrary: acc)
  case Nil
  then show ?case by simp
next
  case (Cons item todo)
  obtain rows1 where r1: "ai_audit_data (fst (process_document B fw a item acc))
      = ai_audit_data (fst acc) @ rows1"
    using process_document_rows by blast
  obtain rows2 where r2:
    "ai_audit_data (fst (foldl (\<lambda>acc item. process_document B fw a item acc)
        (process_document B fw a item acc) todo))
      = ai_audit_data (fst (process_document B fw a item acc)) @ rows2"
    using Cons.IH by blast
  show ?case
    by (intro exI [of _ "rows1 @ rows2"]) (simp add: r1 r2)
qed

lemma fold_process_hit:
  assumes "\<exists>item \<in> set todo. fst item = Some op"
    and "\<forall>item \<in> set todo. fst item = Some op \<longrightarrow>
           (\<exists>xs ps. snd item = JArr xs \<and> sql_id_params B xs = Inr ps)"
    and "Some op \<notin> set (fst (snd acc))"
    and "find (\<lambda>f. fo_id f = op \<and> sql_eq (fo_status f) ''completed'') (file_operations (fst acc))
           = Some file_op"
  shows "list_ex (document_evidence_of B a file_op)
           (ai_audit_data (fst (foldl (\<lambda>acc item. process_document B fw a item acc) acc todo)))"
  using assms
proof (induction todo arbitrary: acc)
  case Nil
  then show ?case by simp
next
  case (Cons item todo)
  obtain d processed created where acc: "acc = (d, processed, created)"
    by (cases acc)
  show ?case
  proof (cases "fst item = Some op")
    case True
    with Cons.prems(2) obtain xs ps where
      i: "item = (Some op, JArr xs)" and ps: "sql_id_params B xs = Inr ps"
      by (cases item) auto
    have "list_ex (document_evidence_of B a file_op)
           (ai_audit_data (fst (process_document B fw a item (d, processed, created))))"
      using Cons.prems(3,4) by (intro process_document_hit [OF i ps]) (simp_all add: acc)
    then show ?thesis
      by (simp add: acc fold_process_keeps)
  next
    case False
    let ?acc = "process_document B fw a item acc"
    have 1: "\<exists>item \<in> set todo. fst item = Some op"
      using Cons.prems(1) False by auto
    have 2: "\<forall>item \<in> set todo. fst item = Some op \<longrightarrow>
           (\<exists>xs ps. snd item = JArr xs \<and> sql_id_params B xs = Inr ps)"
      using Cons.prems(2) by simp
    have 3: "Some op \<notin> set (fst (snd ?acc))"
      using process_document_processed [of B fw a item acc] Cons.prems(3) False by auto
    have 4: "find (\<lambda>f. fo_id f = op \<and> sql_eq (fo_status f) ''completed'')
               (file_operations (fst ?acc)) = Some file_op"
      using Cons.prems(4) by (simp add: process_document_file_operations)
    from Cons.IH [OF 1 2 3 4] show ?thesis by simp
  qed
qed

lemma documents_to_process_has:
  "\<exists>item \<in> set (documents_to_process jd op rr). fst item = op"
  by (auto simp: documents_to_process_def Let_def list_ex_iff)

lemma documents_to_process_snd:
  assumes "\<forall>d \<in> set (ix_documents data). de_operation_id d = op \<longrightarrow> de_matched_compliances d = mc"
    and "dget_or rr ''matched_compliances'' (JArr []) = mc"
  shows "\<forall>item \<in> set (documents_to_process (Some data) op rr).
           fst item = op \<longrightarrow> snd item = mc \<or> snd item = JArr []"
  using assms
  by (auto simp: documents_to_process_def Let_def list_ex_iff split: if_splits)

lemma upsert_document_entries:
  assumes "\<forall>d \<in> set docs. de_operation_id d \<noteq> Some op"
  shows "\<forall>d \<in> set (upsert_document now op rr k n docs).
           de_operation_id d = Some op \<longrightarrow>
             de_matched_compliances d = dget_or rr ''matched_compliances'' (JArr [])"
proof
  fix d
  assume d: "d \<in> set (upsert_document now op rr k n docs)"
  let ?e = "\<lparr>de_operation_id = Some op, de_s3_key = k, de_stored_name = n,
            de_analyzed_at = now,
            de_relevance_score = dget_or rr ''relevance_score'' (JInt 0),
            de_relevance_reason = dget_or rr ''relevance_reason'' (JStr []),
            de_matched_policies = dget_or rr ''matched_policies'' (JArr []),
            de_matched_subpolicies = dget_or rr ''matched_subpolicies'' (JArr []),
            de_matched_compliances = dget_or rr ''matched_compliances'' (JArr [])\<rparr>"
  have "(\<exists>i. upsert_document now op rr k n docs = docs[i := ?e])
      \<or> upsert_document now op rr k n docs = docs @ [?e]"
    by (simp add: upsert_document_def Let_def split: option.splits) blast
  then have "d = ?e \<or> d \<in> set docs"
  proof (elim disjE exE)
    fix i
    assume "upsert_document now op rr k n docs = docs[i := ?e]"
    with d have "d \<in> set (docs[i := ?e])" by simp
    then have "d \<in> insert ?e (set docs)"
      by (rule subsetD [OF set_update_subset_insert])
    then show ?thesis by simp
  next
    assume "upsert_document now op rr k n docs = docs @ [?e]"
    with d show ?thesis by auto
  qed
  with assms show "de_operation_id d = Some op \<longrightarrow>
             de_matched_compliances d = dget_or rr ''matched_compliances'' (JArr [])"
    by auto
qed

lemma not_analyzed_no_entry:
  assumes "\<not> already_analyzed docs doc" "fo_id doc \<noteq> 0"
  shows "\<forall>d \<in> set docs. de_operation_id d \<noteq> Some (fo_id doc)"
proof
  fix d
  assume d: "d \<in> set docs"
  show "de_operation_id d \<noteq> Some (fo_id doc)"
  proof
    assume "de_operation_id d = Some (fo_id doc)"
    with d assms(2) have "fo_id doc \<in> analyzed_operation_ids docs"
      by (force simp: analyzed_operation_ids_def)
    with assms(1) show False
      by (simp add: already_analyzed_def Let_def)
  qed
qed

lemma files_save_json_index:
  "files (save_json_index p data s) p = Some (data\<lparr>ix_last_updated := Some (clock s)\<rparr>)"
  by (simp add: save_json_index_def Let_def split: option.splits)

lemma files_store_audit_relevance: "files (store_audit_relevance B op a rr s) = files s"
  by (simp add: store_audit_relevance_def split: sum.splits json.splits)

lemma documents_after_analyze_document:
  assumes v: "analyze_document_audit_relevance True det
                (svc (length (calls s)) (DocumentEvidence a (fo_id doc))) = Some rr"
    and ne: "rr \<noteq> []"
    and sc: "num_val (dget_or rr ''relevance_score'' (JInt 0)) = Some r"
  shows "\<exists>data. files (snd (analyze_document B svc True fw a det doc s)) (fw, a, Documents)
            = Some data
          \<and> ix_documents data
              = upsert_document (clock s) (fo_id doc) rr (fo_s3_key doc) (fo_stored_name doc)
                  (ix_documents (load_json_index s (fw, a, Documents)))"
  using assms
  by (simp add: analyze_document_def Let_def update_json_index_document_def
      files_save_json_index files_store_audit_relevance load_json_index_def)

lemma auto_process_db:
  assumes "db_pool (db s)"
    and "find (\<lambda>r. AuditId r = a) (audit (db s)) = Some arow"
    and "a_FrameworkId arow = Some fw" "fw \<noteq> 0"
  shows "db (auto_process_relevant_document B op a rr s)
     = fst (foldl (\<lambda>acc item. process_document B fw a item acc) (db s, [], [])
              (documents_to_process (files s (fw, a, Documents)) op rr))"
  using assms
  by (simp add: auto_process_relevant_document_def Let_def split_beta)

lemma document_evidence_produced:
  assumes v: "analyze_document_audit_relevance True det
                (svc (length (calls s)) (DocumentEvidence a (fo_id doc))) = Some rr"
    and ne: "rr \<noteq> []"
    and sc: "num_val (dget_or rr ''relevance_score'' (JInt 0)) = Some r"
    and pool: "db_pool (db s)"
    and mc: "dget_or rr ''matched_compliances'' (JArr []) = JArr xs"
       "sql_id_params B xs = Inr ps"
    and new: "\<not> already_analyzed (ix_documents (load_json_index s (fw, a, Documents))) doc"
       "fo_id doc \<noteq> 0"
    and aud: "find (\<lambda>r. AuditId r = a) (audit (db s)) = Some arow"
       "a_FrameworkId arow = Some fw" "fw \<noteq> 0"
    and fileop: "find (\<lambda>f. fo_id f = fo_id doc \<and> sql_eq (fo_status f) ''completed'')
                   (file_operations (db s)) = Some file_op"
  shows "list_ex (document_evidence_of B a file_op)
           (ai_audit_data (db (auto_process_relevant_document B (Some (fo_id doc)) a rr
              (snd (analyze_document B svc True fw a det doc s)))))
       \<and> (\<exists>rows. ai_audit_data (db (auto_process_relevant_document B (Some (fo_id doc)) a rr
              (snd (analyze_document B svc True fw a det doc s))))
            = ai_audit_data (db s) @ rows)"
proof -
  let ?s1 = "snd (analyze_document B svc True fw a det doc s)"
  have db1: "db ?s1 = db s"
    by (rule db_analyze_document)
  obtain data where data: "files ?s1 (fw, a, Documents) = Some data"
    "ix_documents data
       = upsert_document (clock s) (fo_id doc) rr (fo_s3_key doc) (fo_stored_name doc)
           (ix_documents (load_json_index s (fw, a, Documents)))"
    using documents_after_analyze_document
            [where svc = svc and s = s and doc = doc and a = a and det = det and B = B
               and fw = fw, OF v ne sc]
    by blast
  let ?todo = "documents_to_process (Some data) (Some (fo_id doc)) rr"
  have eq: "db (auto_process_relevant_document B (Some (fo_id doc)) a rr ?s1)
     = fst (foldl (\<lambda>acc item. process_document B fw a item acc) (db s, [], []) ?todo)"
    using auto_process_db [of ?s1 a arow fw B "Some (fo_id doc)" rr] pool aud
    by (simp add: db1 data(1))
  have entries: "\<forall>d \<in> set (ix_documents data). de_operation_id d = Some (fo_id doc) \<longrightarrow>
      de_matched_compliances d = JArr xs"
    using upsert_document_entries [OF not_analyzed_no_entry [OF new]] mc(1)
    by (simp add: data(2))
  have snd_ok: "\<forall>item \<in> set ?todo. fst item = Some (fo_id doc) \<longrightarrow>
      snd item = JArr xs \<or> snd item = JArr []"
    by (rule documents_to_process_snd [OF entries mc(1)])
  have 1: "\<exists>item \<in> set ?todo. fst item = Some (fo_id doc)"
    by (rule documents_to_process_has)
  have 2: "\<forall>item \<in> set ?todo. fst item = Some (fo_id doc) \<longrightarrow>
           (\<exists>xs ps. snd item = JArr xs \<and> sql_id_params B xs = Inr ps)"
  proof (intro ballI impI)
    fix item
    assume "item \<in> set ?todo" "fst item = Some (fo_id doc)"
    with snd_ok have "snd item = JArr xs \<or> snd item = JArr []" by blast
    then show "\<exists>xs ps. snd item = JArr xs \<and> sql_id_params B xs = Inr ps"
    proof
      assume "snd item = JArr xs"
      with mc(2) show ?thesis by blast
    next
      assume "snd item = JArr []"
      then have "snd item = JArr [] \<and> sql_id_params B [] = Inr []" by simp
      then show ?thesis by blast
    qed
  qed
  have hit: "list_ex (document_evidence_of B a file_op)
           (ai_audit_data (fst (foldl (\<lambda>acc item. process_document B fw a item acc)
              (db s, [], []) ?todo)))"
    using fileop by (intro fold_process_hit [OF 1 2]) simp_all
  obtain rows where rows:
    "ai_audit_data (fst (foldl (\<lambda>acc item. process_document B fw a item acc)
        (db s, [], []) ?todo)) = ai_audit_data (db s) @ rows"
    using fold_process_rows [of B fw a "(db s, [], [])" ?todo] by auto
  from hit rows show ?thesis
    unfolding eq by auto
qed


text \<open>
  C7, as stated, fails for documents: the score does not keep a document below 0.6 from
  getting an evidence row. \<^verbatim>\<open>_auto_process_relevant_document\<close> never reads a score; it
  processes every document of the index that has matched compliances (``processes ALL
  relevant documents from documents_analysis.json''). In a first run over the two
  uploaded files, scored 0.59999 and 0.6, only the second starts the task, and the task
  creates a row for each of the two. Likewise the task that the aggregation starts, when
  a record at 0.7 lifts the overall score, creates the row of a document indexed at 0.1.
\<close>

theorem C7_counterexample:
  "map de_relevance_score
      (ix_documents (load_json_index (snd low_document_run) (7, 426, Documents)))
     = [JNum (59999 / 100000), JNum (6 / 10)]
   \<and> spawned (snd low_document_run)
     = [TriggerProcessing 426, TriggerProcessing 426,
        AutoProcess (Some 2) 426 (sample_reply (6 / 10) [JInt 42])]
   \<and> map evidence_summary (ai_audit_data (db low_document_processed))
     = [(426, Some ''evidence_attachment'', Some ''1'', Some 5, Some 12),
        (426, Some ''evidence_attachment'', Some ''2'', Some 5, Some 12)]
   \<and> fst (cached_run (1 / 10) (7 / 10)) = None
   \<and> map evidence_summary (ai_audit_data (db (cached_run_processed (1 / 10) (7 / 10))))
     = [(426, Some ''database_record'', Some ''incidents:9'', Some 5, Some 12),
        (426, Some ''evidence_attachment'', Some ''1'', Some 5, Some 12)]"
  by code_simp

text \<open>
  C7, amended. Both thresholds are inclusive for record evidence. For a record-evidence
  verdict of the index that qualifies otherwise (a record id, a numeric score, a
  compliance resolved to a row of the store, a reason that can be sliced, no evidence
  row for the record yet): at score 0.6 or above one evidence row is inserted, below 0.6
  nothing changes; at 0.8 or above the checklist ledger is updated and holds a row for
  the compliance, below 0.8 it is unchanged.

  For a document the threshold of 0.6 is inclusive too, and it decides one thing: whether
  the analysis of the document starts the auto-processing task. For a verdict that
  qualifies otherwise (a numeric score, a reason that is text, matched compliances that
  are a list of ids the store accepts, a document that is not in the index yet, an audit
  with a framework, a completed upload, no evidence row for the file yet): the analysis
  writes no evidence row itself; at 0.6 or above, and only then, it starts the task for
  the document; and that task, run on the state the analysis leaves, creates rows, among
  them one that the engine takes for the evidence of this file.
\<close>

theorem C7_thresholds_inclusive:
  assumes rid: "re_record_id a = Some rid" "rid \<noteq> 0"
    and sc: "py_float B (py_or (re_relevance_score a) (JInt 0)) = Inr score"
    and comp: "resolve_comp_id B t rid (py_or (re_matched_compliances a) (JArr [])) = Inr (Some cid)"
       "cid \<noteq> 0"
    and row: "lookup_compliance (db s) cid = Some (pc, psub, ppol)" "pc \<noteq> 0"
    and reason: "py_slice 500 (re_relevance_reason a) = Inr reason"
    and fresh: "find (is_db_evidence_of audit_id (t @ '':'' @ str_of B (JInt rid)))
                  (ai_audit_data (db s)) = None"
    and v: "analyze_document_audit_relevance True details
                (svc (length (calls s)) (DocumentEvidence audit_id (fo_id doc))) = Some rr"
    and ne: "rr \<noteq> []"
    and dsc: "num_val (dget_or rr ''relevance_score'' (JInt 0)) = Some r"
    and pool: "db_pool (db s)"
    and dreason: "dget_or rr ''relevance_reason'' (JStr []) = JStr x"
    and mc: "dget_or rr ''matched_compliances'' (JArr []) = JArr xs"
       "sql_id_params B xs = Inr ps"
    and new: "\<not> already_analyzed (ix_documents (load_json_index s (fw, audit_id, Documents))) doc"
       "fo_id doc \<noteq> 0"
    and aud: "find (\<lambda>r. AuditId r = audit_id) (audit (db s)) = Some arow"
       "a_FrameworkId arow = Some fw" "fw \<noteq> 0"
    and fileop: "find (\<lambda>f. fo_id f = fo_id doc \<and> sql_eq (fo_status f) ''completed'')
                   (file_operations (db s)) = Some file_op"
    and dfresh: "\<not> list_ex (document_evidence_of B audit_id file_op) (ai_audit_data (db s))"
  shows "(score \<ge> 6 / 10 \<longrightarrow>
            length (ai_audit_data (db (db_evidence_step B fw audit_id t a s)))
              = Suc (length (ai_audit_data (db s)))
            \<and> list_ex (is_db_evidence_of audit_id (t @ '':'' @ str_of B (JInt rid)))
                (ai_audit_data (db (db_evidence_step B fw audit_id t a s))))
       \<and> (score < 6 / 10 \<longrightarrow> db_evidence_step B fw audit_id t a s = s)
       \<and> (score \<ge> 8 / 10 \<longrightarrow>
            lastchecklistitemverified (db (db_evidence_step B fw audit_id t a s))
              \<noteq> lastchecklistitemverified (db s)
            \<and> list_ex (checklist_where pc fw (id_or_0 ppol) (id_or_0 psub))
                (lastchecklistitemverified (db (db_evidence_step B fw audit_id t a s))))
       \<and> (score < 8 / 10 \<longrightarrow>
            lastchecklistitemverified (db (db_evidence_step B fw audit_id t a s))
              = lastchecklistitemverified (db s))
       \<and> spawned (snd (analyze_document B svc True fw audit_id details doc s)) =
           spawned s @ (if audit_id \<noteq> 0 \<and> fw \<noteq> 0 then [TriggerProcessing audit_id] else [])
             @ (if r \<ge> 6 / 10 then [AutoProcess (Some (fo_id doc)) audit_id rr] else [])
       \<and> db (snd (analyze_document B svc True fw audit_id details doc s)) = db s
       \<and> (r \<ge> 6 / 10 \<longrightarrow>
            list_ex (document_evidence_of B audit_id file_op)
              (ai_audit_data (db (auto_process_relevant_document B (Some (fo_id doc)) audit_id rr
                 (snd (analyze_document B svc True fw audit_id details doc s)))))
            \<and> length (ai_audit_data (db s))
                < length (ai_audit_data (db (auto_process_relevant_document B (Some (fo_id doc))
                    audit_id rr (snd (analyze_document B svc True fw audit_id details doc s))))))"
proof -
  note ins = db_evidence_step_insert [OF rid sc comp row reason fresh, of fw]
  have low: "score < 6 / 10 \<longrightarrow> db_evidence_step B fw audit_id t a s = s"
    using db_evidence_step_below [OF rid(1) sc] by simp
  have c1: "score \<ge> 6 / 10 \<longrightarrow>
            length (ai_audit_data (db (db_evidence_step B fw audit_id t a s)))
              = Suc (length (ai_audit_data (db s)))
            \<and> list_ex (is_db_evidence_of audit_id (t @ '':'' @ str_of B (JInt rid)))
                (ai_audit_data (db (db_evidence_step B fw audit_id t a s)))"
    by (simp add: ins Let_def update_checklist_evidence insert_db_evidence_length
        insert_db_evidence_has_row)
  have c3: "score \<ge> 8 / 10 \<longrightarrow>
            lastchecklistitemverified (db (db_evidence_step B fw audit_id t a s))
              \<noteq> lastchecklistitemverified (db s)
            \<and> list_ex (checklist_where pc fw (id_or_0 ppol) (id_or_0 psub))
                (lastchecklistitemverified (db (db_evidence_step B fw audit_id t a s)))"
  proof
    assume h: "score \<ge> 8 / 10"
    then have h6: "score \<ge> 6 / 10" by simp
    let ?d1 = "insert_db_evidence fw audit_id (''Evidence '' @ str_of B (JInt rid))
                   (t @ '':'' @ str_of B (JInt rid)) ppol psub
                   (db_analysis_payload B t rid pc score reason) (db s)"
    let ?cm = "''Auto evidence from '' @ t @ '' record '' @ str_of B (JInt rid) @ '': ''
                   @ str_of B reason"
    have eq: "db (db_evidence_step B fw audit_id t a s) =
        update_checklist pc fw ppol psub (clock s) (Suc (clock s)) ?cm ?d1"
      using ins [OF h6] h by (simp add: Let_def)
    have "lastchecklistitemverified (update_checklist pc fw ppol psub (clock s) (Suc (clock s)) ?cm ?d1)
        \<noteq> lastchecklistitemverified ?d1"
      by (rule update_checklist_changes)
    note this [unfolded insert_db_evidence_checklist]
    then have ne: "lastchecklistitemverified (db (db_evidence_step B fw audit_id t a s))
              \<noteq> lastchecklistitemverified (db s)"
      unfolding eq .
    have ex: "list_ex (checklist_where pc fw (id_or_0 ppol) (id_or_0 psub))
                (lastchecklistitemverified (db (db_evidence_step B fw audit_id t a s)))"
      unfolding eq by (rule update_checklist_has_row)
    from ne ex show "lastchecklistitemverified (db (db_evidence_step B fw audit_id t a s))
              \<noteq> lastchecklistitemverified (db s)
            \<and> list_ex (checklist_where pc fw (id_or_0 ppol) (id_or_0 psub))
                (lastchecklistitemverified (db (db_evidence_step B fw audit_id t a s)))"
      by (rule conjI)
  qed
  have c4: "score < 8 / 10 \<longrightarrow>
            lastchecklistitemverified (db (db_evidence_step B fw audit_id t a s))
              = lastchecklistitemverified (db s)"
  proof (cases "score \<ge> 6 / 10")
    case True
    then show ?thesis by (simp add: ins Let_def insert_db_evidence_checklist)
  next
    case False
    with low show ?thesis by simp
  qed
  have c5: "spawned (snd (analyze_document B svc True fw audit_id details doc s)) =
           spawned s @ (if audit_id \<noteq> 0 \<and> fw \<noteq> 0 then [TriggerProcessing audit_id] else [])
             @ (if r \<ge> 6 / 10 then [AutoProcess (Some (fo_id doc)) audit_id rr] else [])"
    by (rule analyze_document_dispatch
          [where svc = svc and s = s and doc = doc and audit_id = audit_id
             and details = details, OF v ne dsc pool dreason])
  have c6: "db (snd (analyze_document B svc True fw audit_id details doc s)) = db s"
    by (rule db_analyze_document)
  let ?final = "ai_audit_data (db (auto_process_relevant_document B (Some (fo_id doc)) audit_id rr
                 (snd (analyze_document B svc True fw audit_id details doc s))))"
  note produced = document_evidence_produced
          [where svc = svc and s = s and doc = doc and a = audit_id and det = details
             and B = B and fw = fw, OF v ne dsc pool mc new aud fileop]
  from produced obtain rows where rows: "?final = ai_audit_data (db s) @ rows"
    by blast
  from produced have ex: "list_ex (document_evidence_of B audit_id file_op) ?final"
    by (rule conjunct1)
  have "rows \<noteq> []"
  proof
    assume "rows = []"
    with rows ex dfresh show False by simp
  qed
  with rows have longer: "length (ai_audit_data (db s)) < length ?final"
    by simp
  from ex longer have c7: "r \<ge> 6 / 10 \<longrightarrow>
      list_ex (document_evidence_of B audit_id file_op) ?final
      \<and> length (ai_audit_data (db s)) < length ?final"
    by simp
  show ?thesis
    by (intro conjI) (rule c1, rule low, rule c3, rule c4, rule c5, rule c6, rule c7)
qed

theorem C7_thresholds_inclusive_witness:
  "length (ai_audit_data (db (db_evidence_step sample_builtins 7 426 ''incidents''
       (sample_entry ''incidents'' 1 (6 / 10) [JInt 42]) sample_state))) = 1
   \<and> lastchecklistitemverified (db (db_evidence_step sample_builtins 7 426 ''incidents''
       (sample_entry ''incidents'' 1 (6 / 10) [JInt 42]) sample_state)) = []
   \<and> spawned (snd (analyze_document sample_builtins
        (constant_service (sample_reply (6 / 10) [JInt 42])) True 7 426
        (get_audit_details sample_db 426) first_document sample_state))
      = [TriggerProcessing 426, AutoProcess (Some 1) 426 (sample_reply (6 / 10) [JInt 42])]
   \<and> list_ex (document_evidence_of sample_builtins 426 first_document)
        (ai_audit_data (db (auto_process_relevant_document sample_builtins (Some 1) 426
           (sample_reply (6 / 10) [JInt 42])
           (snd (analyze_document sample_builtins
              (constant_service (sample_reply (6 / 10) [JInt 42])) True 7 426
              (get_audit_details sample_db 426) first_document sample_state)))))
   \<and> map evidence_summary
        (ai_audit_data (db (auto_process_relevant_document sample_builtins (Some 1) 426
           (sample_reply (6 / 10) [JInt 42])
           (snd (analyze_document sample_builtins
              (constant_service (sample_reply (6 / 10) [JInt 42])) True 7 426
              (get_audit_details sample_db 426) first_document sample_state)))))
      = [(426, Some ''evidence_attachment'', Some ''1'', Some 5, Some 12)]"
proof -
  let ?a = "sample_entry ''incidents'' 1 (6 / 10) [JInt 42]"
  let ?rr = "sample_reply (6 / 10) [JInt 42]"
  let ?svc = "constant_service ?rr"
  let ?arow = "\<lparr>AuditId = 426, a_FrameworkId = Some 7, a_Status = Some ''In Progress''\<rparr>"
  have h1: "re_record_id ?a = Some 1" "(1::int) \<noteq> 0"
    by (simp_all add: sample_entry_def)
  have h2: "py_float sample_builtins (py_or (re_relevance_score ?a) (JInt 0)) = Inr (6 / 10)"
    by (simp add: sample_entry_def py_or_def)
  have h3: "resolve_comp_id sample_builtins ''incidents'' 1
              (py_or (re_matched_compliances ?a) (JArr [])) = Inr (Some 42)" "(42::int) \<noteq> 0"
    by (simp_all add: sample_entry_def py_or_def resolve_comp_id_def id_truthy_def)
  have h4: "lookup_compliance (db sample_state) 42 = Some (42, Some 12, Some 5)" "(42::int) \<noteq> 0"
    by (simp_all add: sample_state_def sample_db_def lookup_compliance_def)
  have h5: "py_slice 500 (re_relevance_reason ?a) = Inr (JStr ''r'')"
    by (simp add: sample_entry_def)
  have h6: "find (is_db_evidence_of 426 (''incidents'' @ '':'' @ str_of sample_builtins (JInt 1)))
              (ai_audit_data (db sample_state)) = None"
    by (simp add: sample_state_def sample_db_def)
  have h7: "analyze_document_audit_relevance True (get_audit_details sample_db 426)
              (?svc (length (calls sample_state)) (DocumentEvidence 426 (fo_id first_document)))
            = Some ?rr"
    by (simp add: constant_service_def) code_simp
  have h8: "?rr \<noteq> []"
    by (simp add: sample_reply_def)
  have h9: "num_val (dget_or ?rr ''relevance_score'' (JInt 0)) = Some (6 / 10)"
    by (simp add: sample_reply_def dget_or_def)
  have h10: "db_pool (db sample_state)"
    by (simp add: sample_state_def sample_db_def)
  have h11: "dget_or ?rr ''relevance_reason'' (JStr []) = JStr ''r''"
    by (simp add: sample_reply_def dget_or_def)
  have h12: "dget_or ?rr ''matched_compliances'' (JArr []) = JArr [JInt 42]"
       "sql_id_params sample_builtins [JInt 42] = Inr [Some 42]"
    by (simp_all add: sample_reply_def dget_or_def)
  have h13: "\<not> already_analyzed
               (ix_documents (load_json_index sample_state (7, 426, Documents))) first_document"
       "fo_id first_document \<noteq> 0"
    by (simp_all add: sample_state_def load_json_index_def empty_index_def first_document_def
          already_analyzed_def analyzed_file_keys_def analyzed_operation_ids_def)
  have h14: "find (\<lambda>r. AuditId r = 426) (audit (db sample_state)) = Some ?arow"
       "a_FrameworkId ?arow = Some 7" "(7::int) \<noteq> 0"
    by (simp_all add: sample_state_def sample_db_def)
  have h15: "find (\<lambda>f. fo_id f = fo_id first_document \<and> sql_eq (fo_status f) ''completed'')
               (file_operations (db sample_state)) = Some first_document"
    by (simp add: sample_state_def sample_db_def first_document_def sql_eq_def)
  have h16: "\<not> list_ex (document_evidence_of sample_builtins 426 first_document)
               (ai_audit_data (db sample_state))"
    by (simp add: sample_state_def sample_db_def)
  have row: "map evidence_summary
        (ai_audit_data (db (auto_process_relevant_document sample_builtins (Some 1) 426 ?rr
           (snd (analyze_document sample_builtins ?svc True 7 426
              (get_audit_details sample_db 426) first_document sample_state)))))
      = [(426, Some ''evidence_attachment'', Some ''1'', Some 5, Some 12)]"
    by code_simp
  have "length (ai_audit_data (db (db_evidence_step sample_builtins 7 426 ''incidents'' ?a
            sample_state))) = 1
   \<and> lastchecklistitemverified (db (db_evidence_step sample_builtins 7 426 ''incidents'' ?a
            sample_state)) = []
   \<and> spawned (snd (analyze_document sample_builtins ?svc True 7 426
        (get_audit_details sample_db 426) first_document sample_state))
      = [TriggerProcessing 426, AutoProcess (Some 1) 426 ?rr]
   \<and> list_ex (document_evidence_of sample_builtins 426 first_document)
        (ai_audit_data (db (auto_process_relevant_document sample_builtins (Some 1) 426 ?rr
           (snd (analyze_document sample_builtins ?svc True 7 426
              (get_audit_details sample_db 426) first_document sample_state)))))"
    using C7_thresholds_inclusive
            [where svc = ?svc and s = sample_state and doc = first_document and audit_id = 426
               and details = "get_audit_details sample_db 426" and fw = 7,
             OF h1 h2 h3 h4 h5 h6 h7 h8 h9 h10 h11 h12 h13 h14 h15 h16]
    by (simp add: first_document_def sample_state_def sample_db_def)
  with row show ?thesis
    by (simp only: conj_assoc simp_thms)
qed


section \<open>Unmapped relevance: properties\<close>

text \<open>
  C2, as stated, fails. A document scored 0.9 with no matched compliance is handed to
  \<^verbatim>\<open>_auto_process_relevant_document\<close>, which creates a single unmapped evidence row
  for it; and a record of the table \<^verbatim>\<open>compliances\<close> scored 0.9 with no matched
  compliance gets an evidence row mapped to itself.
\<close>

theorem C2_counterexample:
  "spawned unmapped_document_run
     = [TriggerProcessing 426, AutoProcess (Some 1) 426 (sample_reply (9 / 10) [])]
   \<and> map evidence_summary
        (ai_audit_data (db (auto_process_relevant_document sample_builtins (Some 1) 426
           (sample_reply (9 / 10) []) unmapped_document_run)))
     = [(426, Some ''evidence_attachment'', Some ''1'', None, None)]
   \<and> map evidence_summary
        (ai_audit_data (db (db_evidence_step sample_builtins 7 426 ''compliances''
           (sample_entry ''compliances'' 42 (9 / 10) []) sample_state)))
     = [(426, Some ''database_record'', Some ''compliances:42'', Some 5, Some 12)]"
  by code_simp

text \<open>
  C2, amended. For a database record of any table other than \<^verbatim>\<open>compliances\<close>, a
  verdict with an empty matched_compliances creates no evidence row, whatever its score:
  the entry stays relevance-only in the index and the store is unchanged.
\<close>

theorem C2_unmapped_record_relevance_only:
  assumes "t \<noteq> ''compliances''"
    and "re_matched_compliances a = JArr []"
  shows "db_evidence_step B fw audit_id t a s = s"
  using assms
  by (simp add: db_evidence_step_def db_evidence_mapped_def resolve_comp_id_def py_or_def
      id_truthy_def split: sum.splits option.splits)

theorem C2_unmapped_record_relevance_only_witness:
  "''incidents'' \<noteq> ''compliances''
   \<and> re_matched_compliances (sample_entry ''incidents'' 1 (9 / 10) []) = JArr []
   \<and> db_evidence_step sample_builtins 7 426 ''incidents''
        (sample_entry ''incidents'' 1 (9 / 10) []) sample_state = sample_state"
proof -
  have h1: "''incidents'' \<noteq> ''compliances''" by simp
  have h2: "re_matched_compliances (sample_entry ''incidents'' 1 (9 / 10) []) = JArr []"
    by (simp add: sample_entry_def)
  show ?thesis
    using h1 h2 C2_unmapped_record_relevance_only [OF h1 h2, of sample_builtins 7 426 sample_state]
    by simp
qed

section \<open>Filtering of matched ids: properties\<close>

text \<open>The document analyzer keeps, in every matched list it returns, only ids of the
  audit context.\<close>

lemma map_of_dset_same: "map_of (dset d k v) k = Some v"
  by (induction d) auto

lemma map_of_dset_other: "k' \<noteq> k \<Longrightarrow> map_of (dset d k v) k' = map_of d k'"
  by (induction d) auto

lemma filter_in_kept:
  "filter_in ids xs = Inr ys \<Longrightarrow> \<forall>x \<in> set ys. x \<in> set xs \<and> list_ex (py_eq x) ids"
  by (induction xs arbitrary: ys) (auto split: if_splits sum.splits)

lemma filter_policies_step_kept:
  assumes "filter_policies_step key ids r = Inr r'"
    and "map_of r' key = Some (JArr kept)"
  shows "\<forall>x \<in> set kept. list_ex (py_eq x) (framework_id_set ids)"
  using assms filter_in_kept
  by (auto simp: filter_policies_step_def dget_or_def map_of_dset_same
      split: sum.splits json.splits option.splits)

lemma filter_policies_step_other:
  "filter_policies_step key ids r = Inr r' \<Longrightarrow> k \<noteq> key \<Longrightarrow> map_of r' k = map_of r k"
  by (auto simp: filter_policies_step_def map_of_dset_other split: sum.splits json.splits)

lemma filter_compliances_step_kept:
  assumes "filter_compliances_step ids r = Inr r'"
  shows "\<exists>kept. map_of r' ''matched_compliances'' = Some (JArr kept)
            \<and> (\<forall>x \<in> set kept. list_ex (py_eq x) (framework_id_set ids))"
  using assms filter_in_kept
  by (auto simp: filter_compliances_step_def Let_def map_of_dset_same
      split: sum.splits json.splits if_splits)

lemma filter_compliances_step_other:
  "filter_compliances_step ids r = Inr r' \<Longrightarrow> k \<noteq> ''matched_compliances''
     \<Longrightarrow> map_of r' k = map_of r k"
  by (auto simp: filter_compliances_step_def Let_def map_of_dset_other
      split: sum.splits json.splits if_splits)

lemma document_verdict_ids_in_framework:
  assumes "analyze_document_audit_relevance available details reply = Some r"
  shows "(\<exists>kept. map_of r ''matched_compliances'' = Some (JArr kept)
            \<and> (\<forall>x \<in> set kept. list_ex (py_eq x) (framework_id_set (ad_compliances details))))
       \<and> (\<forall>kept. map_of r ''matched_policies'' = Some (JArr kept) \<longrightarrow>
            (\<forall>x \<in> set kept. list_ex (py_eq x) (framework_id_set (ad_policies details))))
       \<and> (\<forall>kept. map_of r ''matched_subpolicies'' = Some (JArr kept) \<longrightarrow>
            (\<forall>x \<in> set kept. list_ex (py_eq x) (framework_id_set (ad_subpolicies details))))"
proof -
  from assms obtain r0 r1 r2 where
    s1: "filter_policies_step ''matched_policies'' (ad_policies details) r0 = Inr r1" and
    s2: "filter_policies_step ''matched_subpolicies'' (ad_subpolicies details) r1 = Inr r2" and
    s3: "filter_compliances_step (ad_compliances details) r2 = Inr r"
    by (auto simp: analyze_document_audit_relevance_def
        split: if_splits option.splits sum.splits)
  have p: "map_of r ''matched_policies'' = map_of r1 ''matched_policies''"
    using filter_compliances_step_other [OF s3, of "''matched_policies''"]
      filter_policies_step_other [OF s2, of "''matched_policies''"] by simp
  have sp: "map_of r ''matched_subpolicies'' = map_of r2 ''matched_subpolicies''"
    using filter_compliances_step_other [OF s3, of "''matched_subpolicies''"] by simp
  show ?thesis
    using filter_compliances_step_kept [OF s3] filter_policies_step_kept [OF s1]
      filter_policies_step_kept [OF s2] p sp
    by simp
qed

text \<open>
  C1 fails on the database path: \<^verbatim>\<open>_analyze_database_data_relevance\<close> has no filtering
  step. For audit 426 of framework 7, whose compliances are 30, 31 and 42, a reply that
  matches an incident row to compliance 77 of framework 8 is stored in the index as it
  is, and an evidence row mapped to policy 6 and subpolicy 13 of framework 8 is created.
\<close>

theorem C1_database_path_keeps_foreign_id:
  "map re_matched_compliances
     (concat (map snd (ix_database_data (load_json_index foreign_record_run (7, 426, Database)))))
     = [JArr [JInt 77]]
   \<and> ad_compliances (get_audit_details sample_db 426) = [30, 31, 42]
   \<and> map evidence_summary (ai_audit_data (db foreign_record_run))
     = [(426, Some ''database_record'', Some ''incidents:9'', Some 6, Some 13)]"
  by code_simp

section \<open>Saving the index: properties\<close>

lemma trigger_processing_rows:
  assumes "db_pool d"
  shows "ai_audit_data (trigger_processing audit_id d) =
           map (\<lambda>r. if reprocess_where audit_id r
                     then r\<lparr>e_ai_processing_status := Some ''pending''\<rparr> else r)
               (ai_audit_data d)"
  using assms by (simp add: trigger_processing_def)

text \<open>
  C10. Every upsert of the documents index and of the database index, for an audit and a
  framework with proper (nonzero) ids, saves the file and starts the re-processing
  thread for that audit. With the store reachable, the thread's update keeps every row
  in place and sets \<^verbatim>\<open>ai_processing_status\<close> to \<^verbatim>\<open>'pending'\<close> on exactly the rows of
  the audit that are not database-record evidence and have not failed (in the sense of
  the SQL condition, which no row with a \<^verbatim>\<open>NULL\<close> in these columns satisfies), leaving
  the other rows as they are.
\<close>

theorem C10_index_save_triggers_reprocessing:
  assumes "audit_id \<noteq> 0" and "framework_id \<noteq> 0" and "db_pool d"
  shows "spawned (update_json_index_document framework_id audit_id operation_id analysis_result
                    doc_s3_key doc_stored_name s)
           = spawned s @ [TriggerProcessing audit_id]
       \<and> spawned (update_json_index_database framework_id audit_id table_name record_id
                    analysis_result s)
           = spawned s @ [TriggerProcessing audit_id]
       \<and> length (ai_audit_data (trigger_processing audit_id d)) = length (ai_audit_data d)
       \<and> (\<forall>i < length (ai_audit_data d).
             (reprocess_where audit_id (ai_audit_data d ! i) \<longrightarrow>
                ai_audit_data (trigger_processing audit_id d) ! i
                  = (ai_audit_data d ! i)\<lparr>e_ai_processing_status := Some ''pending''\<rparr>)
           \<and> (\<not> reprocess_where audit_id (ai_audit_data d ! i) \<longrightarrow>
                ai_audit_data (trigger_processing audit_id d) ! i = ai_audit_data d ! i))"
  using assms
  by (simp add: spawned_update_json_index_document spawned_update_json_index_database
      trigger_processing_rows)

theorem C10_index_save_triggers_reprocessing_witness:
  "(426::int) \<noteq> 0 \<and> (7::int) \<noteq> 0 \<and> db_pool sample_db_with_evidence
   \<and> spawned (update_json_index_document 7 426 1 (sample_reply (9 / 10) [JInt 42])
               (Some ''k/a.pdf'') (Some ''a.pdf'') sample_state)
      = [TriggerProcessing 426]
   \<and> spawned (update_json_index_database 7 426 ''incidents'' 9 (sample_reply (9 / 10) [JInt 42])
               sample_state)
      = [TriggerProcessing 426]
   \<and> map e_ai_processing_status (ai_audit_data (trigger_processing 426 sample_db_with_evidence))
      = [Some ''pending'', Some ''completed'', Some ''failed'']"
proof -
  have h1: "(426::int) \<noteq> 0" and h2: "(7::int) \<noteq> 0" by simp_all
  have h3: "db_pool sample_db_with_evidence"
    by (simp add: sample_db_with_evidence_def sample_db_def)
  have rows: "map e_ai_processing_status
      (ai_audit_data (trigger_processing 426 sample_db_with_evidence))
      = [Some ''pending'', Some ''completed'', Some ''failed'']"
    by code_simp
  show ?thesis
    using h1 h2 h3 rows
      C10_index_save_triggers_reprocessing
        [OF h1 h2 h3, where operation_id = 1 and analysis_result = "sample_reply (9 / 10) [JInt 42]"
           and doc_s3_key = "Some ''k/a.pdf''" and doc_stored_name = "Some ''a.pdf''"
           and s = sample_state and table_name = "''incidents''" and record_id = 9]
    by (simp add: sample_state_def)
qed

section \<open>Identity of documents: properties\<close>

lemma find_index_of_None: "find_index_of P xs = None \<longleftrightarrow> (\<forall>x \<in> set xs. \<not> P x)"
  by (induction xs) auto

lemma find_index_of_Some: "find_index_of P xs = Some i \<Longrightarrow> i < length xs \<and> P (xs ! i)"
  by (induction xs arbitrary: i) (auto split: if_splits)

lemma length_upsert_document:
  "length (upsert_document now op rr k n docs) =
     (if (str_truthy (str_or k n) \<and> (\<exists>d \<in> set docs. de_s3_key d = k \<or> de_stored_name d = n))
          \<or> (\<exists>d \<in> set docs. de_operation_id d = Some op)
      then length docs else Suc (length docs))"
proof -
  let ?P = "\<lambda>d. de_s3_key d = k \<or> de_stored_name d = n"
  let ?Q = "\<lambda>d. de_operation_id d = Some op"
  show ?thesis
  proof (cases "str_truthy (str_or k n) \<and> find_index_of ?P docs \<noteq> None")
    case True
    then obtain i where "find_index_of ?P docs = Some i" by auto
    with True show ?thesis
      using find_index_of_None [of ?P docs]
      by (auto simp: upsert_document_def Let_def)
  next
    case False
    then have a: "\<not> (str_truthy (str_or k n) \<and> (\<exists>d \<in> set docs. ?P d))"
      using find_index_of_None [of ?P docs] by auto
    from False have byk: "(if str_truthy (str_or k n) then find_index_of ?P docs else None) = None"
      by auto
    show ?thesis
    proof (cases "find_index_of ?Q docs")
      case None
      then have "\<not> (\<exists>d \<in> set docs. ?Q d)"
        using find_index_of_None [of ?Q docs] by simp
      with a None byk show ?thesis
        by (simp add: upsert_document_def Let_def)
    next
      case (Some i)
      then have "\<exists>d \<in> set docs. ?Q d"
        using find_index_of_None [of ?Q docs] by auto
      with Some byk show ?thesis
        by (simp add: upsert_document_def Let_def)
    qed
  qed
qed

lemma upsert_document_has_entry:
  "\<exists>d \<in> set (upsert_document now op rr k n docs). de_s3_key d = k \<and> de_stored_name d = n"
proof -
  let ?e = "\<lparr>de_operation_id = Some op, de_s3_key = k, de_stored_name = n,
             de_analyzed_at = now,
             de_relevance_score = dget_or rr ''relevance_score'' (JInt 0),
             de_relevance_reason = dget_or rr ''relevance_reason'' (JStr []),
             de_matched_policies = dget_or rr ''matched_policies'' (JArr []),
             de_matched_subpolicies = dget_or rr ''matched_subpolicies'' (JArr []),
             de_matched_compliances = dget_or rr ''matched_compliances'' (JArr [])\<rparr>"
  have "?e \<in> set (upsert_document now op rr k n docs)"
    by (auto simp: upsert_document_def Let_def set_update_memI
        dest: find_index_of_Some split: option.splits)
  then show ?thesis by (rule bexI [rotated]) simp
qed


lemma already_analyzed_iff:
  "already_analyzed documents doc \<longleftrightarrow>
     (str_truthy (str_or (fo_s3_key doc) (fo_stored_name doc))
        \<and> (\<exists>d \<in> set documents.
              entry_content_key d = str_or (fo_s3_key doc) (fo_stored_name doc)))
     \<or> (fo_id doc \<noteq> 0 \<and> (\<exists>d \<in> set documents. de_operation_id d = Some (fo_id doc)))"
proof -
  let ?ck = "str_or (fo_s3_key doc) (fo_stored_name doc)"
  have mem: "x \<in> analyzed_file_keys documents \<longleftrightarrow>
        x \<noteq> [] \<and> (\<exists>d \<in> set documents. entry_content_key d = Some x)" for x
    unfolding analyzed_file_keys_def entry_content_key_def
  proof (induction documents)
    case Nil
    then show ?case by simp
  next
    case (Cons d ds)
    show ?case
    proof (cases "str_or (de_s3_key d) (de_stored_name d)")
      case None
      with Cons show ?thesis by auto
    next
      case (Some y)
      with Cons show ?thesis by (cases y) auto
    qed
  qed
  have k: "str_truthy ?ck \<and> opt_str ?ck \<in> analyzed_file_keys documents \<longleftrightarrow>
        str_truthy ?ck \<and> (\<exists>d \<in> set documents. entry_content_key d = ?ck)"
  proof (cases "str_truthy ?ck")
    case True
    then obtain c cs where ck: "?ck = Some (c # cs)"
      by (auto simp: str_truthy_def split: option.splits list.splits)
    show ?thesis
      by (simp add: ck mem opt_str_def str_truthy_def)
  next
    case False
    then show ?thesis by simp
  qed
  have i: "fo_id doc \<in> analyzed_operation_ids documents \<longleftrightarrow>
        fo_id doc \<noteq> 0 \<and> (\<exists>d \<in> set documents. de_operation_id d = Some (fo_id doc))"
    unfolding analyzed_operation_ids_def
  proof (induction documents)
    case Nil
    then show ?case by simp
  next
    case (Cons d ds)
    then show ?case by (cases "de_operation_id d") auto
  qed
  show ?thesis
    unfolding already_analyzed_def Let_def using k i by blast
qed

text \<open>
  C8, as stated, fails. The operation id is consulted whenever the match by content key
  does not succeed, also when the document has a content key: the first file, whose key
  is not in the index, is skipped because a legacy entry carries its operation id. And
  two items with the same content key, held by one as \<^verbatim>\<open>s3_key\<close> and by the other as
  \<^verbatim>\<open>stored_name\<close>, make two entries.
\<close>

theorem C8_counterexample:
  "str_or (fo_s3_key first_document) (fo_stored_name first_document) = Some ''k/a.pdf''
   \<and> ''k/a.pdf'' \<notin> analyzed_file_keys [legacy_entry]
   \<and> already_analyzed [legacy_entry] first_document
   \<and> map entry_content_key
        (upsert_document 1 2 (sample_reply (9 / 10) []) None (Some ''k'')
           (upsert_document 0 1 (sample_reply (9 / 10) []) (Some ''k'') None []))
      = [Some ''k'', Some ''k'']"
  by code_simp

text \<open>
  C8, amended. A document is taken as already analyzed exactly when its content key
  (\<^verbatim>\<open>s3_key\<close>, else \<^verbatim>\<open>stored_name\<close>) is present and is the content key of an entry of
  the index, or else (the key being absent, or not in the index) when its operation id is
  that of an entry. When a verdict is written, an item that has a content key and the
  same \<^verbatim>\<open>s3_key\<close>, or the same \<^verbatim>\<open>stored_name\<close>, as the item written before it replaces
  an entry instead of adding one, whatever the operation ids: in an index that was empty
  the two collapse to a single entry.
\<close>

theorem C8_identity_resolution:
  "(already_analyzed documents doc \<longleftrightarrow>
      (str_truthy (str_or (fo_s3_key doc) (fo_stored_name doc))
         \<and> (\<exists>d \<in> set documents.
               entry_content_key d = str_or (fo_s3_key doc) (fo_stored_name doc)))
      \<or> (fo_id doc \<noteq> 0 \<and> (\<exists>d \<in> set documents. de_operation_id d = Some (fo_id doc))))
   \<and> (str_truthy (str_or k2 n2) \<and> (k1 = k2 \<or> n1 = n2) \<longrightarrow>
        length (upsert_document now2 op2 rr2 k2 n2 (upsert_document now1 op1 rr1 k1 n1 documents))
          = length (upsert_document now1 op1 rr1 k1 n1 documents)
        \<and> length (upsert_document now2 op2 rr2 k2 n2 (upsert_document now1 op1 rr1 k1 n1 []))
          = 1)"
proof -
  have collapse: "length (upsert_document now2 op2 rr2 k2 n2 (upsert_document now1 op1 rr1 k1 n1 ds))
          = length (upsert_document now1 op1 rr1 k1 n1 ds)"
    if h: "str_truthy (str_or k2 n2)" "k1 = k2 \<or> n1 = n2" for ds
  proof -
    obtain d where "d \<in> set (upsert_document now1 op1 rr1 k1 n1 ds)"
        "de_s3_key d = k1 \<and> de_stored_name d = n1"
      using upsert_document_has_entry [of now1 op1 rr1 k1 n1 ds] by blast
    with h(2) have "\<exists>d \<in> set (upsert_document now1 op1 rr1 k1 n1 ds).
        de_s3_key d = k2 \<or> de_stored_name d = n2"
      by blast
    with h(1) show ?thesis
      by (simp add: length_upsert_document [of now2])
  qed
  have one: "length (upsert_document now1 op1 rr1 k1 n1 []) = 1"
    by (simp add: length_upsert_document)
  show ?thesis
    using already_analyzed_iff [of documents doc] collapse [of documents] collapse [of "[]"] one
    by simp
qed

theorem C8_identity_resolution_witness:
  "str_truthy (str_or (Some ''k/a.pdf'') (Some ''b.pdf''))
   \<and> length (upsert_document 1 2 (sample_reply (7 / 10) []) (Some ''k/a.pdf'') (Some ''b.pdf'')
        (upsert_document 0 1 (sample_reply (9 / 10) []) (Some ''k/a.pdf'') (Some ''a.pdf'') []))
      = 1"
proof -
  have h: "str_truthy (str_or (Some ''k/a.pdf'') (Some ''b.pdf''))"
    by (simp add: str_truthy_def str_or_def)
  show ?thesis
    using h
      C8_identity_resolution [where ?k1.0 = "Some ''k/a.pdf''" and ?k2.0 = "Some ''k/a.pdf''"
        and ?n1.0 = "Some ''a.pdf''" and ?n2.0 = "Some ''b.pdf''" and ?now1.0 = 0 and ?now2.0 = 1
        and ?op1.0 = 1 and ?op2.0 = 2 and ?rr1.0 = "sample_reply (9 / 10) []"
        and ?rr2.0 = "sample_reply (7 / 10) []" and documents = "[]"
        and doc = first_document]
    by simp
qed

section \<open>What a step leaves alone\<close>

lemma upsert_db_evidence_frame:
  "files (upsert_db_evidence B fw a t rid sc pc ps pp reason s) = files s
   \<and> log (upsert_db_evidence B fw a t rid sc pc ps pp reason s) = log s
   \<and> calls (upsert_db_evidence B fw a t rid sc pc ps pp reason s) = calls s
   \<and> spawned (upsert_db_evidence B fw a t rid sc pc ps pp reason s) = spawned s"
  by (simp add: upsert_db_evidence_def Let_def split: option.splits)

lemma db_evidence_mapped_frame:
  "files (db_evidence_mapped B fw a t an rid sc s) = files s
   \<and> log (db_evidence_mapped B fw a t an rid sc s) = log s
   \<and> calls (db_evidence_mapped B fw a t an rid sc s) = calls s
   \<and> spawned (db_evidence_mapped B fw a t an rid sc s) = spawned s"
  by (simp add: db_evidence_mapped_def upsert_db_evidence_frame
      split: sum.splits option.splits prod.splits)

lemma db_evidence_step_frame:
  "files (db_evidence_step B fw a t an s) = files s
   \<and> log (db_evidence_step B fw a t an s) = log s
   \<and> calls (db_evidence_step B fw a t an s) = calls s
   \<and> spawned (db_evidence_step B fw a t an s) = spawned s"
  by (simp add: db_evidence_step_def db_evidence_mapped_frame split: sum.splits option.splits)

lemma db_evidence_table_frame:
  "files (db_evidence_table B fw a t ans s) = files s
   \<and> log (db_evidence_table B fw a t ans s) = log s
   \<and> calls (db_evidence_table B fw a t ans s) = calls s
   \<and> spawned (db_evidence_table B fw a t ans s) = spawned s"
  by (induction ans arbitrary: s) (simp_all add: db_evidence_step_frame)

lemma db_evidence_tables_frame:
  "files (db_evidence_tables B fw a res s) = files s
   \<and> log (db_evidence_tables B fw a res s) = log s
   \<and> calls (db_evidence_tables B fw a res s) = calls s
   \<and> spawned (db_evidence_tables B fw a res s) = spawned s"
  by (induction res arbitrary: s) (auto simp: db_evidence_table_frame)

lemma create_ai_evidence_frame:
  "files (create_ai_evidence_from_database_results B fwo a res s) = files s
   \<and> log (create_ai_evidence_from_database_results B fwo a res s) = log s
   \<and> calls (create_ai_evidence_from_database_results B fwo a res s) = calls s
   \<and> spawned (create_ai_evidence_from_database_results B fwo a res s) = spawned s"
  by (simp add: create_ai_evidence_from_database_results_def db_evidence_tables_frame
      split: option.splits)

lemma update_json_index_database_frame:
  "log (update_json_index_database fw a t rid an s) = log s
   \<and> calls (update_json_index_database fw a t rid an s) = calls s
   \<and> db (update_json_index_database fw a t rid an s) = db s
   \<and> files (update_json_index_database fw a t rid an s) (fw', a', Documents) = files s (fw', a', Documents)"
  by (simp add: update_json_index_database_def save_json_index_def Let_def split: option.splits)

lemma index_analyses_frame:
  "log (index_analyses fw a t ans s) = log s
   \<and> calls (index_analyses fw a t ans s) = calls s
   \<and> db (index_analyses fw a t ans s) = db s
   \<and> files (index_analyses fw a t ans s) (fw', a', Documents) = files s (fw', a', Documents)"
  by (induction ans arbitrary: s)
     (simp_all add: update_json_index_database_frame split: json.splits)

lemma index_results_frame:
  "log (index_results fw a res s) = log s
   \<and> calls (index_results fw a res s) = calls s
   \<and> db (index_results fw a res s) = db s
   \<and> files (index_results fw a res s) (fw', a', Documents) = files s (fw', a', Documents)"
  by (induction res arbitrary: s) (auto simp: index_analyses_frame)

lemma analyze_documents_all_cached:
  "\<forall>doc \<in> set docs. already_analyzed indexed doc \<Longrightarrow>
   analyze_documents B svc av fw a det indexed docs s = (None, s)"
  by (induction docs) simp_all

lemma best_document_None: "best_document ds = None \<longleftrightarrow> ds = []"
  by (induction ds) (auto split: option.splits)

lemma best_document_Some:
  "best_document ds = Some b \<Longrightarrow> b \<in> set ds \<and> (\<forall>d \<in> set ds. score_key d \<le> score_key b)"
proof (induction ds arbitrary: b)
  case Nil
  then show ?case by simp
next
  case (Cons d ds)
  show ?case
  proof (cases "best_document ds")
    case None
    then have "ds = []" by (simp add: best_document_None)
    with Cons.prems show ?thesis by simp
  next
    case (Some b')
    from Cons.IH [OF Some] have ih: "b' \<in> set ds" "\<forall>d \<in> set ds. score_key d \<le> score_key b'"
      by simp_all
    show ?thesis
    proof (cases "score_key b' > score_key d")
      case True
      with Cons.prems Some have "b = b'" by simp
      with ih True show ?thesis by auto
    next
      case False
      with Cons.prems Some have "b = d" by simp
      with ih False show ?thesis by force
    qed
  qed
qed

lemma max_list_Max: "xs \<noteq> [] \<Longrightarrow> max_list xs = Max (set xs)"
proof (induction xs rule: max_list.induct)
  case 1
  then show ?case by simp
next
  case (2 x)
  then show ?case by simp
next
  case (3 x y ys)
  then show ?case by (simp add: max.commute)
qed


lemma aggregate_and_dispatch_frame:
  "db (snd (aggregate_and_dispatch a documents full s)) = db s
   \<and> files (snd (aggregate_and_dispatch a documents full s)) = files s
   \<and> calls (snd (aggregate_and_dispatch a documents full s)) = calls s"
  by (simp add: aggregate_and_dispatch_def Let_def split: sum.splits option.splits)


section \<open>Failures of one candidate: properties\<close>

lemma calls_save_json_index: "calls (save_json_index p data s) = calls s"
  by (simp add: save_json_index_def Let_def split: option.splits)

lemma calls_update_json_index_document:
  "calls (update_json_index_document fw a op rr k n s) = calls s"
  by (simp add: update_json_index_document_def Let_def calls_save_json_index)

lemma calls_store_audit_relevance: "calls (store_audit_relevance B op a rr s) = calls s"
  by (simp add: store_audit_relevance_def split: sum.splits json.splits)

lemma analyze_document_calls:
  "calls (snd (analyze_document B svc True fw a det doc s)) = calls s @ [DocumentEvidence a (fo_id doc)]"
  by (simp add: analyze_document_def Let_def calls_update_json_index_document
      calls_store_audit_relevance split: option.splits)

lemma analyze_documents_calls:
  "fst (analyze_documents B svc True fw a det indexed docs s) = None \<Longrightarrow>
   calls (snd (analyze_documents B svc True fw a det indexed docs s))
     = calls s @ map (\<lambda>d. DocumentEvidence a (fo_id d))
                   (filter (\<lambda>d. \<not> already_analyzed indexed d) docs)"
proof (induction docs arbitrary: s)
  case Nil
  then show ?case by simp
next
  case (Cons doc docs)
  show ?case
  proof (cases "already_analyzed indexed doc")
    case True
    with Cons show ?thesis by simp
  next
    case False
    obtain e s1 where r: "analyze_document B svc True fw a det doc s = (e, s1)"
      by (cases "analyze_document B svc True fw a det doc s")
    with Cons.prems False have e: "e = None"
      by (cases e) auto
    have c1: "calls s1 = calls s @ [DocumentEvidence a (fo_id doc)]"
      using analyze_document_calls [of B svc fw a det doc s] r by simp
    from Cons.prems False r e
    have "fst (analyze_documents B svc True fw a det indexed docs s1) = None" by simp
    from Cons.IH [OF this] False r e c1 show ?thesis by simp
  qed
qed

lemma analyze_documents_abort:
  "fst (analyze_documents B svc True fw a det indexed docs s) = Some e \<Longrightarrow>
   \<exists>k < length (filter (\<lambda>d. \<not> already_analyzed indexed d) docs).
     calls (snd (analyze_documents B svc True fw a det indexed docs s))
       = calls s @ map (\<lambda>d. DocumentEvidence a (fo_id d))
                     (take (Suc k) (filter (\<lambda>d. \<not> already_analyzed indexed d) docs))"
proof (induction docs arbitrary: s)
  case Nil
  then show ?case by simp
next
  case (Cons doc docs)
  show ?case
  proof (cases "already_analyzed indexed doc")
    case True
    with Cons show ?thesis by simp
  next
    case False
    obtain e1 s1 where r: "analyze_document B svc True fw a det doc s = (e1, s1)"
      by (cases "analyze_document B svc True fw a det doc s")
    have c1: "calls s1 = calls s @ [DocumentEvidence a (fo_id doc)]"
      using analyze_document_calls [of B svc fw a det doc s] r by simp
    show ?thesis
    proof (cases e1)
      case (Some x)
      with False r c1 show ?thesis
        by (intro exI [of _ 0]) simp
    next
      case None
      with Cons.prems False r
      have "fst (analyze_documents B svc True fw a det indexed docs s1) = Some e" by simp
      from Cons.IH [OF this] obtain k where
        k: "k < length (filter (\<lambda>d. \<not> already_analyzed indexed d) docs)"
        "calls (snd (analyze_documents B svc True fw a det indexed docs s1))
           = calls s1 @ map (\<lambda>d. DocumentEvidence a (fo_id d))
               (take (Suc k) (filter (\<lambda>d. \<not> already_analyzed indexed d) docs))"
        by blast
      with False r None c1 show ?thesis
        by (intro exI [of _ "Suc k"]) simp
    qed
  qed
qed

lemma analyze_records_calls:
  "analyze_records B svc a t records cs = (Inr res, cs') \<Longrightarrow>
   cs' = cs @ map (RecordEvidence a t) records"
proof (induction records arbitrary: cs res cs')
  case Nil
  then show ?case by simp
next
  case (Cons r records)
  from Cons.prems obtain x rest where
    "analyze_records B svc a t records (cs @ [RecordEvidence a t r]) = (Inr rest, cs')"
    by (auto simp: Let_def split: sum.splits prod.splits)
  from Cons.IH [OF this] show ?case by simp
qed

lemma analyze_records_abort:
  "analyze_records B svc a t records cs = (Inl e, cs') \<Longrightarrow>
   \<exists>k < length records. cs' = cs @ map (RecordEvidence a t) (take (Suc k) records)"
proof (induction records arbitrary: cs cs')
  case Nil
  then show ?case by simp
next
  case (Cons r records)
  show ?case
  proof (cases "analyze_record B t r (svc (length cs) (RecordEvidence a t r))")
    case (Inl x)
    with Cons.prems have "cs' = cs @ [RecordEvidence a t r]"
      by (simp add: Let_def)
    then show ?thesis by (intro exI [of _ 0]) simp
  next
    case (Inr x)
    with Cons.prems have "analyze_records B svc a t records (cs @ [RecordEvidence a t r]) = (Inl e, cs')"
      by (auto simp: Let_def split: sum.splits prod.splits)
    from Cons.IH [OF this] obtain k where "k < length records"
      "cs' = (cs @ [RecordEvidence a t r]) @ map (RecordEvidence a t) (take (Suc k) records)"
      by blast
    then show ?thesis by (intro exI [of _ "Suc k"]) simp
  qed
qed


lemma analyze_tables_calls:
  "analyze_tables B svc a tables results cs = (Inr res, cs') \<Longrightarrow>
   cs' = cs @ concat (map (\<lambda>(t, records). map (RecordEvidence a t) (take 50 records)) tables)"
proof (induction tables arbitrary: results cs)
  case Nil
  then show ?case by simp
next
  case (Cons table tables)
  obtain t records where table: "table = (t, records)"
    by (cases table)
  show ?case
  proof (cases "records = []")
    case True
    with Cons.prems have "analyze_tables B svc a tables results cs = (Inr res, cs')"
      by (simp add: table)
    from Cons.IH [OF this] True show ?thesis by (simp add: table)
  next
    case False
    obtain r1 cs1 where r: "analyze_records B svc a t (take 50 records) cs = (r1, cs1)"
      by (cases "analyze_records B svc a t (take 50 records) cs")
    with Cons.prems False obtain analyses where r1: "r1 = Inr analyses"
      by (cases r1) (simp_all add: table)
    from r r1 have c1: "cs1 = cs @ map (RecordEvidence a t) (take 50 records)"
      by (simp add: analyze_records_calls)
    from Cons.prems False r r1
    have "analyze_tables B svc a tables
            (dset results t
               ((case map_of results t of None \<Rightarrow> [] | Some old \<Rightarrow> old) @ analyses)) cs1
          = (Inr res, cs')"
      by (simp add: table)
    from Cons.IH [OF this] c1 show ?thesis by (simp add: table)
  qed
qed

lemma analyze_audit_calls:
  assumes "fst (analyze_audit B svc True fw docs dbd a s) = None"
  shows "calls (snd (analyze_audit B svc True fw docs dbd a s)) =
     calls s
       @ map (\<lambda>d. DocumentEvidence a (fo_id d))
           (filter (\<lambda>d. \<not> already_analyzed
                            (ix_documents (load_json_index s (fw, a, Documents))) d) docs)
       @ concat (map (\<lambda>(t, records). map (RecordEvidence a t) (take 50 records))
           (incremental_db_data B (ix_database_data (load_json_index s (fw, a, Database))) dbd))"
proof -
  let ?det = "get_audit_details (db s) a"
  let ?dix = "ix_documents (load_json_index s (fw, a, Documents))"
  let ?inc = "incremental_db_data B (ix_database_data (load_json_index s (fw, a, Database))) dbd"
  obtain e1 s1 where d: "analyze_documents B svc True fw a ?det ?dix docs s = (e1, s1)"
    by (cases "analyze_documents B svc True fw a ?det ?dix docs s")
  obtain r2 c2 where r: "(if ?inc \<noteq> []
                          then analyze_database_data_relevance B svc a ?inc (calls s1)
                          else (Inr [], calls s1)) = (r2, c2)"
    by (cases "if ?inc \<noteq> [] then analyze_database_data_relevance B svc a ?inc (calls s1)
               else (Inr [], calls s1)")
  from assms d have e1: "e1 = None"
    by (cases e1) (simp_all add: analyze_audit_def Let_def)
  from assms d e1 r obtain res where r2: "r2 = Inr res"
    by (cases r2) (simp_all add: analyze_audit_def Let_def)
  have c1: "calls s1 = calls s @ map (\<lambda>d. DocumentEvidence a (fo_id d))
                   (filter (\<lambda>d. \<not> already_analyzed ?dix d) docs)"
    using analyze_documents_calls [of B svc fw a ?det ?dix docs s] d e1 by simp
  have c2: "c2 = calls s1
      @ concat (map (\<lambda>(t, records). map (RecordEvidence a t) (take 50 records)) ?inc)"
  proof (cases "?inc = []")
    case True
    with r show ?thesis by simp
  next
    case False
    with r r2 have "analyze_tables B svc a ?inc empty_results (calls s1) = (Inr res, c2)"
      by (simp add: analyze_database_data_relevance_def)
    from analyze_tables_calls [OF this] show ?thesis .
  qed
  have "calls (snd (analyze_audit B svc True fw docs dbd a s)) = c2"
    using d e1 r r2
    by (simp add: analyze_audit_def Let_def aggregate_and_dispatch_frame
        create_ai_evidence_frame index_results_frame)
  with c1 c2 show ?thesis by simp
qed


text \<open>
  C9, as stated, fails. An exception raised while the verdict of one candidate is
  handled is re-raised (\<^verbatim>\<open>raise\<close> in both handlers, lines 1665-1670 and 1941-1947) and
  ends the run: with a first answer whose score is the string \<^verbatim>\<open>"high"\<close>, the second
  incident row, and likewise the second document, is never analyzed.
\<close>

theorem C9_counterexample:
  "fst aborted_record_run = Some ValueError
   \<and> calls (snd aborted_record_run) = [RecordEvidence 426 ''incidents'' incident_record]
   \<and> fst aborted_document_run = Some TypeError
   \<and> calls (snd aborted_document_run) = [DocumentEvidence 426 1]"
  by code_simp

text \<open>
  C9, amended. A candidate for which the reasoning service gives no usable answer raises
  nothing, for a database record and for a document alike. As long as no exception is
  raised, the run of an audit asks the service about every candidate that it takes up,
  in order: every document that is not in the index yet, then, table by table, the first
  50 of the records that have a primary key and are not in the index yet. The new records
  of a table after the 50th are not taken up in that run. An exception raised while a
  verdict is handled ends the loop at that candidate, and the run with it, by design.
\<close>

theorem C9_no_verdict_does_not_abort:
  "analyze_record B t record None = Inr None
   \<and> (svc (length (calls s)) (DocumentEvidence a (fo_id doc)) = None \<longrightarrow>
        fst (analyze_document B svc True fw a det doc s) = None)
   \<and> (fst (analyze_documents B svc True fw a det indexed docs s) = None \<longrightarrow>
        calls (snd (analyze_documents B svc True fw a det indexed docs s))
          = calls s @ map (\<lambda>d. DocumentEvidence a (fo_id d))
                        (filter (\<lambda>d. \<not> already_analyzed indexed d) docs))
   \<and> (\<forall>res. fst (analyze_records B svc a t records cs) = Inr res \<longrightarrow>
        snd (analyze_records B svc a t records cs) = cs @ map (RecordEvidence a t) records)
   \<and> (\<forall>e. fst (analyze_records B svc a t records cs) = Inl e \<longrightarrow>
        (\<exists>k < length records.
           snd (analyze_records B svc a t records cs)
             = cs @ map (RecordEvidence a t) (take (Suc k) records)))
   \<and> (\<forall>res. fst (analyze_database_data_relevance B svc a database_data cs) = Inr res \<longrightarrow>
        snd (analyze_database_data_relevance B svc a database_data cs)
          = cs @ concat (map (\<lambda>(t, records). map (RecordEvidence a t) (take 50 records))
                           database_data))
   \<and> (fst (analyze_audit B svc True fw all_documents all_database_data a s) = None \<longrightarrow>
        calls (snd (analyze_audit B svc True fw all_documents all_database_data a s))
          = calls s
            @ map (\<lambda>d. DocumentEvidence a (fo_id d))
                (filter (\<lambda>d. \<not> already_analyzed
                                 (ix_documents (load_json_index s (fw, a, Documents))) d)
                   all_documents)
            @ concat (map (\<lambda>(t, records). map (RecordEvidence a t) (take 50 records))
                (incremental_db_data B
                   (ix_database_data (load_json_index s (fw, a, Database)))
                   all_database_data)))
   \<and> (\<forall>e. fst (analyze_documents B svc True fw a det indexed docs s) = Some e \<longrightarrow>
        (\<exists>k < length (filter (\<lambda>d. \<not> already_analyzed indexed d) docs).
           calls (snd (analyze_documents B svc True fw a det indexed docs s))
             = calls s @ map (\<lambda>d. DocumentEvidence a (fo_id d))
                 (take (Suc k) (filter (\<lambda>d. \<not> already_analyzed indexed d) docs))))
   \<and> (\<forall>e. fst (analyze_audit B svc True fw all_documents all_database_data (AuditId x) s)
            = Some e \<longrightarrow>
        analyze_audits B svc True fw all_documents all_database_data (x # audits) s
          = snd (analyze_audit B svc True fw all_documents all_database_data (AuditId x) s))"
proof -
  have c1: "analyze_record B t record None = Inr None"
    by (simp add: analyze_record_def)
  have c2: "svc (length (calls s)) (DocumentEvidence a (fo_id doc)) = None \<longrightarrow>
        fst (analyze_document B svc True fw a det doc s) = None"
    by (simp add: analyze_document_def analyze_document_audit_relevance_def)
  have c3: "fst (analyze_documents B svc True fw a det indexed docs s) = None \<longrightarrow>
        calls (snd (analyze_documents B svc True fw a det indexed docs s))
          = calls s @ map (\<lambda>d. DocumentEvidence a (fo_id d))
                        (filter (\<lambda>d. \<not> already_analyzed indexed d) docs)"
    using analyze_documents_calls by blast
  have c4: "\<forall>res. fst (analyze_records B svc a t records cs) = Inr res \<longrightarrow>
        snd (analyze_records B svc a t records cs) = cs @ map (RecordEvidence a t) records"
    using analyze_records_calls by (metis prod.collapse)
  have c5: "\<forall>e. fst (analyze_records B svc a t records cs) = Inl e \<longrightarrow>
        (\<exists>k < length records.
           snd (analyze_records B svc a t records cs)
             = cs @ map (RecordEvidence a t) (take (Suc k) records))"
    using analyze_records_abort by (metis prod.collapse)
  have c6: "\<forall>res. fst (analyze_database_data_relevance B svc a database_data cs) = Inr res \<longrightarrow>
        snd (analyze_database_data_relevance B svc a database_data cs)
          = cs @ concat (map (\<lambda>(t, records). map (RecordEvidence a t) (take 50 records))
                           database_data)"
  proof (intro allI impI)
    fix res
    assume "fst (analyze_database_data_relevance B svc a database_data cs) = Inr res"
    then have "analyze_tables B svc a database_data empty_results cs
        = (Inr res, snd (analyze_database_data_relevance B svc a database_data cs))"
      by (simp add: analyze_database_data_relevance_def prod_eq_iff)
    then show "snd (analyze_database_data_relevance B svc a database_data cs)
          = cs @ concat (map (\<lambda>(t, records). map (RecordEvidence a t) (take 50 records))
                           database_data)"
      by (rule analyze_tables_calls)
  qed
  have c7: "fst (analyze_audit B svc True fw all_documents all_database_data a s) = None \<longrightarrow>
        calls (snd (analyze_audit B svc True fw all_documents all_database_data a s))
          = calls s
            @ map (\<lambda>d. DocumentEvidence a (fo_id d))
                (filter (\<lambda>d. \<not> already_analyzed
                                 (ix_documents (load_json_index s (fw, a, Documents))) d)
                   all_documents)
            @ concat (map (\<lambda>(t, records). map (RecordEvidence a t) (take 50 records))
                (incremental_db_data B
                   (ix_database_data (load_json_index s (fw, a, Database)))
                   all_database_data))"
    by (intro impI) (rule analyze_audit_calls)
  have c8: "\<forall>e. fst (analyze_documents B svc True fw a det indexed docs s) = Some e \<longrightarrow>
        (\<exists>k < length (filter (\<lambda>d. \<not> already_analyzed indexed d) docs).
           calls (snd (analyze_documents B svc True fw a det indexed docs s))
             = calls s @ map (\<lambda>d. DocumentEvidence a (fo_id d))
                 (take (Suc k) (filter (\<lambda>d. \<not> already_analyzed indexed d) docs)))"
    by (intro allI impI) (rule analyze_documents_abort)
  have c9: "\<forall>e. fst (analyze_audit B svc True fw all_documents all_database_data (AuditId x) s)
            = Some e \<longrightarrow>
        analyze_audits B svc True fw all_documents all_database_data (x # audits) s
          = snd (analyze_audit B svc True fw all_documents all_database_data (AuditId x) s)"
    by (cases "analyze_audit B svc True fw all_documents all_database_data (AuditId x) s") auto
  show ?thesis
    by (intro conjI)
       (rule c1, rule c2, rule c3, rule c4, rule c5, rule c6, rule c7, rule c8, rule c9)
qed

theorem C9_no_verdict_does_not_abort_witness:
  "silent_first_service (sample_reply (9 / 10) [JInt 42]) (length (calls sample_state))
      (DocumentEvidence 426 (fo_id first_document)) = None
   \<and> fst (analyze_documents sample_builtins
        (silent_first_service (sample_reply (9 / 10) [JInt 42])) True 7 426
        (get_audit_details sample_db 426) [] [first_document, second_document] sample_state)
      = None
   \<and> calls (snd (analyze_documents sample_builtins
        (silent_first_service (sample_reply (9 / 10) [JInt 42])) True
        7 426 (get_audit_details sample_db 426) [] [first_document, second_document]
        sample_state))
      = [DocumentEvidence 426 1, DocumentEvidence 426 2]
   \<and> snd (analyze_records sample_builtins (silent_first_service (sample_reply (9 / 10) [JInt 42]))
        426 ''incidents'' [incident_record, second_incident_record] [])
      = [RecordEvidence 426 ''incidents'' incident_record,
         RecordEvidence 426 ''incidents'' second_incident_record]
   \<and> fst (analyze_records sample_builtins
        (malformed_first_service (sample_reply (9 / 10) [JInt 42]))
        426 ''incidents'' [incident_record, second_incident_record] []) = Inl ValueError
   \<and> length many_incidents = 51
   \<and> fst (analyze_audit sample_builtins silent_service True 7 [first_document, second_document]
        [(''incidents'', many_incidents)] 426 sample_state) = None
   \<and> calls (snd (analyze_audit sample_builtins silent_service True 7
        [first_document, second_document] [(''incidents'', many_incidents)] 426 sample_state))
      = [DocumentEvidence 426 1, DocumentEvidence 426 2]
        @ map (RecordEvidence 426 ''incidents'') (take 50 many_incidents)
   \<and> calls (analyze_audits sample_builtins
        (malformed_first_service (sample_reply (9 / 10) [JInt 42])) True 7
        [first_document, second_document] []
        [\<lparr>AuditId = 426, a_FrameworkId = Some 7, a_Status = Some ''In Progress''\<rparr>]
        sample_state)
      = [DocumentEvidence 426 1]"
proof -
  let ?ok = "silent_first_service (sample_reply (9 / 10) [JInt 42])"
  let ?bad = "malformed_first_service (sample_reply (9 / 10) [JInt 42])"
  let ?arow = "\<lparr>AuditId = 426, a_FrameworkId = Some 7, a_Status = Some ''In Progress''\<rparr>"
  have h1: "?ok (length (calls sample_state)) (DocumentEvidence 426 (fo_id first_document)) = None"
    by (simp add: silent_first_service_def sample_state_def)
  have h2: "fst (analyze_documents sample_builtins ?ok True 7 426 (get_audit_details sample_db 426) []
              [first_document, second_document] sample_state) = None"
    by code_simp
  have h3: "fst (analyze_records sample_builtins ?ok 426 ''incidents''
              [incident_record, second_incident_record] [])
            = Inr [dset (sample_reply (9 / 10) [JInt 42]) ''record_id'' (JInt 2)]"
    by code_simp
  have h4: "fst (analyze_records sample_builtins ?bad 426 ''incidents''
              [incident_record, second_incident_record] []) = Inl ValueError"
    by code_simp
  have h5: "length many_incidents = 51"
    by (simp add: many_incidents_def)
  have h6: "fst (analyze_audit sample_builtins silent_service True 7
              [first_document, second_document] [(''incidents'', many_incidents)] 426
              sample_state) = None"
    by code_simp
  have ids: "fo_id first_document = 1" "fo_id second_document = 2"
    by (simp_all add: first_document_def second_document_def)
  have no_index: "\<not> already_analyzed [] first_document" "\<not> already_analyzed [] second_document"
    by (simp_all add: already_analyzed_def analyzed_file_keys_def analyzed_operation_ids_def)
  have no_files: "ix_documents (load_json_index sample_state (7, 426, Documents)) = []"
    by (simp add: load_json_index_def sample_state_def empty_index_def)
  have inc: "incremental_db_data sample_builtins
          (ix_database_data (load_json_index sample_state (7, 426, Database)))
          [(''incidents'', many_incidents)] = [(''incidents'', many_incidents)]"
    by code_simp
  note T = C9_no_verdict_does_not_abort
        [where svc = ?ok and s = sample_state and a = 426 and doc = first_document and fw = 7
           and det = "get_audit_details sample_db 426" and indexed = "[]"
           and docs = "[first_document, second_document]" and B = sample_builtins
           and t = "''incidents''" and records = "[incident_record, second_incident_record]"
           and cs = "[]"]
  note U = C9_no_verdict_does_not_abort
        [where svc = silent_service and s = sample_state and a = 426 and fw = 7
           and B = sample_builtins and all_documents = "[first_document, second_document]"
           and all_database_data = "[(''incidents'', many_incidents)]"]
  have cs0: "calls sample_state = []"
    by (simp add: sample_state_def)
  have d: "calls (snd (analyze_documents sample_builtins ?ok True 7 426
              (get_audit_details sample_db 426) []
              [first_document, second_document] sample_state))
           = [DocumentEvidence 426 1, DocumentEvidence 426 2]"
    using T [THEN conjunct2, THEN conjunct2, THEN conjunct1, THEN mp, OF h2]
    by (simp only: cs0 ids no_index filter.simps list.map append_Nil if_True not_False_eq_True)
  have r: "snd (analyze_records sample_builtins ?ok 426 ''incidents''
              [incident_record, second_incident_record] [])
           = [RecordEvidence 426 ''incidents'' incident_record,
              RecordEvidence 426 ''incidents'' second_incident_record]"
    using T [THEN conjunct2, THEN conjunct2, THEN conjunct2, THEN conjunct1, rule_format, OF h3]
    by (simp only: list.map append_Nil)
  have u: "calls (snd (analyze_audit sample_builtins silent_service True 7
              [first_document, second_document] [(''incidents'', many_incidents)] 426
              sample_state))
           = [DocumentEvidence 426 1, DocumentEvidence 426 2]
             @ map (RecordEvidence 426 ''incidents'') (take 50 many_incidents)"
    using U [THEN conjunct2, THEN conjunct2, THEN conjunct2, THEN conjunct2, THEN conjunct2,
             THEN conjunct2, THEN conjunct1, THEN mp, OF h6]
    by (simp add: cs0 ids no_index no_files inc)
  have h7: "fst (analyze_audit sample_builtins ?bad True 7 [first_document, second_document] []
              (AuditId ?arow) sample_state) = Some TypeError"
    by code_simp
  have h8: "calls (snd (analyze_audit sample_builtins ?bad True 7
              [first_document, second_document] [] (AuditId ?arow) sample_state))
            = [DocumentEvidence 426 1]"
    by code_simp
  note V = C9_no_verdict_does_not_abort
        [where svc = ?bad and s = sample_state and fw = 7 and B = sample_builtins
           and all_documents = "[first_document, second_document]"
           and all_database_data = "[]" and x = ?arow and audits = "[]"]
  have w: "calls (analyze_audits sample_builtins ?bad True 7 [first_document, second_document] []
              [?arow] sample_state) = [DocumentEvidence 426 1]"
    using V [THEN conjunct2, THEN conjunct2, THEN conjunct2, THEN conjunct2, THEN conjunct2,
             THEN conjunct2, THEN conjunct2, THEN conjunct2, rule_format, OF h7]
    by (simp only: h8)
  show ?thesis
    by (intro conjI)
       (rule h1, rule h2, rule d, rule r, rule h4, rule h5, rule h6, rule u, rule w)
qed

section \<open>Aggregation and dispatch: properties\<close>

lemma all_db_scores_eq:
  "concat (map (\<lambda>(t, analyses). map re_relevance_score analyses) full) = record_scores full"
  by (induction full) (auto simp: record_scores_def)

lemma aggregate_and_dispatch_result:
  assumes "num_vals (map de_relevance_score documents @ record_scores full) = Some scores"
  shows "aggregate_and_dispatch a documents full s =
     (None,
      s\<lparr>log := log s @ OverallScore (max_list scores)
                 # (if max_list scores \<ge> 6 / 10
                    then [Classified (classify (documents \<noteq> []) (record_scores full \<noteq> []))]
                    else []),
        spawned := spawned s @
                 (if max_list scores \<ge> 6 / 10
                  then (case best_document documents of
                          None \<Rightarrow> []
                        | Some b \<Rightarrow> [AutoProcess (de_operation_id b) a (verdict_of b)])
                  else [])\<rparr>)"
  using assms
  by (simp add: aggregate_and_dispatch_def all_db_scores_eq overall_relevance_def Let_def
      verdict_of_def split: option.splits)

lemma aggregate_and_dispatch_no_exception:
  assumes "aggregate_and_dispatch a documents full s = (None, s')"
  shows "\<exists>scores. num_vals (map de_relevance_score documents @ record_scores full) = Some scores"
  using assms
  by (cases "num_vals (map de_relevance_score documents @ record_scores full)")
     (simp_all add: aggregate_and_dispatch_def all_db_scores_eq overall_relevance_def)


text \<open>
  C5, as stated, fails. The classification looks at which kinds of evidence have a verdict
  in the index, not at which kinds cleared the threshold: with a cached document at 0.1
  and a cached record at 0.7 the audit is classified as combined (and the document at 0.1
  is dispatched).
\<close>

theorem C5_counterexample:
  "fst (cached_run (1 / 10) (7 / 10)) = None
   \<and> log (snd (cached_run (1 / 10) (7 / 10))) = [OverallScore (7 / 10), Classified Combined]
   \<and> (1 / 10 :: rat) < 6 / 10"
  by code_simp

text \<open>
  C5, amended. In a run that finds every document already analyzed and ends without an
  exception, the overall score is the maximum of the relevance scores of all analyzed
  evidence of the audit, that is of every document and every record of the index as the
  run leaves it, the records analyzed during the run included (0 when there is none);
  and when that score reaches 0.6 the audit is classified into exactly one of
  no-evidence, document-only, database-only and combined, according to which kinds of
  evidence have a verdict in the index.
\<close>

theorem C5_overall_score_and_classification:
  assumes cached: "\<forall>doc \<in> set all_documents.
        already_analyzed (ix_documents (load_json_index s (fw, a, Documents))) doc"
    and run: "analyze_audit B svc av fw all_documents all_database_data a s = (None, s')"
  shows "\<exists>scores.
           num_vals (map de_relevance_score (ix_documents (load_json_index s' (fw, a, Documents)))
                     @ record_scores (ix_database_data (load_json_index s' (fw, a, Database))))
             = Some scores
         \<and> log s' = log s @ OverallScore (max_list scores)
               # (if max_list scores \<ge> 6 / 10
                  then [Classified (classify
                          (ix_documents (load_json_index s' (fw, a, Documents)) \<noteq> [])
                          (record_scores (ix_database_data (load_json_index s' (fw, a, Database)))
                             \<noteq> []))]
                  else [])
         \<and> (scores \<noteq> [] \<longrightarrow> max_list scores = Max (set scores))
         \<and> (scores = [] \<longrightarrow> max_list scores = 0)"
proof -
  let ?docs = "ix_documents (load_json_index s (fw, a, Documents))"
  let ?inc = "incremental_db_data B (ix_database_data (load_json_index s (fw, a, Database)))
                all_database_data"
  let ?R = "if ?inc \<noteq> [] then analyze_database_data_relevance B svc a ?inc (calls s)
            else (Inr [], calls s)"
  have docs: "analyze_documents B svc av fw a (get_audit_details (db s) a) ?docs all_documents s
      = (None, s)"
    using cached by (rule analyze_documents_all_cached)
  obtain res c2 where R: "?R = (res, c2)" by (cases ?R)
  from run docs R obtain r where r: "res = Inr r"
    by (cases res) (auto simp: analyze_audit_def Let_def)
  let ?s2 = "index_results fw a r (s\<lparr>calls := c2\<rparr>)"
  let ?full = "ix_database_data (load_json_index ?s2 (fw, a, Database))"
  let ?s3 = "create_ai_evidence_from_database_results B
               (Some (if id_truthy (ad_framework_id (get_audit_details (db s) a))
                      then id_or_0 (ad_framework_id (get_audit_details (db s) a)) else fw))
               a ?full ?s2"
  from run docs R r have agg: "aggregate_and_dispatch a ?docs ?full ?s3 = (None, s')"
    by (simp add: analyze_audit_def Let_def)
  from aggregate_and_dispatch_no_exception [OF agg] obtain scores where
    sc: "num_vals (map de_relevance_score ?docs @ record_scores ?full) = Some scores"
    by blast
  from agg have s': "s' = snd (aggregate_and_dispatch a ?docs ?full ?s3)" by simp
  have files': "files s' = files ?s2"
    unfolding s' by (simp add: aggregate_and_dispatch_result [OF sc] create_ai_evidence_frame)
  have log': "log s' = log s @ OverallScore (max_list scores)
               # (if max_list scores \<ge> 6 / 10
                  then [Classified (classify (?docs \<noteq> []) (record_scores ?full \<noteq> []))]
                  else [])"
    unfolding s'
    by (simp add: aggregate_and_dispatch_result [OF sc] create_ai_evidence_frame
        index_results_frame)
  have d': "load_json_index s' (fw, a, Documents) = load_json_index s (fw, a, Documents)"
    by (simp add: load_json_index_def files' index_results_frame)
  have b': "load_json_index s' (fw, a, Database) = load_json_index ?s2 (fw, a, Database)"
    by (simp add: load_json_index_def files')
  have m: "scores \<noteq> [] \<longrightarrow> max_list scores = Max (set scores)"
    by (simp add: max_list_Max)
  have z: "scores = [] \<longrightarrow> max_list scores = 0"
    by simp
  from sc log' m z show ?thesis
    unfolding d' b' by blast
qed

theorem C5_overall_score_and_classification_witness:
  "already_analyzed (ix_documents (load_json_index (cached_state (7 / 10) (3 / 4))
       (7, 426, Documents))) first_document
   \<and> fst (cached_run (7 / 10) (3 / 4)) = None
   \<and> log (snd (cached_run (7 / 10) (3 / 4))) = [OverallScore (3 / 4), Classified Combined]"
proof -
  have h1: "already_analyzed (ix_documents (load_json_index (cached_state (7 / 10) (3 / 4))
       (7, 426, Documents))) first_document"
    by code_simp
  then have h1': "\<forall>doc \<in> set [first_document].
      already_analyzed (ix_documents (load_json_index (cached_state (7 / 10) (3 / 4))
        (7, 426, Documents))) doc"
    by simp
  have h2: "fst (cached_run (7 / 10) (3 / 4)) = None"
    by code_simp
  then have h2': "analyze_audit sample_builtins (constant_service (sample_reply (9 / 10) [])) True 7
       [first_document] [(''incidents'', [incident_record])] 426 (cached_state (7 / 10) (3 / 4))
       = (None, snd (cached_run (7 / 10) (3 / 4)))"
    by (simp add: cached_run_def prod_eq_iff)
  have h3: "log (snd (cached_run (7 / 10) (3 / 4))) = [OverallScore (3 / 4), Classified Combined]"
    by code_simp
  from C5_overall_score_and_classification [OF h1' h2'] h1 h2 h3
  show ?thesis by (intro conjI)
qed

text \<open>
  C6, as stated, fails. With the document verdict at 0.7 and the record verdict at 0.75
  in the index, the overall score is 0.75, the classification is combined and one task is
  dispatched; but the task is \<^verbatim>\<open>_auto_process_relevant_document\<close> for the best
  document: it carries the operation id of the file and the verdict scored 0.7, and
  nothing about the record or about the combination. Carried out, it creates the
  evidence row of the document (row 2) and starts one compliance check, for that row.
  When both verdicts are produced in the same run, the one task of the run is the one
  started for the document when its verdict is stored.
\<close>

theorem C6_counterexample:
  "log (snd (cached_run (7 / 10) (3 / 4))) = [OverallScore (3 / 4), Classified Combined]
   \<and> spawned (snd (cached_run (7 / 10) (3 / 4)))
     = [AutoProcess (Some 1) 426 (verdict_of (sample_doc_entry (7 / 10)))]
   \<and> fo_id first_document = 1
   \<and> dget (verdict_of (sample_doc_entry (7 / 10))) ''relevance_score'' = JNum (7 / 10)
   \<and> (7 / 10 :: rat) < 3 / 4
   \<and> spawned (cached_run_processed (7 / 10) (3 / 4))
     = [AutoProcess (Some 1) 426 (verdict_of (sample_doc_entry (7 / 10))),
        ComplianceCheck 2 426]
   \<and> map evidence_summary (ai_audit_data (db (cached_run_processed (7 / 10) (3 / 4))))
     = [(426, Some ''database_record'', Some ''incidents:9'', Some 5, Some 12),
        (426, Some ''evidence_attachment'', Some ''1'', Some 5, Some 12)]
   \<and> map e_id (ai_audit_data (db (cached_run_processed (7 / 10) (3 / 4)))) = [1, 2]
   \<and> spawned (snd (fresh_run (7 / 10) (3 / 4)))
     = [TriggerProcessing 426, AutoProcess (Some 1) 426 (sample_reply (7 / 10) [JInt 42]),
        TriggerProcessing 426]"
  by code_simp

text \<open>
  C6, amended. Whenever the aggregation reads numeric scores whose maximum reaches 0.6 and
  there is at least one document verdict, it dispatches exactly one task, for a
  highest-scoring document, carrying that document's operation id and verdict, and the
  audit is classified as combined when there are record verdicts too. For one document at
  0.7 and one record at 0.75: overall score 0.75, combined, one task, for the document.
\<close>

theorem C6_dispatch_references_best_document:
  assumes "num_vals (map de_relevance_score documents @ record_scores full) = Some scores"
    and "max_list scores \<ge> 6 / 10"
    and "documents \<noteq> []"
  shows "\<exists>b. b \<in> set documents
            \<and> (\<forall>d \<in> set documents. score_key d \<le> score_key b)
            \<and> spawned (snd (aggregate_and_dispatch a documents full s))
                = spawned s @ [AutoProcess (de_operation_id b) a (verdict_of b)]
            \<and> log (snd (aggregate_and_dispatch a documents full s))
                = log s @ [OverallScore (max_list scores),
                           Classified (if record_scores full \<noteq> [] then Combined
                                       else DocumentOnly)]"
proof -
  from assms(3) obtain b where b: "best_document documents = Some b"
    using best_document_None [of documents] by (cases "best_document documents") auto
  from best_document_Some [OF b]
  have "b \<in> set documents" "\<forall>d \<in> set documents. score_key d \<le> score_key b"
    by simp_all
  moreover have "spawned (snd (aggregate_and_dispatch a documents full s))
                = spawned s @ [AutoProcess (de_operation_id b) a (verdict_of b)]"
    using assms(2) b by (simp add: aggregate_and_dispatch_result [OF assms(1)])
  moreover have "log (snd (aggregate_and_dispatch a documents full s))
                = log s @ [OverallScore (max_list scores),
                           Classified (if record_scores full \<noteq> [] then Combined
                                       else DocumentOnly)]"
    using assms(2,3) by (simp add: aggregate_and_dispatch_result [OF assms(1)] classify_def)
  ultimately show ?thesis by blast
qed



theorem C6_dispatch_references_best_document_witness:
  "num_vals (map de_relevance_score [sample_doc_entry (7 / 10)]
       @ record_scores [(''incidents'', [sample_entry ''incidents'' 9 (3 / 4) [JInt 42]])])
     = Some [7 / 10, 3 / 4]
   \<and> max_list [7 / 10, 3 / 4] \<ge> 6 / 10
   \<and> [sample_doc_entry (7 / 10)] \<noteq> []
   \<and> spawned (snd (aggregate_and_dispatch 426 [sample_doc_entry (7 / 10)]
        [(''incidents'', [sample_entry ''incidents'' 9 (3 / 4) [JInt 42]])] sample_state))
     = [AutoProcess (Some 1) 426 (verdict_of (sample_doc_entry (7 / 10)))]
   \<and> log (snd (aggregate_and_dispatch 426 [sample_doc_entry (7 / 10)]
        [(''incidents'', [sample_entry ''incidents'' 9 (3 / 4) [JInt 42]])] sample_state))
     = [OverallScore (3 / 4), Classified Combined]"
proof -
  have h1: "num_vals (map de_relevance_score [sample_doc_entry (7 / 10)]
       @ record_scores [(''incidents'', [sample_entry ''incidents'' 9 (3 / 4) [JInt 42]])])
     = Some [7 / 10, 3 / 4]"
    by (simp add: sample_doc_entry_def sample_entry_def record_scores_def)
  have h2: "max_list [7 / 10, 3 / 4] \<ge> 6 / 10"
    by simp
  have h3: "[sample_doc_entry (7 / 10)] \<noteq> []"
    by simp
  from C6_dispatch_references_best_document [OF h1 h2 h3, of 426 sample_state]
  have "spawned (snd (aggregate_and_dispatch 426 [sample_doc_entry (7 / 10)]
        [(''incidents'', [sample_entry ''incidents'' 9 (3 / 4) [JInt 42]])] sample_state))
     = spawned sample_state
         @ [AutoProcess (de_operation_id (sample_doc_entry (7 / 10))) 426
              (verdict_of (sample_doc_entry (7 / 10)))]
   \<and> log (snd (aggregate_and_dispatch 426 [sample_doc_entry (7 / 10)]
        [(''incidents'', [sample_entry ''incidents'' 9 (3 / 4) [JInt 42]])] sample_state))
     = log sample_state @ [OverallScore (max_list [7 / 10, 3 / 4]),
          Classified (if record_scores
             [(''incidents'', [sample_entry ''incidents'' 9 (3 / 4) [JInt 42]])] \<noteq> []
           then Combined else DocumentOnly)]"
    by simp
  then have "spawned (snd (aggregate_and_dispatch 426 [sample_doc_entry (7 / 10)]
        [(''incidents'', [sample_entry ''incidents'' 9 (3 / 4) [JInt 42]])] sample_state))
     = [AutoProcess (Some 1) 426 (verdict_of (sample_doc_entry (7 / 10)))]
   \<and> log (snd (aggregate_and_dispatch 426 [sample_doc_entry (7 / 10)]
        [(''incidents'', [sample_entry ''incidents'' 9 (3 / 4) [JInt 42]])] sample_state))
     = [OverallScore (3 / 4), Classified Combined]"
    by (simp add: sample_state_def sample_doc_entry_def record_scores_def)
  with h1 h2 h3 show ?thesis by (intro conjI) simp_all
qed

section \<open>Reruns: properties\<close>

lemma backfill_existing_keeps_key:
  "is_database_record (backfill_existing ex pp ps dn aj r) = is_database_record r
   \<and> provenance_key (backfill_existing ex pp ps dn aj r) = provenance_key r"
  by (simp add: backfill_existing_def Let_def is_database_record_def provenance_key_def)

lemma keys_map_backfill:
  "map provenance_key (filter is_database_record (map (backfill_existing ex pp ps dn aj) rows))
     = map provenance_key (filter is_database_record rows)"
  by (induction rows) (simp_all add: backfill_existing_keeps_key)

lemma find_None_iff_all: "find P xs = None \<longleftrightarrow> (\<forall>x \<in> set xs. \<not> P x)"
  by (induction xs) auto

lemma unique_insert_db_evidence:
  assumes "unique_db_evidence (ai_audit_data d)"
    and "find (is_db_evidence_of a ext) (ai_audit_data d) = None"
  shows "unique_db_evidence (ai_audit_data (insert_db_evidence fw a dn ext pp ps aj d))"
proof -
  have "\<forall>r \<in> set (ai_audit_data d). is_database_record r \<longrightarrow> provenance_key r \<noteq> (a, Some ext)"
    using assms(2)
    by (auto simp: find_None_iff_all is_db_evidence_of_def is_database_record_def
        provenance_key_def sql_eq_def split: option.splits)
  then have "(a, Some ext) \<notin> set (map provenance_key (filter is_database_record (ai_audit_data d)))"
    by auto
  with assms(1) show ?thesis
    by (simp add: unique_db_evidence_def insert_db_evidence_def Let_def is_database_record_def
        provenance_key_def sql_eq_def)
qed

lemma unique_upsert_db_evidence:
  assumes "unique_db_evidence (ai_audit_data (db s))"
  shows "unique_db_evidence (ai_audit_data (db (upsert_db_evidence B fw a t rid sc pc ps pp reason s)))"
proof (cases "find (is_db_evidence_of a (t @ '':'' @ str_of B (JInt rid))) (ai_audit_data (db s))")
  case None
  from unique_insert_db_evidence [OF assms None]
  show ?thesis
    using None
    by (simp add: upsert_db_evidence_def Let_def update_checklist_evidence)
next
  case (Some ex)
  with assms show ?thesis
    by (simp add: upsert_db_evidence_def Let_def unique_db_evidence_def keys_map_backfill)
qed

lemma unique_db_evidence_mapped:
  "unique_db_evidence (ai_audit_data (db s)) \<Longrightarrow>
   unique_db_evidence (ai_audit_data (db (db_evidence_mapped B fw a t an rid sc s)))"
  by (simp add: db_evidence_mapped_def unique_upsert_db_evidence
      split: sum.splits option.splits prod.splits)

lemma unique_db_evidence_step:
  "unique_db_evidence (ai_audit_data (db s)) \<Longrightarrow>
   unique_db_evidence (ai_audit_data (db (db_evidence_step B fw a t an s)))"
  by (simp add: db_evidence_step_def unique_db_evidence_mapped split: sum.splits option.splits)

lemma unique_db_evidence_table:
  "unique_db_evidence (ai_audit_data (db s)) \<Longrightarrow>
   unique_db_evidence (ai_audit_data (db (db_evidence_table B fw a t ans s)))"
  by (induction ans arbitrary: s) (simp_all add: unique_db_evidence_step)

lemma unique_db_evidence_tables:
  "unique_db_evidence (ai_audit_data (db s)) \<Longrightarrow>
   unique_db_evidence (ai_audit_data (db (db_evidence_tables B fw a res s)))"
  by (induction res arbitrary: s) (auto simp: unique_db_evidence_table)

lemma unique_create_ai_evidence:
  "unique_db_evidence (ai_audit_data (db s)) \<Longrightarrow>
   unique_db_evidence (ai_audit_data (db (create_ai_evidence_from_database_results B fwo a res s)))"
  by (simp add: create_ai_evidence_from_database_results_def unique_db_evidence_tables
      split: option.splits)


lemma db_analyze_documents:
  "db (snd (analyze_documents B svc av fw a det indexed docs s)) = db s"
proof (induction docs arbitrary: s)
  case Nil
  then show ?case by simp
next
  case (Cons doc docs)
  show ?case
  proof (cases "already_analyzed indexed doc")
    case True
    with Cons show ?thesis by simp
  next
    case False
    obtain e s1 where r: "analyze_document B svc av fw a det doc s = (e, s1)"
      by (cases "analyze_document B svc av fw a det doc s")
    then have "db s1 = db s"
      using db_analyze_document [of B svc av fw a det doc s] by simp
    with Cons.IH [of s1] False r show ?thesis
      by (cases e) simp_all
  qed
qed

lemma unique_analyze_audit:
  assumes "unique_db_evidence (ai_audit_data (db s))"
  shows "unique_db_evidence
           (ai_audit_data (db (snd (analyze_audit B svc av fw docs data a s))))"
proof -
  let ?docs = "ix_documents (load_json_index s (fw, a, Documents))"
  obtain e1 s1 where d: "analyze_documents B svc av fw a (get_audit_details (db s) a) ?docs docs s
      = (e1, s1)"
    by (cases "analyze_documents B svc av fw a (get_audit_details (db s) a) ?docs docs s")
  then have db1: "db s1 = db s"
    using db_analyze_documents [of B svc av fw a "get_audit_details (db s) a" ?docs docs s] by simp
  show ?thesis
  proof (cases e1)
    case (Some e)
    with d db1 assms show ?thesis
      by (simp add: analyze_audit_def Let_def)
  next
    case None
    let ?inc = "incremental_db_data B (ix_database_data (load_json_index s (fw, a, Database))) data"
    let ?R = "if ?inc \<noteq> [] then analyze_database_data_relevance B svc a ?inc (calls s1)
              else (Inr [], calls s1)"
    obtain res c2 where R: "?R = (res, c2)" by (cases ?R)
    show ?thesis
    proof (cases res)
      case (Inl e)
      with d None R db1 assms show ?thesis
        by (simp add: analyze_audit_def Let_def)
    next
      case (Inr r)
      let ?s2 = "index_results fw a r (s1\<lparr>calls := c2\<rparr>)"
      have "db ?s2 = db s"
        by (simp add: index_results_frame db1)
      with assms have "unique_db_evidence (ai_audit_data (db ?s2))" by simp
      from unique_create_ai_evidence [OF this]
      show ?thesis
        using d None R Inr
        by (simp add: analyze_audit_def Let_def aggregate_and_dispatch_frame)
    qed
  qed
qed

lemma new_records_empty:
  assumes "\<forall>record \<in> set records. \<forall>i. get_db_record_id B t record = Some i
             \<longrightarrow> i \<in> seen_ids db_data t"
  shows "new_records B db_data t records = []"
  using assms
  by (auto simp: new_records_def filter_empty_conv split: option.splits)

lemma incremental_db_data_empty:
  assumes "\<forall>(t, records) \<in> set data. \<forall>record \<in> set records. \<forall>i.
             get_db_record_id B t record = Some i \<longrightarrow> i \<in> seen_ids db_data t"
  shows "incremental_db_data B db_data data = []"
  using assms
proof (induction data)
  case Nil
  then show ?case by (simp add: incremental_db_data_def)
next
  case (Cons p data)
  obtain t records where p: "p = (t, records)" by (cases p)
  from Cons.prems p have "new_records B db_data t records = []"
    by (intro new_records_empty) auto
  moreover from Cons have "incremental_db_data B db_data data = []" by simp
  ultimately show ?case
    using p by (simp add: incremental_db_data_def)
qed

text \<open>
  C4, as stated, fails. A document matched to two compliances gets two evidence rows
  with the same audit and provenance, one per compliance. And a candidate that got no
  verdict in the first run is not in the index: the second run analyzes it again and,
  with an answer this time, changes the index.
\<close>

theorem C4_counterexample:
  "spawned two_compliances_run
     = [TriggerProcessing 426, AutoProcess (Some 1) 426 (sample_reply (9 / 10) [JInt 30, JInt 31])]
   \<and> map evidence_summary (ai_audit_data (db two_compliances_processed))
     = [(426, Some ''evidence_attachment'', Some ''1'', Some 5, Some 12),
        (426, Some ''evidence_attachment'', Some ''1'', Some 5, Some 12)]
   \<and> calls unanswered_run = [DocumentEvidence 426 1]
   \<and> files unanswered_run (7, 426, Documents) = None
   \<and> calls unanswered_rerun = [DocumentEvidence 426 1, DocumentEvidence 426 1]
   \<and> map entry_content_key (ix_documents (load_json_index unanswered_rerun (7, 426, Documents)))
     = [Some ''k/a.pdf'']"
  by code_simp

text \<open>
  C4, amended. A run for an audit whose index covers the evidence set (every document is
  already analyzed, and every record that has a key is in the index of its table, as
  after a run in which every candidate got its verdict) analyzes no evidence and leaves
  both files of the index identical. And no run creates a duplicate evidence row for a
  database record: if there is at most one row per audit and provenance before a run,
  there is at most one after it, so also after any number of reruns.
\<close>

theorem C4_rerun_on_covered_index:
  "((\<forall>doc \<in> set all_documents.
        already_analyzed (ix_documents (load_json_index s (fw, a, Documents))) doc)
    \<and> (\<forall>(t, records) \<in> set all_database_data. \<forall>record \<in> set records. \<forall>i.
          get_db_record_id B t record = Some i
            \<longrightarrow> i \<in> seen_ids (ix_database_data (load_json_index s (fw, a, Database))) t)
    \<longrightarrow> calls (snd (analyze_audit B svc av fw all_documents all_database_data a s)) = calls s
        \<and> files (snd (analyze_audit B svc av fw all_documents all_database_data a s)) = files s)
   \<and> (unique_db_evidence (ai_audit_data (db s))
        \<longrightarrow> unique_db_evidence
              (ai_audit_data (db (snd (analyze_audit B svc av fw all_documents
                 all_database_data a s)))))"
proof -
  have rerun: "calls (snd (analyze_audit B svc av fw all_documents all_database_data a s)) = calls s
        \<and> files (snd (analyze_audit B svc av fw all_documents all_database_data a s)) = files s"
    if docs: "\<forall>doc \<in> set all_documents.
        already_analyzed (ix_documents (load_json_index s (fw, a, Documents))) doc"
      and recs: "\<forall>(t, records) \<in> set all_database_data. \<forall>record \<in> set records. \<forall>i.
          get_db_record_id B t record = Some i
            \<longrightarrow> i \<in> seen_ids (ix_database_data (load_json_index s (fw, a, Database))) t"
  proof -
    have d: "analyze_documents B svc av fw a (get_audit_details (db s) a)
               (ix_documents (load_json_index s (fw, a, Documents))) all_documents s = (None, s)"
      using docs by (rule analyze_documents_all_cached)
    have i: "incremental_db_data B (ix_database_data (load_json_index s (fw, a, Database)))
               all_database_data = []"
      using recs by (rule incremental_db_data_empty)
    show ?thesis
      by (simp add: analyze_audit_def Let_def d i aggregate_and_dispatch_frame
          create_ai_evidence_frame)
  qed
  have uniq: "unique_db_evidence (ai_audit_data (db s))
        \<longrightarrow> unique_db_evidence
              (ai_audit_data (db (snd (analyze_audit B svc av fw all_documents
                 all_database_data a s))))"
    using unique_analyze_audit by blast
  from rerun uniq show ?thesis by blast
qed

theorem C4_rerun_on_covered_index_witness:
  "already_analyzed (ix_documents (load_json_index covered_state (7, 426, Documents)))
      first_document
   \<and> get_db_record_id sample_builtins ''incidents'' incident_record = Some 9
   \<and> 9 \<in> seen_ids (ix_database_data (load_json_index covered_state (7, 426, Database)))
            ''incidents''
   \<and> unique_db_evidence (ai_audit_data (db covered_state))
   \<and> calls (snd rerun) = calls covered_state
   \<and> files (snd rerun) = files covered_state
   \<and> unique_db_evidence (ai_audit_data (db (snd rerun)))"
proof -
  have h1: "already_analyzed (ix_documents (load_json_index covered_state (7, 426, Documents)))
      first_document"
    by code_simp
  have h2: "get_db_record_id sample_builtins ''incidents'' incident_record = Some 9"
    by code_simp
  have h3: "9 \<in> seen_ids (ix_database_data (load_json_index covered_state (7, 426, Database)))
            ''incidents''"
    by code_simp
  have h4: "unique_db_evidence (ai_audit_data (db covered_state))"
    by code_simp
  have docs: "\<forall>doc \<in> set [first_document].
      already_analyzed (ix_documents (load_json_index covered_state (7, 426, Documents))) doc"
    using h1 by simp
  have recs: "\<forall>(t, records) \<in> set [(''incidents'', [incident_record])].
      \<forall>record \<in> set records. \<forall>i.
        get_db_record_id sample_builtins t record = Some i
          \<longrightarrow> i \<in> seen_ids (ix_database_data (load_json_index covered_state (7, 426, Database))) t"
    using h2 h3 by simp
  note T = C4_rerun_on_covered_index
      [where s = covered_state and fw = 7 and a = 426 and B = sample_builtins
         and all_documents = "[first_document]"
         and all_database_data = "[(''incidents'', [incident_record])]"
         and svc = "kind_service (sample_reply (7 / 10) [JInt 42]) (sample_reply (3 / 4) [JInt 42])"
         and av = True, folded rerun_def]
  from T [THEN conjunct1, THEN mp, OF conjI, OF docs recs]
  have c: "calls (snd rerun) = calls covered_state \<and> files (snd rerun) = files covered_state" .
  from T [THEN conjunct2, THEN mp, OF h4]
  have u: "unique_db_evidence (ai_audit_data (db (snd rerun)))" .
  from h1 h2 h3 h4 c u show ?thesis by (intro conjI) simp_all
qed

end
